(* ===== verification/Prelude.thy ===== *)
theory Prelude
  imports Complex_Main "HOL-Library.Sublist" "HOL-Library.AList"
begin

text \<open>
  Shared vocabulary of the development: the JavaScript string primitives that
  \<open>App.tsx\<close> calls (\<open>indexOf\<close>, \<open>includes\<close>, \<open>replace\<close> with a string
  pattern, \<open>trim\<close>, \<open>endsWith\<close>), the array idioms it uses on React state
  (\<open>findIndex\<close>, updating the last element), and the lemmas about them that the
  component theories share. Strings are byte lists (\<open>string = char list\<close>); the
  markers and keywords the program searches for are ASCII, so matching on bytes
  and matching on UTF-16 code units find the same occurrences.
\<close>

named_theorems js_str "evaluation and decomposition rules of the JavaScript string model"

subsection \<open>\<open>String.prototype.indexOf\<close> and \<open>includes\<close>\<close>

text \<open>\<open>s.indexOf(p)\<close>: the first position at which \<open>p\<close> occurs in \<open>s\<close>;
  \<open>None\<close> stands for the JavaScript result \<open>-1\<close>. The empty pattern occurs at 0.\<close>

fun index_of :: "string \<Rightarrow> string \<Rightarrow> nat option" where
  "index_of [] p = (if p = [] then Some 0 else None)"
| "index_of (c # s) p = (if prefix p (c # s) then Some 0 else map_option Suc (index_of s p))"

text \<open>\<open>s.includes(p)\<close>.\<close>

definition str_includes :: "string \<Rightarrow> string \<Rightarrow> bool" where
  "str_includes s p \<longleftrightarrow> sublist p s"

text \<open>\<open>s.replace(p, r)\<close> with a string pattern: only the first occurrence is
  replaced; no occurrence leaves \<open>s\<close> as it is.\<close>

definition replace_first :: "string \<Rightarrow> string \<Rightarrow> string \<Rightarrow> string" where
  "replace_first s p r =
     (case index_of s p of
        None \<Rightarrow> s
      | Some i \<Rightarrow> take i s @ r @ drop (i + length p) s)"

text \<open>\<open>s.endsWith(p)\<close>.\<close>

definition ends_with :: "string \<Rightarrow> string \<Rightarrow> bool" where
  "ends_with s p \<longleftrightarrow> suffix p s"

subsection \<open>\<open>String.prototype.trim\<close>\<close>

text \<open>The ASCII white space and line terminators of ECMAScript (tab, line feed,
  vertical tab, form feed, carriage return, space).\<close>

definition is_ws :: "char \<Rightarrow> bool" where
  "is_ws c \<longleftrightarrow> c \<in> set [CHR 0x09, CHR 0x0A, CHR 0x0B, CHR 0x0C, CHR 0x0D, CHR 0x20]"

definition trim :: "string \<Rightarrow> string" where
  "trim s = rev (dropWhile is_ws (rev (dropWhile is_ws s)))"

subsection \<open>Array idioms on React state\<close>

text \<open>\<open>xs.findIndex(p)\<close>, with \<open>None\<close> for \<open>-1\<close>.\<close>

fun find_index :: "('a \<Rightarrow> bool) \<Rightarrow> 'a list \<Rightarrow> nat option" where
  "find_index P [] = None"
| "find_index P (x # xs) = (if P x then Some 0 else map_option Suc (find_index P xs))"

text \<open>\<open>updated[prev.length - 1] = f(updated[prev.length - 1])\<close>: the last element
  is replaced; the program only does this on non-empty lists.\<close>

definition update_last :: "('a \<Rightarrow> 'a) \<Rightarrow> 'a list \<Rightarrow> 'a list" where
  "update_last f xs = (if xs = [] then [] else butlast xs @ [f (last xs)])"

subsection \<open>Lemmas on \<open>index_of\<close>\<close>

lemma index_of_None_iff [js_str]: "index_of s p = None \<longleftrightarrow> \<not> sublist p s"
  by (induction s) (auto simp: sublist_Cons_right)

lemma not_sublist_drop [js_str]: "\<not> sublist p s \<Longrightarrow> \<not> sublist p (drop k s)"
  using sublist_order.order_trans [OF _ sublist_drop] by blast

lemma not_sublist_take [js_str]: "\<not> sublist p s \<Longrightarrow> \<not> sublist p (take k s)"
  using sublist_order.order_trans [OF _ sublist_take] by blast

lemma str_includes_index_of: "str_includes s p \<longleftrightarrow> index_of s p \<noteq> None"
  by (simp add: str_includes_def index_of_None_iff)

lemma index_of_Some_split:
  "index_of s p = Some i \<Longrightarrow> s = take i s @ p @ drop (i + length p) s"
proof (induction s arbitrary: i)
  case Nil
  then show ?case by (simp split: if_splits)
next
  case (Cons c s)
  then show ?case
    by (auto split: if_splits simp: prefix_def)
qed

lemma index_of_Some_bound:
  "index_of s p = Some i \<Longrightarrow> i + length p \<le> length s"
proof (induction s arbitrary: i)
  case Nil
  then show ?case by (simp split: if_splits)
next
  case (Cons c s)
  then show ?case
    by (auto split: if_splits dest: prefix_length_le)
qed

lemma prefix_append_shorten:
  assumes "prefix p (x @ y)" and "x \<noteq> []"
  shows "prefix p (x @ take (length p - 1) y)"
proof -
  from assms(1) have "p = take (length p) (x @ y)"
    by (metis append_eq_conv_conj prefix_def)
  moreover have "length p - length x \<le> length p - 1"
    using assms(2) by (cases x) auto
  then have "take (length p) (x @ y) = take (length p) (x @ take (length p - 1) y)"
    by (simp add: min_absorb1)
  ultimately show ?thesis
    by (metis take_is_prefix)
qed

lemma index_of_append_left [js_str]:
  "\<not> sublist p (a @ take (length p - 1) b) \<Longrightarrow>
     index_of (a @ b) p = map_option ((+) (length a)) (index_of b p)"
proof (induction a)
  case Nil
  then show ?case by (simp add: option.map_ident)
next
  case (Cons c a)
  from Cons.prems have np: "\<not> prefix p ((c # a) @ b)"
    by (metis prefix_append_shorten list.distinct(1) prefix_imp_sublist)
  from Cons.prems have "\<not> sublist p (a @ take (length p - 1) b)"
    by (metis append_Cons sublist_Cons_right)
  with Cons.IH np show ?case
    by (simp add: option.map_comp comp_def)
qed

lemma index_of_prefix [js_str]: "prefix p s \<Longrightarrow> index_of s p = Some 0"
  by (cases s) auto

text \<open>A pattern is borderless when no proper non-empty prefix of it is also a
  suffix of it. Then an occurrence cannot straddle the end of a text that has none
  and the start of a copy of the pattern.\<close>

definition borderless :: "string \<Rightarrow> bool" where
  "borderless p \<longleftrightarrow> list_all (\<lambda>k. take k p \<noteq> drop (length p - k) p) [1..<length p]"

lemma borderless_no_straddle:
  assumes b: "borderless p" and na: "\<not> sublist p a"
  shows "\<not> sublist p (a @ butlast p)"
proof
  assume "sublist p (a @ butlast p)"
  then consider "sublist p a" | "sublist p (butlast p)"
    | xs1 xs2 where "p = xs1 @ xs2" "suffix xs1 a" "prefix xs2 (butlast p)"
    by (auto simp: sublist_append)
  then show False
  proof cases
    case 1
    with na show False by simp
  next
    case 2
    from na have "p \<noteq> []" by auto
    moreover from 2 have "length p \<le> length (butlast p)"
      by (rule sublist_length_le)
    moreover from \<open>p \<noteq> []\<close> have "0 < length p" by simp
    ultimately show False by (simp only: length_butlast)
  next
    case 3
    from na have pn: "p \<noteq> []" by auto
    show False
    proof (cases "xs2 = []")
      case True
      with 3 na show False by auto
    next
      case False
      from 3 have l2: "length xs2 \<le> length p - 1"
        by (metis length_butlast prefix_length_le)
      from 3(3) obtain z where "butlast p = xs2 @ z"
        by (auto simp: prefix_def)
      then have "p = xs2 @ z @ [last p]"
        using pn by (metis append_butlast_last_id append.assoc)
      then have t: "xs2 = take (length xs2) p"
        by (metis append_eq_conv_conj)
      from 3 have d: "xs2 = drop (length p - length xs2) p"
        by simp
      have lp: "0 < length p" using pn by simp
      have "1 \<le> length xs2" using False by (cases xs2) auto
      moreover have "length xs2 < length p" using l2 lp by linarith
      ultimately have "length xs2 \<in> set [1..<length p]" by simp
      with b have "take (length xs2) p \<noteq> drop (length p - length xs2) p"
        unfolding borderless_def list_all_iff by blast
      with t d show False by simp
    qed
  qed
qed

lemma index_of_append_prefix:
  "\<not> sublist p (a @ take (length p - 1) (p @ c)) \<Longrightarrow> index_of (a @ p @ c) p = Some (length a)"
  by (simp add: index_of_append_left index_of_prefix)

lemma index_of_borderless [js_str]:
  assumes "borderless p" and "\<not> sublist p a"
  shows "index_of (a @ p @ c) p = Some (length a)"
proof -
  have "take (length p - 1) (p @ c) = butlast p"
    by (simp add: butlast_conv_take)
  with borderless_no_straddle [OF assms] show ?thesis
    by (simp add: index_of_append_prefix)
qed

subsection \<open>Lemmas on \<open>replace_first\<close> and \<open>trim\<close>\<close>

lemma replace_first_absent [js_str]: "\<not> sublist p s \<Longrightarrow> replace_first s p r = s"
  by (simp add: replace_first_def index_of_None_iff [THEN iffD2])


lemma ends_with_rev [js_str]: "ends_with s p \<longleftrightarrow> prefix (rev p) (rev s)"
  by (simp add: ends_with_def suffix_to_prefix)

subsection \<open>Lemmas on \<open>find_index\<close>\<close>

lemma find_index_None_iff: "find_index P xs = None \<longleftrightarrow> (\<forall>x \<in> set xs. \<not> P x)"
  by (induction xs) auto

lemma find_index_Some: "find_index P xs = Some i \<Longrightarrow> i < length xs \<and> P (xs ! i)"
  by (induction xs arbitrary: i) (auto split: if_splits)

lemma find_index_distinct_nth:
  "distinct xs \<Longrightarrow> i < length xs \<Longrightarrow> find_index (\<lambda>x. x = xs ! i) xs = Some i"
proof (induction xs arbitrary: i)
  case Nil
  then show ?case by simp
next
  case (Cons y ys)
  then show ?case
    by (cases i) (auto simp: nth_mem)
qed

lemma find_index_Cons_update:
  "(case find_index P (x # xs) of Some i \<Rightarrow> (x # xs)[i := y] | None \<Rightarrow> (x # xs) @ [y])
   = (if P x then y # xs else x # (case find_index P xs of Some i \<Rightarrow> xs[i := y] | None \<Rightarrow> xs @ [y]))"
  by (cases "find_index P xs") auto

subsection \<open>Lemmas on \<open>update_last\<close>\<close>

lemma update_last_snoc [simp]: "update_last f (xs @ [x]) = xs @ [f x]"
  by (simp add: update_last_def)

lemma update_last_length [simp]: "length (update_last f xs) = length xs"
  by (simp add: update_last_def)

lemma update_last_Nil_iff [simp]: "update_last f xs = [] \<longleftrightarrow> xs = []"
  by (simp add: update_last_def)

lemma last_update_last [simp]: "xs \<noteq> [] \<Longrightarrow> last (update_last f xs) = f (last xs)"
  by (simp add: update_last_def)

lemma butlast_update_last [simp]: "butlast (update_last f xs) = butlast xs"
  by (simp add: update_last_def)

lemma map_update_last:
  "(\<And>x. f (g x) = f x) \<Longrightarrow> map f (update_last g xs) = map f xs"
  by (cases xs rule: rev_cases) (simp_all add: update_last_def)

lemma update_last_comp: "update_last f (update_last g xs) = update_last (f \<circ> g) xs"
  by (simp add: update_last_def)

end
