(* ===== verification/Messages.thy ===== *)
theory Messages
  imports Prelude
begin

text \<open>
  The conversation log of \<open>App.tsx\<close>: the \<open>Message\<close> type (lines 24-29), the
  fixed \<open>INITIAL_CONVERSATION\<close> (lines 40-46), and the pure updaters that the
  handlers pass to \<open>setConversation\<close>: \<open>toggleThought\<close> (lines 161-167), the
  cancellation notice of \<open>stopGeneration\<close> (lines 421-433) and the turns
  appended by \<open>handleSendMessage\<close> (lines 506-539). Its invariant is the shape
  of the log: the system turn, then user/assistant pairs.
\<close>

datatype role = User | Assistant | System

text \<open>\<open>Alert.alert(title, message)\<close>: a dialog the user sees.\<close>

datatype alert = Alert string string

text \<open>\<open>thought?: string\<close> is an option; \<open>showThought?: boolean\<close> is read only
  for its truth value (\<open>msg.showThought ? ... : ...\<close>, \<open>!msg.showThought\<close>), so
  \<open>undefined\<close> is modelled as \<open>False\<close>.\<close>

record message =
  role :: role
  content :: string
  thought :: "string option"
  showThought :: bool

definition system_prompt :: string where
  "system_prompt = ''This is a conversation between user and assistant, a friendly chatbot.''"

definition INITIAL_CONVERSATION :: "message list" where
  "INITIAL_CONVERSATION =
     [\<lparr>role = System, content = system_prompt, thought = None, showThought = False\<rparr>]"

text \<open>\<open>{ role: "user", content: userInput }\<close> (line 508).\<close>

definition user_message :: "string \<Rightarrow> message" where
  "user_message s = \<lparr>role = User, content = s, thought = None, showThought = False\<rparr>"

text \<open>The placeholder of the assistant's answer (lines 531-539).\<close>

definition assistant_placeholder :: message where
  "assistant_placeholder = \<lparr>role = Assistant, content = [], thought = None, showThought = False\<rparr>"

text \<open>\<open>toggleThought(messageIndex)\<close>: \<open>prev.map((msg, index) => index === messageIndex
  ? {...msg, showThought: !msg.showThought} : msg)\<close>.\<close>

definition toggleThought :: "nat \<Rightarrow> message list \<Rightarrow> message list" where
  "toggleThought i prev =
     map (\<lambda>(msg, index). if index = i then msg\<lparr>showThought := \<not> showThought msg\<rparr> else msg)
       (zip prev [0..<length prev])"

text \<open>The notice \<open>"\n\n*Generation stopped by user*"\<close> (line 428).\<close>

definition stop_notice :: string where
  "stop_notice = [CHR 0x0A, CHR 0x0A] @ ''*Generation stopped by user*''"

text \<open>The updater of \<open>stopGeneration\<close> (lines 421-433): the notice is appended to
  the last turn when that turn is the assistant's.\<close>

definition append_stop_notice :: "message list \<Rightarrow> message list" where
  "append_stop_notice prev =
     (if prev \<noteq> [] \<and> role (last prev) = Assistant
      then butlast prev @ [(last prev)\<lparr>content := content (last prev) @ stop_notice\<rparr>]
      else prev)"

subsection \<open>Shape of the log\<close>

fun turn_roles :: "role list \<Rightarrow> bool" where
  "turn_roles [] = True"
| "turn_roles (User # Assistant # rest) = turn_roles rest"
| "turn_roles _ = False"

definition conv_shape :: "message list \<Rightarrow> bool" where
  "conv_shape c \<longleftrightarrow> (case map role c of System # rs \<Rightarrow> turn_roles rs | _ \<Rightarrow> False)"

lemma turn_roles_snoc: "turn_roles rs \<Longrightarrow> turn_roles (rs @ [User, Assistant])"
  by (induction rs rule: turn_roles.induct) auto

lemma conv_shape_roles: "map role c = map role c' \<Longrightarrow> conv_shape c = conv_shape c'"
  by (simp add: conv_shape_def)

lemma conv_shape_INITIAL [simp]: "conv_shape INITIAL_CONVERSATION"
  by (simp add: conv_shape_def INITIAL_CONVERSATION_def)

lemma conv_shape_send:
  "conv_shape c \<Longrightarrow> conv_shape (c @ [user_message x, assistant_placeholder])"
  by (auto simp: conv_shape_def user_message_def assistant_placeholder_def turn_roles_snoc
      split: list.splits role.splits)

lemma conv_shape_nonempty: "conv_shape c \<Longrightarrow> c \<noteq> []"
  by (auto simp: conv_shape_def)

lemma toggleThought_update:
  "toggleThought i c =
     (if i < length c then c[i := (c ! i)\<lparr>showThought := \<not> showThought (c ! i)\<rparr>] else c)"
  by (rule nth_equalityI) (auto simp: toggleThought_def nth_list_update)

lemma roles_toggleThought [simp]: "map role (toggleThought i c) = map role c"
  by (simp add: toggleThought_update map_update list_update_same_conv)

lemma roles_append_stop_notice [simp]: "map role (append_stop_notice c) = map role c"
  by (cases c rule: rev_cases) (simp_all add: append_stop_notice_def)

lemma turn_roles_nth:
  "turn_roles rs \<Longrightarrow> j < length (filter (\<lambda>r. r = Assistant) rs) \<Longrightarrow>
     2 * j + 1 < length rs \<and> rs ! (2 * j + 1) = Assistant"
proof (induction rs arbitrary: j rule: turn_roles.induct)
  case (2 rest)
  then show ?case by (cases j) auto
qed auto

end
