(* ===== verification/ThinkParser.thy ===== *)
theory ThinkParser
  imports Messages
begin

text \<open>
  The token callback of \<open>handleSendMessage\<close> (\<open>App.tsx\<close> lines 540-607): the
  per-turn stream state (\<open>currentAssistantMessage\<close>, \<open>currentThought\<close>,
  \<open>inThinkBlock\<close>), the reasoning markers, the regular-expression strip
  \<open>/<think>.*?<\/think>/gs\<close> (line 592) and the two \<open>setConversation\<close>
  updaters each token triggers. The callback has no carry buffer: a marker is
  recognised only when one token contains it whole.
\<close>

abbreviation THINK_OPEN :: string where "THINK_OPEN \<equiv> ''<think>''"
abbreviation THINK_CLOSE :: string where "THINK_CLOSE \<equiv> ''</think>''"

subsection \<open>The regular expression \<open>/<think>.*?<\/think>/gs\<close>\<close>

text \<open>
  \<open>s.replace(/<think>.*?<\/think>/gs, "")\<close>: the global, lazy, dot-all match
  removes, from left to right, each first \<open><think>\<close> together with everything up
  to the first \<open></think>\<close> after it, and resumes the scan after that closer. When
  the first remaining \<open><think>\<close> has no closer after it, no later one has either,
  and the rest of the text is kept.
\<close>

function strip_think :: "string \<Rightarrow> string" where
  "strip_think s =
     (case index_of s THINK_OPEN of
        None \<Rightarrow> s
      | Some i \<Rightarrow>
          (case index_of (drop (i + length THINK_OPEN) s) THINK_CLOSE of
             None \<Rightarrow> s
           | Some j \<Rightarrow>
               take i s @ strip_think (drop (j + length THINK_CLOSE) (drop (i + length THINK_OPEN) s))))"
  by pat_completeness auto
termination
proof (relation "measure length")
  fix s i j
  assume "index_of s THINK_OPEN = Some i"
    and "index_of (drop (i + length THINK_OPEN) s) THINK_CLOSE = Some j"
  then show "(drop (j + length THINK_CLOSE) (drop (i + length THINK_OPEN) s), s) \<in> measure length"
    by (auto dest!: index_of_Some_bound)
qed simp

text \<open>\<open>visibleContent\<close> (lines 591-593).\<close>

definition visible_content :: "string \<Rightarrow> string" where
  "visible_content msg = trim (strip_think msg)"

subsection \<open>Stream state and the token callback\<close>

record think_state =
  currentAssistantMessage :: string
  currentThought :: string
  inThinkBlock :: bool

text \<open>Lines 540-542.\<close>

definition think_init :: think_state where
  "think_init = \<lparr>currentAssistantMessage = [], currentThought = [], inThinkBlock = False\<rparr>"

text \<open>The updater of lines 570-584: the reasoning is published into the last turn,
  and \<open><think>finalThought</think>\<close> is cut from its content.\<close>

definition publish_thought :: "string \<Rightarrow> message \<Rightarrow> message" where
  "publish_thought finalThought m =
     m\<lparr>content := replace_first (content m) (THINK_OPEN @ finalThought @ THINK_CLOSE) [],
       thought := Some finalThought\<rparr>"

text \<open>One call of the callback \<open>(data) => {...}\<close> (lines 559-607) on the turn's
  stream state and the conversation; the branches in the order of the code.\<close>

definition on_token :: "think_state \<Rightarrow> message list \<Rightarrow> string \<Rightarrow> think_state \<times> message list" where
  "on_token st conv token =
     (let msg = currentAssistantMessage st @ token;
          (st', conv') =
            (if str_includes token THINK_OPEN then
               (st\<lparr>inThinkBlock := True, currentThought := replace_first token THINK_OPEN []\<rparr>, conv)
             else if str_includes token THINK_CLOSE then
               (st\<lparr>inThinkBlock := False, currentThought := []\<rparr>,
                update_last (publish_thought (trim (replace_first (currentThought st) THINK_CLOSE []))) conv)
             else if inThinkBlock st then
               (st\<lparr>currentThought := currentThought st @ token\<rparr>, conv)
             else (st, conv))
      in (st'\<lparr>currentAssistantMessage := msg\<rparr>,
          update_last (\<lambda>m. m\<lparr>content := visible_content msg\<rparr>) conv'))"

text \<open>The token events of one completion, delivered in order.\<close>

fun stream_tokens :: "think_state \<Rightarrow> message list \<Rightarrow> string list \<Rightarrow> think_state \<times> message list" where
  "stream_tokens st conv [] = (st, conv)"
| "stream_tokens st conv (t # ts) = (case on_token st conv t of (st', conv') \<Rightarrow> stream_tokens st' conv' ts)"

declare strip_think.simps [simp del]

text \<open>A token that contains neither marker.\<close>

definition plain_token :: "string \<Rightarrow> bool" where
  "plain_token t \<longleftrightarrow> \<not> str_includes t THINK_OPEN \<and> \<not> str_includes t THINK_CLOSE"

subsection \<open>The regular expression: decomposition lemmas\<close>

lemma borderless_markers [js_str]: "borderless THINK_OPEN" "borderless THINK_CLOSE"
  by (simp_all add: borderless_def)

lemma strip_think_no_open: "\<not> sublist THINK_OPEN s \<Longrightarrow> strip_think s = s"
  by (simp add: strip_think.simps [of s] index_of_None_iff [THEN iffD2])

lemma strip_think_no_close: "\<not> sublist THINK_CLOSE s \<Longrightarrow> strip_think s = s"
proof -
  assume nc: "\<not> sublist THINK_CLOSE s"
  have "\<not> sublist THINK_CLOSE (drop k s)" for k
    using nc by (rule not_sublist_drop)
  then show ?thesis
    by (simp add: strip_think.simps [of s] index_of_None_iff [THEN iffD2] split: option.split)
qed

lemma strip_think_pair:
  assumes "\<not> sublist THINK_OPEN a" and "\<not> sublist THINK_CLOSE r"
  shows "strip_think (a @ THINK_OPEN @ r @ THINK_CLOSE @ b) = a @ strip_think b"
proof -
  let ?s = "a @ THINK_OPEN @ r @ THINK_CLOSE @ b"
  have i: "index_of ?s THINK_OPEN = Some (length a)"
    using index_of_borderless [OF borderless_markers(1) assms(1)] by simp
  have d1: "drop (length a + length THINK_OPEN) ?s = r @ THINK_CLOSE @ b"
    by simp
  have j: "index_of (r @ THINK_CLOSE @ b) THINK_CLOSE = Some (length r)"
    by (rule index_of_borderless [OF borderless_markers(2) assms(2)])
  show ?thesis
    by (simp only: strip_think.simps [of ?s] i d1 j option.case) simp
qed

subsection \<open>The callback, branch by branch\<close>

named_theorems on_token_branch "the four branches of the token callback"

lemma on_token_open [on_token_branch]:
  "str_includes t THINK_OPEN \<Longrightarrow>
   on_token st conv t =
     (st\<lparr>inThinkBlock := True, currentThought := replace_first t THINK_OPEN [],
         currentAssistantMessage := currentAssistantMessage st @ t\<rparr>,
      update_last (\<lambda>m. m\<lparr>content := visible_content (currentAssistantMessage st @ t)\<rparr>) conv)"
  by (simp add: on_token_def Let_def)

lemma on_token_close [on_token_branch]:
  "\<not> str_includes t THINK_OPEN \<Longrightarrow> str_includes t THINK_CLOSE \<Longrightarrow>
   on_token st conv t =
     (st\<lparr>inThinkBlock := False, currentThought := [],
         currentAssistantMessage := currentAssistantMessage st @ t\<rparr>,
      update_last (\<lambda>m. m\<lparr>content := visible_content (currentAssistantMessage st @ t)\<rparr>)
        (update_last (publish_thought (trim (replace_first (currentThought st) THINK_CLOSE []))) conv))"
  by (simp add: on_token_def Let_def)

lemma on_token_plain [on_token_branch]:
  "plain_token t \<Longrightarrow>
   on_token st conv t =
     (st\<lparr>currentThought := (if inThinkBlock st then currentThought st @ t else currentThought st),
         currentAssistantMessage := currentAssistantMessage st @ t\<rparr>,
      update_last (\<lambda>m. m\<lparr>content := visible_content (currentAssistantMessage st @ t)\<rparr>) conv)"
  by (simp add: on_token_def plain_token_def Let_def)

lemma on_token_roles [simp]: "map role (snd (on_token st conv t)) = map role conv"
  by (simp add: on_token_def Let_def publish_thought_def map_update_last split: prod.split)

lemma stream_tokens_append:
  "stream_tokens st conv (xs @ ys) =
     stream_tokens (fst (stream_tokens st conv xs)) (snd (stream_tokens st conv xs)) ys"
  by (induction xs arbitrary: st conv) (simp_all add: case_prod_beta)

lemma on_token_message:
  "currentAssistantMessage (fst (on_token st conv t)) = currentAssistantMessage st @ t"
  "butlast (snd (on_token st conv t)) = butlast conv"
  "length (snd (on_token st conv t)) = length conv"
  by (simp_all add: on_token_def Let_def update_last_def split: prod.split)

lemma on_token_last:
  "conv \<noteq> [] \<Longrightarrow>
   last (snd (on_token st conv t)) =
     (last conv)\<lparr>content := visible_content (currentAssistantMessage st @ t),
        thought := (if \<not> str_includes t THINK_OPEN \<and> str_includes t THINK_CLOSE
                    then Some (trim (replace_first (currentThought st) THINK_CLOSE []))
                    else thought (last conv))\<rparr>"
  by (simp add: on_token_def Let_def publish_thought_def)

lemma on_token_nonempty: "conv \<noteq> [] \<Longrightarrow> snd (on_token st conv t) \<noteq> []"
  using on_token_message(3) [of st conv t] by auto

lemma stream_tokens_message:
  "currentAssistantMessage (fst (stream_tokens st conv ts)) = currentAssistantMessage st @ concat ts"
  "butlast (snd (stream_tokens st conv ts)) = butlast conv"
  "length (snd (stream_tokens st conv ts)) = length conv"
  by (induction ts arbitrary: st conv) (simp_all add: case_prod_beta on_token_message)

lemma stream_tokens_last:
  assumes "conv \<noteq> []"
  shows "role (last (snd (stream_tokens st conv ts))) = role (last conv)"
    and "showThought (last (snd (stream_tokens st conv ts))) = showThought (last conv)"
    and "ts \<noteq> [] \<Longrightarrow> content (last (snd (stream_tokens st conv ts))) =
           visible_content (currentAssistantMessage st @ concat ts)"
  using assms
proof (induction ts arbitrary: st conv)
  case Nil
  { case 1 then show ?case by simp }
  { case 2 then show ?case by simp }
  { case 3 then show ?case by simp }
next
  case (Cons t ts)
  { case 1 then show ?case
      using Cons.IH(1) [OF on_token_nonempty] by (simp add: case_prod_beta on_token_last) }
  { case 2 then show ?case
      using Cons.IH(2) [OF on_token_nonempty] by (simp add: case_prod_beta on_token_last) }
  { case 3 then show ?case
    proof (cases "ts = []")
      case True
      with 3 show ?thesis by (simp add: on_token_last)
    next
      case False
      with 3 show ?thesis
        using Cons.IH(3) [OF _ on_token_nonempty] by (simp add: case_prod_beta on_token_message)
    qed }
qed

lemma stream_tokens_plain:
  assumes "\<forall>t \<in> set ts. plain_token t" and "conv \<noteq> []"
  shows "inThinkBlock (fst (stream_tokens st conv ts)) = inThinkBlock st
    \<and> currentThought (fst (stream_tokens st conv ts)) =
        (if inThinkBlock st then currentThought st @ concat ts else currentThought st)
    \<and> thought (last (snd (stream_tokens st conv ts))) = thought (last conv)"
  using assms
proof (induction ts arbitrary: st conv)
  case Nil
  then show ?case by simp
next
  case (Cons t ts)
  then have p: "plain_token t" by simp
  from Cons.prems have ne: "snd (on_token st conv t) \<noteq> []"
    by (simp add: on_token_nonempty)
  from Cons.prems p show ?case
    using Cons.IH [of "snd (on_token st conv t)" "fst (on_token st conv t)"] ne
    by (simp add: case_prod_beta on_token_plain on_token_last plain_token_def)
qed

lemma markers_distinct [js_str]:
  "str_includes THINK_OPEN THINK_OPEN" "str_includes THINK_CLOSE THINK_CLOSE"
  "\<not> str_includes THINK_CLOSE THINK_OPEN"
  by (simp_all add: str_includes_def sublist_code)

lemma visible_content_Nil [simp]: "visible_content [] = []"
  by (simp add: visible_content_def strip_think_no_open trim_def)

lemma think_init_fields [simp]:
  "currentAssistantMessage think_init = []" "currentThought think_init = []"
  "inThinkBlock think_init = False"
  by (simp_all add: think_init_def)

lemma assistant_placeholder_fields [simp]:
  "role assistant_placeholder = Assistant" "content assistant_placeholder = []"
  "thought assistant_placeholder = None" "showThought assistant_placeholder = False"
  by (simp_all add: assistant_placeholder_def)

subsection \<open>Properties of one streamed turn\<close>

lemma stream_turn_content:
  "butlast (snd (stream_tokens think_init (conv @ [assistant_placeholder]) ts)) = conv
   \<and> content (last (snd (stream_tokens think_init (conv @ [assistant_placeholder]) ts)))
       = visible_content (concat ts)"
proof (cases "ts = []")
  case True
  then show ?thesis by simp
next
  case False
  then show ?thesis
    using stream_tokens_message(2) stream_tokens_last(3) [of "conv @ [assistant_placeholder]"]
    by simp
qed

text \<open>C1. Streaming a turn changes only the assistant turn appended for it: the earlier
  turns are untouched, the turn stays the assistant's with its reasoning hidden, and its
  content is the strip of the concatenation of all tokens so far, so it does not depend
  on how the text was cut into tokens.\<close>

theorem stream_visible_content:
  "\<exists>m. snd (stream_tokens think_init (conv @ [assistant_placeholder]) ts) = conv @ [m]
     \<and> role m = Assistant \<and> showThought m = False \<and> content m = visible_content (concat ts)"
proof -
  let ?c = "snd (stream_tokens think_init (conv @ [assistant_placeholder]) ts)"
  have "?c \<noteq> []"
    using stream_tokens_message(3) [of think_init "conv @ [assistant_placeholder]" ts] by auto
  then have "?c = conv @ [last ?c]"
    using stream_turn_content [of conv ts] by (metis append_butlast_last_id)
  moreover have "role (last ?c) = Assistant" "showThought (last ?c) = False"
    using stream_tokens_last(1,2) [of "conv @ [assistant_placeholder]"] by simp_all
  ultimately show ?thesis
    using stream_turn_content [of conv ts] by blast
qed

text \<open>C2. However the tokens cut a text with one complete marker pair, the visible
  content is the text around the pair, trimmed: the markers and the enclosed reasoning
  are gone.\<close>

theorem stream_pair_hidden:
  assumes "concat ts = a @ THINK_OPEN @ r @ THINK_CLOSE @ b"
    and "\<not> sublist THINK_OPEN a" and "\<not> sublist THINK_CLOSE r" and "\<not> sublist THINK_OPEN b"
  shows "content (last (snd (stream_tokens think_init (conv @ [assistant_placeholder]) ts)))
           = trim (a @ b)"
proof -
  have "content (last (snd (stream_tokens think_init (conv @ [assistant_placeholder]) ts)))
          = visible_content (concat ts)"
    using stream_turn_content by blast
  also have "\<dots> = trim (a @ strip_think b)"
    by (simp only: assms(1) visible_content_def strip_think_pair [OF assms(2,3)])
  also have "\<dots> = trim (a @ b)"
    by (simp only: strip_think_no_open [OF assms(4)])
  finally show ?thesis .
qed

text \<open>C3. When the markers arrive as tokens of their own, the reasoning published into
  the turn is the text streamed between them, its first closing marker removed, trimmed;
  the block is closed at the end.\<close>

theorem stream_thought_whole_markers:
  assumes "\<forall>t \<in> set (pre @ body @ post). plain_token t"
  shows "thought (last (snd (stream_tokens think_init (conv @ [assistant_placeholder])
             (pre @ [THINK_OPEN] @ body @ [THINK_CLOSE] @ post))))
           = Some (trim (replace_first (concat body) THINK_CLOSE []))
    \<and> \<not> inThinkBlock (fst (stream_tokens think_init (conv @ [assistant_placeholder])
             (pre @ [THINK_OPEN] @ body @ [THINK_CLOSE] @ post)))"
proof -
  define c0 where "c0 = conv @ [assistant_placeholder]"
  define s1 where "s1 = stream_tokens think_init c0 pre"
  define s2 where "s2 = on_token (fst s1) (snd s1) THINK_OPEN"
  define s3 where "s3 = stream_tokens (fst s2) (snd s2) body"
  define s4 where "s4 = on_token (fst s3) (snd s3) THINK_CLOSE"
  have ne0: "c0 \<noteq> []" by (simp add: c0_def)
  have plain: "\<forall>t \<in> set pre. plain_token t" "\<forall>t \<in> set body. plain_token t"
    "\<forall>t \<in> set post. plain_token t"
    using assms by auto
  have ne1: "snd s1 \<noteq> []"
    using stream_tokens_message(3) [of think_init c0 pre] ne0 by (auto simp: s1_def)
  have st1: "\<not> inThinkBlock (fst s1)"
    using stream_tokens_plain [OF plain(1) ne0] by (simp add: s1_def)
  have ne2: "snd s2 \<noteq> []"
    using ne1 by (simp add: s2_def on_token_nonempty)
  have st2: "inThinkBlock (fst s2) \<and> currentThought (fst s2) = []"
    by (simp add: s2_def on_token_open markers_distinct replace_first_def)
  have ne3: "snd s3 \<noteq> []"
    using stream_tokens_message(3) [of "fst s2" "snd s2" body] ne2 by (auto simp: s3_def)
  have st3: "inThinkBlock (fst s3) \<and> currentThought (fst s3) = concat body"
    using stream_tokens_plain [OF plain(2) ne2] st2 by (simp add: s3_def)
  have st4: "\<not> inThinkBlock (fst s4)
      \<and> thought (last (snd s4)) = Some (trim (replace_first (concat body) THINK_CLOSE []))"
    using st3 ne3 by (simp add: s4_def on_token_close markers_distinct publish_thought_def)
  have ne4: "snd s4 \<noteq> []"
    using ne3 by (simp add: s4_def on_token_nonempty)
  have "stream_tokens think_init c0 (pre @ [THINK_OPEN] @ body @ [THINK_CLOSE] @ post)
          = stream_tokens (fst s4) (snd s4) post"
    by (simp add: stream_tokens_append s1_def s2_def s3_def s4_def case_prod_beta)
  with stream_tokens_plain [OF plain(3) ne4] st4 show ?thesis
    by (simp add: c0_def)
qed

text \<open>C4. A turn in which no single token contains a whole marker never gets a
  reasoning field, even when the concatenated text holds a complete marker pair: the
  callback has no carry buffer for a marker split across tokens.\<close>

theorem stream_split_markers_no_thought:
  assumes "\<forall>t \<in> set ts. plain_token t"
  shows "thought (last (snd (stream_tokens think_init (conv @ [assistant_placeholder]) ts))) = None"
  using stream_tokens_plain [OF assms, of "conv @ [assistant_placeholder]" think_init] by simp

text \<open>C5. When the stream has no closing marker, nothing is stripped: an opened
  reasoning block and its text stay in the visible content.\<close>

theorem stream_unclosed_visible:
  assumes "\<not> sublist THINK_CLOSE (concat ts)"
  shows "content (last (snd (stream_tokens think_init (conv @ [assistant_placeholder]) ts)))
           = trim (concat ts)"
  using stream_turn_content [of conv ts] assms
  by (simp add: visible_content_def strip_think_no_close)

subsection \<open>Witnesses\<close>

abbreviation example_history :: "message list" where
  "example_history \<equiv> INITIAL_CONVERSATION @ [user_message ''Hi'']"

theorem stream_pair_hidden_witness:
  "concat [''Hello '', ''<thi'', ''nk>planning</thin'', ''k> world'']
     = ''Hello '' @ THINK_OPEN @ ''planning'' @ THINK_CLOSE @ '' world''
   \<and> \<not> sublist THINK_OPEN ''Hello '' \<and> \<not> sublist THINK_CLOSE ''planning''
   \<and> \<not> sublist THINK_OPEN '' world''
   \<and> content (last (snd (stream_tokens think_init (example_history @ [assistant_placeholder])
         [''Hello '', ''<thi'', ''nk>planning</thin'', ''k> world'']))) = ''Hello  world''"
proof -
  have h: "concat [''Hello '', ''<thi'', ''nk>planning</thin'', ''k> world'']
     = ''Hello '' @ THINK_OPEN @ ''planning'' @ THINK_CLOSE @ '' world''"
    "\<not> sublist THINK_OPEN ''Hello ''" "\<not> sublist THINK_CLOSE ''planning''"
    "\<not> sublist THINK_OPEN '' world''"
    by (simp_all add: sublist_code)
  have t: "trim (''Hello '' @ '' world'') = ''Hello  world''"
    by (simp add: trim_def is_ws_def)
  show ?thesis
    using stream_pair_hidden [OF h, of example_history] h t by simp
qed

theorem stream_thought_whole_markers_witness:
  "list_all plain_token ([''Sure''] @ [''plan'', ''ning ''] @ ['' done''])
   \<and> thought (last (snd (stream_tokens think_init (example_history @ [assistant_placeholder])
        ([''Sure''] @ [THINK_OPEN] @ [''plan'', ''ning ''] @ [THINK_CLOSE] @ ['' done''])))) = Some ''planning''"
proof -
  have h: "\<forall>t \<in> set ([''Sure''] @ [''plan'', ''ning ''] @ ['' done'']). plain_token t"
    by (simp add: plain_token_def str_includes_def sublist_code)
  have r: "trim (replace_first (concat [''plan'', ''ning '']) THINK_CLOSE []) = ''planning''"
    by (simp add: replace_first_def trim_def is_ws_def)
  show ?thesis
    using stream_thought_whole_markers [OF h, of example_history] h r
    by (simp add: list_all_iff)
qed

theorem stream_split_markers_no_thought_witness:
  "list_all plain_token [''Hello '', ''<thi'', ''nk>planning</thin'', ''k> world'']
   \<and> thought (last (snd (stream_tokens think_init (example_history @ [assistant_placeholder])
        [''Hello '', ''<thi'', ''nk>planning</thin'', ''k> world'']))) = None"
proof -
  have h: "\<forall>t \<in> set [''Hello '', ''<thi'', ''nk>planning</thin'', ''k> world'']. plain_token t"
    by (simp add: plain_token_def str_includes_def sublist_code)
  show ?thesis
    using stream_split_markers_no_thought [OF h, of example_history] h
    by (simp add: list_all_iff)
qed

theorem stream_unclosed_visible_witness:
  "\<not> sublist THINK_CLOSE (concat [''Hi '', THINK_OPEN, ''still thinking''])
   \<and> content (last (snd (stream_tokens think_init (example_history @ [assistant_placeholder])
        [''Hi '', THINK_OPEN, ''still thinking'']))) = ''Hi <think>still thinking''"
proof -
  have h: "\<not> sublist THINK_CLOSE (concat [''Hi '', THINK_OPEN, ''still thinking''])"
    by (simp add: sublist_code)
  have t: "trim (concat [''Hi '', THINK_OPEN, ''still thinking'']) = ''Hi <think>still thinking''"
    by (simp add: trim_def is_ws_def)
  show ?thesis
    using stream_unclosed_visible [OF h, of example_history] h t by simp
qed

end
