(* ===== verification/Session.thy ===== *)
theory Session
  imports ThinkParser
begin

text \<open>
  The session state of \<open>App\<close>: the llama.rn context and the handles llama.rn keeps
  alive, the conversation, the input field, the flags that gate the buttons, the
  throughput samples, the completions still in flight with the closure state of
  their token callbacks, and the alerts the handlers raise. The handlers \<open>handleSendMessage\<close>, \<open>stopGeneration\<close>,
  \<open>toggleThought\<close>, \<open>handleBackToModelSelection\<close> and \<open>loadModel\<close> are functions on
  it; \<open>session_step\<close> applies one event when the rendered UI allows it, and
  \<open>reachable\<close> collects the states of all runs from the initial one.
\<close>

datatype page = ModelSelection | Conversation

record session_state =
  llamaContext :: "nat option"
  live_contexts :: "nat list"
  next_context :: nat
  conversation :: "message list"
  userInput :: string
  isLoading :: bool
  isGenerating :: bool
  isModelLoading :: bool
  modelLoadError :: "string option"
  tokensPerSecond :: "rat list"
  currentPage :: page
  selectedGGUF :: "string option"
  completions :: "(nat \<times> think_state) list"
  next_completion :: nat
  session_alerts :: "alert list"

text \<open>The \<open>useState\<close> initial values (lines 47-64, 440-443).\<close>

definition session_init :: session_state where
  "session_init =
     \<lparr>llamaContext = None, live_contexts = [], next_context = 0,
      conversation = INITIAL_CONVERSATION, userInput = [], isLoading = False,
      isGenerating = False, isModelLoading = False, modelLoadError = None,
      tokensPerSecond = [], currentPage = ModelSelection, selectedGGUF = None,
      completions = [], next_completion = 0, session_alerts = []\<rparr>"

subsection \<open>Handlers\<close>

text \<open>\<open>handleSendMessage\<close> up to the call of \<open>context.completion\<close> (lines 496-558):
  the two early returns, then the user turn and the assistant placeholder, and a new
  completion whose callback starts from \<open>think_init\<close>.\<close>

definition handleSendMessage :: "session_state \<Rightarrow> session_state" where
  "handleSendMessage s =
     (if llamaContext s = None
      then s\<lparr>session_alerts := session_alerts s @ [Alert ''Model Not Loaded'' ''Please load the model first.'']\<rparr>
      else if trim (userInput s) = []
      then s\<lparr>session_alerts := session_alerts s @ [Alert ''Input Error'' ''Please enter a message.'']\<rparr>
      else s\<lparr>conversation := (conversation s @ [user_message (userInput s)]) @ [assistant_placeholder],
             userInput := [], isLoading := True, isGenerating := True,
             completions := completions s @ [(next_completion s, think_init)],
             next_completion := Suc (next_completion s)\<rparr>)"

text \<open>One token event of completion \<open>k\<close> (the callback, lines 559-607).\<close>

definition completion_token :: "nat \<Rightarrow> think_state \<Rightarrow> string \<Rightarrow> session_state \<Rightarrow> session_state" where
  "completion_token k st t s =
     (case on_token st (conversation s) t of
        (st', conv') \<Rightarrow> s\<lparr>conversation := conv', completions := AList.update k st' (completions s)\<rparr>)"

text \<open>\<open>parseFloat(x.toFixed(2))\<close>: rounding to two decimals, halves away from zero.\<close>

definition round_tps :: "rat \<Rightarrow> rat" where
  "round_tps x = (if x < 0 then - (of_int (round (- x * 100)) / 100) else of_int (round (x * 100)) / 100)"

text \<open>The completion resolves (lines 610-613, then the \<open>finally\<close> block).\<close>

definition completion_done :: "nat \<Rightarrow> rat \<Rightarrow> session_state \<Rightarrow> session_state" where
  "completion_done k x s =
     s\<lparr>tokensPerSecond := tokensPerSecond s @ [round_tps x],
       completions := AList.delete k (completions s), isLoading := False, isGenerating := False\<rparr>"

text \<open>The completion rejects (the \<open>catch\<close> alert and the \<open>finally\<close> block, lines 614-621).\<close>

definition completion_failed :: "nat \<Rightarrow> string \<Rightarrow> session_state \<Rightarrow> session_state" where
  "completion_failed k err s =
     s\<lparr>completions := AList.delete k (completions s), isLoading := False, isGenerating := False,
       session_alerts := session_alerts s @ [Alert ''Error During Inference'' err]\<rparr>"

text \<open>\<open>stopGeneration\<close> (lines 415-437); \<open>ok\<close> says whether
  \<open>context.stopCompletion()\<close> resolved. With no context the call throws and the
  \<open>catch\<close> only logs.\<close>

definition stopGeneration :: "bool \<Rightarrow> session_state \<Rightarrow> session_state" where
  "stopGeneration ok s =
     (if llamaContext s = None \<or> \<not> ok then s
      else s\<lparr>isGenerating := False, isLoading := False,
             conversation := append_stop_notice (conversation s)\<rparr>)"

text \<open>\<open>handleBackToModelSelection\<close> (lines 152-159): \<open>releaseAllLlama\<close> frees every
  live context.\<close>

definition handleBackToModelSelection :: "session_state \<Rightarrow> session_state" where
  "handleBackToModelSelection s =
     s\<lparr>llamaContext := None, live_contexts := [], conversation := INITIAL_CONVERSATION,
       selectedGGUF := None, tokensPerSecond := [], currentPage := ModelSelection\<rparr>"

text \<open>\<open>loadModel\<close> up to \<open>initLlama\<close> (lines 445-456): the loading flag, and the
  release of the current context with the reset of the conversation.\<close>

definition loadModel_start :: "session_state \<Rightarrow> session_state" where
  "loadModel_start s =
     (let s1 = s\<lparr>isModelLoading := True\<rparr>
      in if llamaContext s \<noteq> None
         then s1\<lparr>live_contexts := [], llamaContext := None, conversation := INITIAL_CONVERSATION\<rparr>
         else s1)"

text \<open>\<open>initLlama\<close> resolves with a fresh context (lines 457-464, 477-479) or rejects
  with a message (lines 480-493).\<close>

definition loadModel_done :: "string + unit \<Rightarrow> session_state \<Rightarrow> session_state" where
  "loadModel_done r s =
     (case r of
        Inr _ \<Rightarrow> s\<lparr>llamaContext := Some (next_context s),
                    live_contexts := next_context s # live_contexts s,
                    next_context := Suc (next_context s), isModelLoading := False\<rparr>
      | Inl err \<Rightarrow> s\<lparr>modelLoadError := Some err, isModelLoading := False\<rparr>)"

text \<open>Pressing a downloaded model in the list (lines 796-800, 891-895): \<open>loadModel\<close>
  starts, and the page switches at once.\<close>

definition select_model :: "string \<Rightarrow> session_state \<Rightarrow> session_state" where
  "select_model f s = (loadModel_start s)\<lparr>currentPage := Conversation, selectedGGUF := Some f\<rparr>"

subsection \<open>Events and the step function\<close>

datatype event =
    TypeInput string
  | SendMessage
  | TokenEvent nat string
  | CompletionDone nat rat
  | CompletionFailed nat string
  | StopGeneration bool
  | ToggleThought nat
  | BackToModelSelection
  | SelectModel string
  | ModelLoaded
  | ModelLoadFailed string
  | ClearLoadError

text \<open>
  Which events the rendered tree allows: the full-screen overlay while
  \<open>isModelLoading\<close> (lines 703-711, style \<open>loadingOverlay\<close>) takes every touch;
  the input row, Send (disabled while \<open>isLoading\<close>) or Stop (while
  \<open>isGenerating\<close>) and Back are on the conversation page (lines 1005-1045); a
  thought toggle exists for a turn with a non-empty thought (lines 958-969, index
  \<open>index + 1\<close> of \<open>conversation.slice(1)\<close>). Engine events belong to a completion
  in flight; the load result to a load in progress; the error clears after its timeout.
\<close>

fun session_step :: "session_state \<Rightarrow> event \<Rightarrow> session_state option" where
  "session_step s (TypeInput x) =
     (if currentPage s = Conversation \<and> \<not> isModelLoading s then Some (s\<lparr>userInput := x\<rparr>) else None)"
| "session_step s SendMessage =
     (if currentPage s = Conversation \<and> \<not> isModelLoading s \<and> \<not> isGenerating s \<and> \<not> isLoading s
      then Some (handleSendMessage s) else None)"
| "session_step s (TokenEvent k t) =
     (case map_of (completions s) k of None \<Rightarrow> None | Some st \<Rightarrow> Some (completion_token k st t s))"
| "session_step s (CompletionDone k x) =
     (if map_of (completions s) k = None then None else Some (completion_done k x s))"
| "session_step s (CompletionFailed k err) =
     (if map_of (completions s) k = None then None else Some (completion_failed k err s))"
| "session_step s (StopGeneration ok) =
     (if currentPage s = Conversation \<and> \<not> isModelLoading s \<and> isGenerating s
      then Some (stopGeneration ok s) else None)"
| "session_step s (ToggleThought i) =
     (if currentPage s = Conversation \<and> \<not> isModelLoading s \<and> 1 \<le> i \<and> i < length (conversation s)
         \<and> thought (conversation s ! i) \<noteq> None \<and> thought (conversation s ! i) \<noteq> Some []
      then Some (s\<lparr>conversation := toggleThought i (conversation s)\<rparr>) else None)"
| "session_step s BackToModelSelection =
     (if currentPage s = Conversation \<and> \<not> isModelLoading s
      then Some (handleBackToModelSelection s) else None)"
| "session_step s (SelectModel f) =
     (if currentPage s = ModelSelection \<and> \<not> isModelLoading s then Some (select_model f s) else None)"
| "session_step s ModelLoaded =
     (if isModelLoading s then Some (loadModel_done (Inr ()) s) else None)"
| "session_step s (ModelLoadFailed e) =
     (if isModelLoading s then Some (loadModel_done (Inl e) s) else None)"
| "session_step s ClearLoadError =
     (if modelLoadError s \<noteq> None then Some (s\<lparr>modelLoadError := None\<rparr>) else None)"

fun session_run :: "session_state \<Rightarrow> event list \<Rightarrow> session_state option" where
  "session_run s [] = Some s"
| "session_run s (e # es) = (case session_step s e of None \<Rightarrow> None | Some s' \<Rightarrow> session_run s' es)"

inductive reachable :: "session_state \<Rightarrow> bool" where
  init: "reachable session_init"
| step: "reachable s \<Longrightarrow> session_step s e = Some s' \<Longrightarrow> reachable s'"

subsection \<open>The session invariant\<close>

text \<open>The handles llama.rn keeps alive are exactly the context the app holds; no context
  is held while a load is in progress; the log has its shape; completions in flight have
  distinct fresh identities.\<close>

definition session_inv :: "session_state \<Rightarrow> bool" where
  "session_inv s \<longleftrightarrow>
     live_contexts s = (case llamaContext s of None \<Rightarrow> [] | Some h \<Rightarrow> [h])
     \<and> (isModelLoading s \<longrightarrow> llamaContext s = None \<and> currentPage s = Conversation)
     \<and> (currentPage s = ModelSelection \<longrightarrow> llamaContext s = None)
     \<and> conv_shape (conversation s)
     \<and> distinct (map fst (completions s))
     \<and> list_all (\<lambda>k. k < next_completion s) (map fst (completions s))"

lemma session_inv_init: "session_inv session_init"
  by (simp add: session_inv_def session_init_def)

lemma completion_token_inv:
  assumes "session_inv s" and "map_of (completions s) k = Some st"
  shows "session_inv (completion_token k st t s)"
proof -
  have "k \<in> set (map fst (completions s))"
    using assms(2) by (metis map_of_eq_None_iff option.distinct(1) set_map)
  with assms(1) show ?thesis
    by (simp add: session_inv_def completion_token_def case_prod_beta update_keys
        conv_shape_roles [OF on_token_roles])
qed

lemma handleSendMessage_inv:
  "session_inv s \<Longrightarrow> \<not> isModelLoading s \<Longrightarrow> session_inv (handleSendMessage s)"
  by (auto simp: session_inv_def handleSendMessage_def conv_shape_send list_all_iff)

lemma completion_end_inv:
  "session_inv s \<Longrightarrow> session_inv (completion_done k x s)"
  "session_inv s \<Longrightarrow> session_inv (completion_failed k err s)"
  by (auto simp: session_inv_def completion_done_def completion_failed_def delete_keys
      distinct_removeAll list_all_iff)

lemma stopGeneration_inv: "session_inv s \<Longrightarrow> session_inv (stopGeneration ok s)"
  by (simp add: session_inv_def stopGeneration_def conv_shape_roles [OF roles_append_stop_notice])

lemma handleBack_inv:
  "session_inv s \<Longrightarrow> \<not> isModelLoading s \<Longrightarrow> session_inv (handleBackToModelSelection s)"
  by (simp add: session_inv_def handleBackToModelSelection_def)

lemma select_model_inv: "session_inv s \<Longrightarrow> session_inv (select_model f s)"
  by (simp add: session_inv_def select_model_def loadModel_start_def Let_def)

lemma loadModel_done_inv:
  "session_inv s \<Longrightarrow> isModelLoading s \<Longrightarrow> session_inv (loadModel_done r s)"
  by (cases r) (simp_all add: session_inv_def loadModel_done_def)

lemma session_step_inv:
  assumes inv: "session_inv s" and st: "session_step s e = Some s'"
  shows "session_inv s'"
proof (cases e)
  case (TypeInput x)
  with inv st show ?thesis by (auto simp: session_inv_def split: if_splits)
next
  case SendMessage
  with inv st show ?thesis by (auto split: if_splits intro: handleSendMessage_inv)
next
  case (TokenEvent k t)
  with inv st show ?thesis by (auto split: option.splits intro: completion_token_inv)
next
  case (CompletionDone k x)
  with inv st show ?thesis by (auto split: if_splits intro: completion_end_inv)
next
  case (CompletionFailed k err)
  with inv st show ?thesis by (auto split: if_splits intro: completion_end_inv)
next
  case (StopGeneration ok)
  with inv st show ?thesis by (auto split: if_splits intro: stopGeneration_inv)
next
  case (ToggleThought i)
  with inv st show ?thesis
    by (auto simp: session_inv_def conv_shape_roles [OF roles_toggleThought] split: if_splits)
next
  case BackToModelSelection
  with inv st show ?thesis by (auto split: if_splits intro: handleBack_inv)
next
  case (SelectModel f)
  with inv st show ?thesis by (auto split: if_splits intro: select_model_inv)
next
  case ModelLoaded
  with inv st show ?thesis by (auto split: if_splits intro: loadModel_done_inv)
next
  case (ModelLoadFailed x)
  with inv st show ?thesis by (auto split: if_splits intro: loadModel_done_inv)
next
  case ClearLoadError
  with inv st show ?thesis by (auto simp: session_inv_def split: if_splits)
qed

lemma reachable_inv: "reachable s \<Longrightarrow> session_inv s"
  by (induction rule: reachable.induct) (auto intro: session_inv_init session_step_inv)

subsection \<open>Throughput samples and assistant turns\<close>

definition assistant_turns :: "message list \<Rightarrow> nat" where
  "assistant_turns c = length (filter (\<lambda>r. r = Assistant) (map role c))"

text \<open>The label under a turn of \<open>conversation.slice(1)\<close> at \<open>index\<close> (lines 942,
  983-990): \<open>tokensPerSecond[Math.floor(index / 2)]\<close>, \<open>None\<close> for JavaScript's
  \<open>undefined\<close>.\<close>

definition tps_label :: "session_state \<Rightarrow> nat \<Rightarrow> rat option" where
  "tps_label s index =
     (if index div 2 < length (tokensPerSecond s) then Some (tokensPerSecond s ! (index div 2)) else None)"

text \<open>One sample is recorded or owed (by a completion in flight) for each assistant turn.\<close>

definition aligned :: "session_state \<Rightarrow> bool" where
  "aligned s \<longleftrightarrow> length (tokensPerSecond s) + length (completions s) = assistant_turns (conversation s)"

text \<open>Events after which a sample can no longer be owed to its turn: a completion that
  rejects, and leaving the conversation while a completion is in flight.\<close>

fun keeps_samples :: "session_state \<Rightarrow> event \<Rightarrow> bool" where
  "keeps_samples s (CompletionFailed k err) = False"
| "keeps_samples s BackToModelSelection = (completions s = [])"
| "keeps_samples s e = True"

inductive reachable_ok :: "session_state \<Rightarrow> bool" where
  init: "reachable_ok session_init"
| step: "reachable_ok s \<Longrightarrow> keeps_samples s e \<Longrightarrow> session_step s e = Some s' \<Longrightarrow> reachable_ok s'"

lemma reachable_ok_reachable: "reachable_ok s \<Longrightarrow> reachable s"
  by (induction rule: reachable_ok.induct) (auto intro: reachable.intros)

lemma assistant_turns_roles: "map role c = map role c' \<Longrightarrow> assistant_turns c = assistant_turns c'"
  by (simp add: assistant_turns_def)

lemma length_delete_present:
  "distinct (map fst al) \<Longrightarrow> map_of al k \<noteq> None \<Longrightarrow> length (AList.delete k al) = length al - 1"
proof -
  assume d: "distinct (map fst al)" and k: "map_of al k \<noteq> None"
  from k have "k \<in> set (map fst al)"
    by (metis map_of_eq_None_iff set_map)
  with d have "length (removeAll k (map fst al)) = length (map fst al) - 1"
    by (simp add: distinct_remove1_removeAll [symmetric] length_remove1)
  then show ?thesis
    by (metis delete_keys length_map)
qed

lemma length_update_present:
  "map_of al k \<noteq> None \<Longrightarrow> length (AList.update k v al) = length al"
  by (metis length_map map_of_eq_None_iff set_map update_keys)

lemma aligned_step:
  assumes inv: "session_inv s" and al: "aligned s" and keep: "keeps_samples s e"
    and st: "session_step s e = Some s'"
  shows "aligned s'"
proof (cases e)
  case SendMessage
  with al st show ?thesis
    by (auto simp: aligned_def handleSendMessage_def assistant_turns_def user_message_def split: if_splits)
next
  case (TokenEvent k t)
  with al st show ?thesis
    by (auto simp: aligned_def completion_token_def case_prod_beta length_update_present
        assistant_turns_roles [OF on_token_roles] split: option.splits)
next
  case (CompletionDone k x)
  with st have k: "map_of (completions s) k \<noteq> None" and s': "s' = completion_done k x s"
    by (auto split: if_splits)
  from inv k have "length (AList.delete k (completions s)) = length (completions s) - 1"
    by (simp add: session_inv_def length_delete_present)
  moreover from k have "0 < length (completions s)" by (cases "completions s") auto
  then have "Suc (length (tokensPerSecond s) + (length (completions s) - Suc 0))
      = assistant_turns (conversation s)"
    using al unfolding aligned_def by arith
  ultimately show ?thesis
    using s' by (simp add: aligned_def completion_done_def)
next
  case (CompletionFailed k err)
  with keep show ?thesis by simp
next
  case (StopGeneration ok)
  with al st show ?thesis
    by (auto simp: aligned_def stopGeneration_def assistant_turns_roles [OF roles_append_stop_notice]
        split: if_splits)
next
  case (ToggleThought i)
  with al st show ?thesis
    by (auto simp: aligned_def assistant_turns_roles [OF roles_toggleThought] split: if_splits)
next
  case BackToModelSelection
  with keep st show ?thesis
    by (auto simp: aligned_def handleBackToModelSelection_def assistant_turns_def
        INITIAL_CONVERSATION_def split: if_splits)
next
  case (SelectModel f)
  with inv al st show ?thesis
    by (auto simp: aligned_def select_model_def loadModel_start_def session_inv_def split: if_splits)
qed (use al st in \<open>auto simp: aligned_def loadModel_done_def split: if_splits sum.splits\<close>)

lemma reachable_ok_aligned: "reachable_ok s \<Longrightarrow> aligned s"
proof (induction rule: reachable_ok.induct)
  case init
  then show ?case
    by (simp add: aligned_def session_init_def assistant_turns_def INITIAL_CONVERSATION_def)
next
  case (step s e s')
  then show ?case
    using aligned_step reachable_inv reachable_ok_reachable by blast
qed

lemma reachable_run: "reachable s \<Longrightarrow> session_run s es \<noteq> None \<Longrightarrow> reachable (the (session_run s es))"
proof (induction es arbitrary: s)
  case Nil
  then show ?case by simp
next
  case (Cons e es)
  then obtain s' where "session_step s e = Some s'" and "session_run s' es \<noteq> None"
    by (auto split: option.splits)
  with Cons show ?case
    by (auto intro: reachable.step)
qed

fun session_run_ok :: "session_state \<Rightarrow> event list \<Rightarrow> session_state option" where
  "session_run_ok s [] = Some s"
| "session_run_ok s (e # es) =
     (if keeps_samples s e
      then (case session_step s e of None \<Rightarrow> None | Some s' \<Rightarrow> session_run_ok s' es)
      else None)"

lemma reachable_ok_run:
  "reachable_ok s \<Longrightarrow> session_run_ok s es \<noteq> None \<Longrightarrow> reachable_ok (the (session_run_ok s es))"
proof (induction es arbitrary: s)
  case Nil
  then show ?case by simp
next
  case (Cons e es)
  then obtain s' where "keeps_samples s e" "session_step s e = Some s'" "session_run_ok s' es \<noteq> None"
    by (auto split: if_splits option.splits)
  with Cons show ?case
    by (auto intro: reachable_ok.step)
qed

lemma stopGeneration_keeps:
  "conversation (stopGeneration ok s) \<noteq> [] \<longleftrightarrow> conversation s \<noteq> []"
  "completions (stopGeneration ok s) = completions s"
  by (simp_all add: stopGeneration_def append_stop_notice_def)

subsection \<open>Properties of the session\<close>

text \<open>C6. In every reachable state the contexts llama.rn keeps alive are exactly the one
  the app holds: at most one engine handle is ever live, and none is leaked.\<close>

theorem one_live_context:
  "reachable s \<Longrightarrow> live_contexts s = (case llamaContext s of None \<Rightarrow> [] | Some h \<Rightarrow> [h])"
  using reachable_inv by (simp add: session_inv_def)

text \<open>C7. In every reachable state the conversation is the system turn followed by
  user/assistant pairs.\<close>

theorem conversation_shape: "reachable s \<Longrightarrow> conv_shape (conversation s)"
  using reachable_inv by (simp add: session_inv_def)

text \<open>C8. Stopping a generation keeps everything streamed so far: the last assistant
  turn keeps its content and gets the notice appended, and the buttons are re-enabled.\<close>

theorem stop_keeps_streamed_text:
  assumes "session_step s (StopGeneration True) = Some s'" and "llamaContext s \<noteq> None"
    and "conversation s \<noteq> []" and "role (last (conversation s)) = Assistant"
  shows "conversation s' = butlast (conversation s)
           @ [(last (conversation s))\<lparr>content := content (last (conversation s)) @ stop_notice\<rparr>]
         \<and> \<not> isGenerating s' \<and> \<not> isLoading s'"
  using assms by (auto simp: stopGeneration_def append_stop_notice_def split: if_splits)

text \<open>C9. Stopping is cooperative and the callback of the stopped completion stays
  registered: a token the engine still delivers is accepted and recomputes the turn's
  content from the streamed text alone, so the stop notice is dropped.\<close>

theorem token_after_stop_drops_notice:
  assumes "session_step s (StopGeneration True) = Some s1"
    and "map_of (completions s) k = Some st" and "conversation s \<noteq> []"
  shows "\<exists>s2. session_step s1 (TokenEvent k t) = Some s2
           \<and> content (last (conversation s2)) = visible_content (currentAssistantMessage st @ t)"
proof -
  from assms(1) have s1: "s1 = stopGeneration True s"
    by (simp split: if_splits)
  then have "map_of (completions s1) k = Some st" and ne: "conversation s1 \<noteq> []"
    using assms(2,3) stopGeneration_keeps by simp_all
  then show ?thesis
    using ne by (simp add: completion_token_def case_prod_beta on_token_last)
qed

text \<open>C10. Along runs in which no completion fails and the conversation is not left while
  one is in flight, every finished assistant turn is labelled with its own sample: the
  \<open>j\<close>-th assistant turn of \<open>conversation.slice(1)\<close> sits at index \<open>2j+1\<close> and shows
  \<open>tokensPerSecond[j]\<close>.\<close>

theorem samples_label_turns:
  assumes "reachable_ok s" and "completions s = []" and "j < assistant_turns (conversation s)"
  shows "role (tl (conversation s) ! (2 * j + 1)) = Assistant
         \<and> tps_label s (2 * j + 1) = Some (tokensPerSecond s ! j)"
proof -
  have al: "length (tokensPerSecond s) = assistant_turns (conversation s)"
    using reachable_ok_aligned [OF assms(1)] assms(2) by (simp add: aligned_def)
  have sh: "conv_shape (conversation s)"
    using reachable_inv [OF reachable_ok_reachable [OF assms(1)]] by (simp add: session_inv_def)
  then obtain rs where rs: "map role (conversation s) = System # rs" and tr: "turn_roles rs"
    by (auto simp: conv_shape_def split: list.splits role.splits)
  then have "map role (tl (conversation s)) = rs"
    by (metis list.sel(3) map_tl)
  moreover have "j < length (filter (\<lambda>r. r = Assistant) rs)"
    using assms(3) rs by (simp add: assistant_turns_def)
  ultimately have "role (tl (conversation s) ! (2 * j + 1)) = Assistant"
    using turn_roles_nth [OF tr] by (metis length_map nth_map)
  moreover have "tps_label s (2 * j + 1) = Some (tokensPerSecond s ! j)"
    using al assms(3) by (simp add: tps_label_def)
  ultimately show ?thesis by simp
qed

text \<open>C11. A completion that rejects leaves its assistant turn without a sample, so the
  samples and the turns fall out of step: every later turn shows the sample of a
  different generation. The failure is shown in an alert and the log is left as it is.\<close>

theorem failed_completion_misaligns:
  assumes "reachable s" and "aligned s" and "session_step s (CompletionFailed k err) = Some s'"
  shows "\<not> aligned s' \<and> conversation s' = conversation s
    \<and> session_alerts s' = session_alerts s @ [Alert ''Error During Inference'' err]"
proof -
  from assms(3) have k: "map_of (completions s) k \<noteq> None" and s': "s' = completion_failed k err s"
    by (auto split: if_splits)
  from reachable_inv [OF assms(1)] k
  have "length (AList.delete k (completions s)) = length (completions s) - 1"
    by (simp add: session_inv_def length_delete_present)
  moreover from k have "0 < length (completions s)" by (cases "completions s") auto
  then have "length (tokensPerSecond s) + (length (completions s) - 1) \<noteq> assistant_turns (conversation s)"
    using assms(2) unfolding aligned_def by arith
  ultimately show ?thesis
    using s' by (simp add: aligned_def completion_failed_def)
qed

text \<open>C12. Leaving the conversation while a completion is in flight does not stop it: its
  callback now writes into the last turn of the fresh log, which is the system turn, and
  replaces the system prompt with the streamed text.\<close>

theorem back_then_token_overwrites_system:
  assumes "session_step s BackToModelSelection = Some s1" and "map_of (completions s) k = Some st"
  shows "\<exists>s2. session_step s1 (TokenEvent k t) = Some s2
           \<and> map role (conversation s2) = [System]
           \<and> content (hd (conversation s2)) = visible_content (currentAssistantMessage st @ t)"
proof -
  from assms(1) have s1: "s1 = handleBackToModelSelection s"
    by (simp split: if_splits)
  then have c: "conversation s1 = INITIAL_CONVERSATION" and m: "map_of (completions s1) k = Some st"
    using assms(2) by (simp_all add: handleBackToModelSelection_def)
  have "last (snd (on_token st INITIAL_CONVERSATION t))
          = hd (snd (on_token st INITIAL_CONVERSATION t))"
    using on_token_message(3) [of st INITIAL_CONVERSATION t]
    by (cases "snd (on_token st INITIAL_CONVERSATION t)") (auto simp: INITIAL_CONVERSATION_def)
  then show ?thesis
    using c m on_token_last [of INITIAL_CONVERSATION st t]
    by (simp add: completion_token_def case_prod_beta INITIAL_CONVERSATION_def)
qed

text \<open>C13. The two early returns of \<open>handleSendMessage\<close>: without a loaded context, or
  with a blank input, the only effect is the alert that says which.\<close>

theorem send_rejected:
  "llamaContext s = None \<or> trim (userInput s) = [] \<Longrightarrow>
     handleSendMessage s = s\<lparr>session_alerts := session_alerts s @
       [if llamaContext s = None then Alert ''Model Not Loaded'' ''Please load the model first.''
        else Alert ''Input Error'' ''Please enter a message.'']\<rparr>"
  by (auto simp: handleSendMessage_def)

subsection \<open>Witnesses\<close>

abbreviation run_from_init :: "event list \<Rightarrow> session_state" where
  "run_from_init es \<equiv> the (session_run session_init es)"

abbreviation ex_loaded :: "event list" where
  "ex_loaded \<equiv> [SelectModel ''qwen2-0.5b-instruct-q4.gguf'', ModelLoaded]"

abbreviation ex_sent :: "event list" where
  "ex_sent \<equiv> ex_loaded @ [TypeInput ''Hi'', SendMessage]"

abbreviation ex_streaming :: "event list" where
  "ex_streaming \<equiv> ex_sent @ [TokenEvent 0 ''Hello'']"

lemma ex_reachable:
  "reachable (run_from_init ex_loaded)" "reachable (run_from_init ex_sent)"
  "reachable (run_from_init ex_streaming)"
proof -
  have h: "session_run session_init ex_loaded \<noteq> None" "session_run session_init ex_sent \<noteq> None"
    "session_run session_init ex_streaming \<noteq> None"
    by code_simp+
  show "reachable (run_from_init ex_loaded)" by (rule reachable_run [OF reachable.init h(1)])
  show "reachable (run_from_init ex_sent)" by (rule reachable_run [OF reachable.init h(2)])
  show "reachable (run_from_init ex_streaming)" by (rule reachable_run [OF reachable.init h(3)])
qed

theorem one_live_context_witness:
  "reachable (run_from_init ex_loaded) \<and> live_contexts (run_from_init ex_loaded) = [0]"
proof -
  have c: "llamaContext (run_from_init ex_loaded) = Some 0" by code_simp
  show ?thesis using one_live_context [OF ex_reachable(1)] ex_reachable(1) c by simp
qed

theorem conversation_shape_witness:
  "reachable (run_from_init ex_streaming) \<and> conv_shape (conversation (run_from_init ex_streaming))
   \<and> length (conversation (run_from_init ex_streaming)) = 3"
proof -
  have l: "length (conversation (run_from_init ex_streaming)) = 3" by code_simp
  show ?thesis using conversation_shape [OF ex_reachable(3)] ex_reachable(3) l by simp
qed

theorem stop_keeps_streamed_text_witness:
  "session_step (run_from_init ex_streaming) (StopGeneration True)
     = Some (stopGeneration True (run_from_init ex_streaming))
   \<and> llamaContext (run_from_init ex_streaming) \<noteq> None
   \<and> conversation (run_from_init ex_streaming) \<noteq> []
   \<and> role (last (conversation (run_from_init ex_streaming))) = Assistant
   \<and> content (last (conversation (stopGeneration True (run_from_init ex_streaming))))
       = ''Hello'' @ stop_notice"
proof -
  let ?s = "run_from_init ex_streaming"
  have h: "session_step ?s (StopGeneration True) = Some (stopGeneration True ?s)"
    "llamaContext ?s \<noteq> None" "conversation ?s \<noteq> []" "role (last (conversation ?s)) = Assistant"
    "content (last (conversation ?s)) = ''Hello''"
    by code_simp+
  show ?thesis
    using stop_keeps_streamed_text [OF h(1-4)] h by simp
qed

theorem token_after_stop_drops_notice_witness:
  "session_step (run_from_init ex_streaming) (StopGeneration True)
     = Some (stopGeneration True (run_from_init ex_streaming))
   \<and> map_of (completions (run_from_init ex_streaming)) 0
       = Some (think_init\<lparr>currentAssistantMessage := ''Hello''\<rparr>)
   \<and> conversation (run_from_init ex_streaming) \<noteq> []
   \<and> (\<exists>s2. session_step (stopGeneration True (run_from_init ex_streaming)) (TokenEvent 0 '' there'')
          = Some s2 \<and> content (last (conversation s2)) = ''Hello there'')"
proof -
  let ?s = "run_from_init ex_streaming"
  have h: "session_step ?s (StopGeneration True) = Some (stopGeneration True ?s)"
    "map_of (completions ?s) 0 = Some (think_init\<lparr>currentAssistantMessage := ''Hello''\<rparr>)"
    "conversation ?s \<noteq> []"
    by code_simp+
  have v: "visible_content (currentAssistantMessage (think_init\<lparr>currentAssistantMessage := ''Hello''\<rparr>)
             @ '' there'') = ''Hello there''"
    by code_simp
  show ?thesis
    using token_after_stop_drops_notice [OF h, of "'' there''"] h v by simp
qed

abbreviation ex_finished :: "event list" where
  "ex_finished \<equiv> ex_streaming @ [CompletionDone 0 (1234 / 100)]"

theorem samples_label_turns_witness:
  "reachable_ok (the (session_run_ok session_init ex_finished))
   \<and> completions (the (session_run_ok session_init ex_finished)) = []
   \<and> 0 < assistant_turns (conversation (the (session_run_ok session_init ex_finished)))
   \<and> tps_label (the (session_run_ok session_init ex_finished)) 1 = Some (1234 / 100)"
proof -
  let ?s = "the (session_run_ok session_init ex_finished)"
  have r: "session_run_ok session_init ex_finished \<noteq> None" by code_simp
  have ro: "reachable_ok ?s" by (rule reachable_ok_run [OF reachable_ok.init r])
  have h: "completions ?s = []" "0 < assistant_turns (conversation ?s)"
    "tokensPerSecond ?s ! 0 = 1234 / 100"
    by code_simp+
  show ?thesis
    using samples_label_turns [OF ro h(1,2)] ro h by simp
qed

theorem failed_completion_misaligns_witness:
  "reachable (run_from_init ex_sent) \<and> aligned (run_from_init ex_sent)
   \<and> session_step (run_from_init ex_sent) (CompletionFailed 0 ''out of memory'')
       = Some (completion_failed 0 ''out of memory'' (run_from_init ex_sent))
   \<and> \<not> aligned (completion_failed 0 ''out of memory'' (run_from_init ex_sent))"
proof -
  let ?s = "run_from_init ex_sent"
  have h: "aligned ?s" "session_step ?s (CompletionFailed 0 ''out of memory'') = Some (completion_failed 0 ''out of memory'' ?s)"
    by code_simp+
  show ?thesis
    using failed_completion_misaligns [OF ex_reachable(2) h] ex_reachable(2) h by simp
qed

theorem back_then_token_overwrites_system_witness:
  "session_step (run_from_init ex_sent) BackToModelSelection
     = Some (handleBackToModelSelection (run_from_init ex_sent))
   \<and> map_of (completions (run_from_init ex_sent)) 0 = Some think_init
   \<and> (\<exists>s2. session_step (handleBackToModelSelection (run_from_init ex_sent)) (TokenEvent 0 ''Sure'')
          = Some s2 \<and> map role (conversation s2) = [System] \<and> content (hd (conversation s2)) = ''Sure'')"
proof -
  let ?s = "run_from_init ex_sent"
  have h: "session_step ?s BackToModelSelection = Some (handleBackToModelSelection ?s)"
    "map_of (completions ?s) 0 = Some think_init"
    by code_simp+
  have v: "visible_content (currentAssistantMessage think_init @ ''Sure'') = ''Sure''"
    by code_simp
  show ?thesis
    using back_then_token_overwrites_system [OF h, of "''Sure''"] h v by simp
qed

theorem send_rejected_witness:
  "(llamaContext session_init = None \<or> trim (userInput session_init) = [])
   \<and> handleSendMessage session_init
       = session_init\<lparr>session_alerts := [Alert ''Model Not Loaded'' ''Please load the model first.'']\<rparr>"
proof -
  have h: "llamaContext session_init = None \<or> trim (userInput session_init) = []"
    by (simp add: session_init_def)
  moreover have "llamaContext session_init = None" "session_alerts session_init = []"
    by (simp_all add: session_init_def)
  ultimately show ?thesis using send_rejected [OF h] by simp
qed

end
