(* ===== verification/Metadata.thy ===== *)
theory Metadata
  imports Prelude
begin

text \<open>
  The metadata store of \<open>App.tsx\<close>: the \<open>ModelMetadata\<close> records (lines 31-37),
  the catalogue of model families (lines 68-73), the in-memory list
  \<open>modelMetadata\<close> with the list of downloaded files, the JSON file
  \<open>model_metadata.json\<close> written by the save effect (lines 110-128) and read by
  the load effect (lines 91-108), the reconciliation of the list with the
  directory at mount (\<open>checkDownloadedModels\<close>, lines 235-292), and the list
  updaters of the download, delete, load and catalogue handlers. The JSON text of
  the file is abstracted to the list it encodes.
\<close>

record model_metadata =
  filename :: string
  format :: string
  downloadDate :: string
  size :: "nat option"

text \<open>The labels of \<open>modelFormats\<close> (lines 68-73).\<close>

definition modelFormats :: "string list" where
  "modelFormats = [''Llama-3.2-1B-Instruct'', ''Qwen2-0.5B-Instruct'',
                   ''DeepSeek-R1-Distill-Qwen-1.5B'', ''SmolLM2-1.7B-Instruct'']"

text \<open>\<open>HF_TO_GGUF\<close> (lines 75-81): the catalogue repository of each label, in the
  order of the object literal.\<close>

definition HF_TO_GGUF :: "(string \<times> string) list" where
  "HF_TO_GGUF =
     [(''Llama-3.2-1B-Instruct'', ''medmekk/Llama-3.2-1B-Instruct.GGUF''),
      (''DeepSeek-R1-Distill-Qwen-1.5B'', ''medmekk/DeepSeek-R1-Distill-Qwen-1.5B.GGUF''),
      (''Qwen2-0.5B-Instruct'', ''medmekk/Qwen2.5-0.5B-Instruct.GGUF''),
      (''SmolLM2-1.7B-Instruct'', ''medmekk/SmolLM2-1.7B-Instruct.GGUF'')]"

text \<open>The format inferred from a file name (lines 253-264): the rules in the order of
  the \<open>if\<close>/\<open>else if\<close> chain, each a test of two spellings.\<close>

definition infer_format :: "string \<Rightarrow> string" where
  "infer_format name =
     (if str_includes name ''Llama-3.2'' \<or> str_includes name ''llama-3.2'' then ''Llama-3.2-1B-Instruct''
      else if str_includes name ''Qwen2'' \<or> str_includes name ''qwen2'' then ''Qwen2-0.5B-Instruct''
      else if str_includes name ''DeepSeek'' \<or> str_includes name ''deepseek'' then ''DeepSeek-R1-Distill-Qwen-1.5B''
      else if str_includes name ''SmolLM'' \<or> str_includes name ''smollm'' then ''SmolLM2-1.7B-Instruct''
      else ''Unknown'')"

subsection \<open>List updaters\<close>

text \<open>\<open>files.filter(f => f.name.endsWith(".gguf")).map(f => f.name)\<close> (lines 240-242).\<close>

definition gguf_files :: "string list \<Rightarrow> string list" where
  "gguf_files names = filter (\<lambda>n. ends_with n ''.gguf'') names"

text \<open>\<open>newFiles\<close> (lines 247-248): the \<open>.gguf\<close> files whose name is not in the given
  metadata list.\<close>

definition new_files :: "model_metadata list \<Rightarrow> string list \<Rightarrow> string list" where
  "new_files existing ggufFiles = filter (\<lambda>f. f \<notin> set (map filename existing)) ggufFiles"

text \<open>The record synthesised for a new file (lines 252-281): \<open>stat\<close> gives the size
  or fails (\<open>None\<close>), \<open>now\<close> is \<open>new Date().toISOString()\<close>.\<close>

definition discovered_record :: "(string \<Rightarrow> nat option) \<Rightarrow> string \<Rightarrow> string \<Rightarrow> model_metadata" where
  "discovered_record stat now f =
     \<lparr>filename = f, format = infer_format f, downloadDate = now, size = stat f\<rparr>"

text \<open>The updater \<open>prev => [...prev, ...newMetadata]\<close> of lines 283-284, for the new
  files computed against the list \<open>existing\<close> the effect saw.\<close>

definition reconcile :: "(string \<Rightarrow> nat option) \<Rightarrow> string \<Rightarrow> model_metadata list \<Rightarrow> string list
    \<Rightarrow> model_metadata list \<Rightarrow> model_metadata list" where
  "reconcile stat now existing ggufFiles prev =
     prev @ map (discovered_record stat now) (new_files existing ggufFiles)"

text \<open>Upsert after a download (lines 383-392): replace the first record with the same
  file name, or append.\<close>

definition upsert_metadata :: "model_metadata \<Rightarrow> model_metadata list \<Rightarrow> model_metadata list" where
  "upsert_metadata r prev =
     (case find_index (\<lambda>m. filename m = filename r) prev of
        Some i \<Rightarrow> prev[i := r]
      | None \<Rightarrow> prev @ [r])"

text \<open>Size backfill for a file already on disk (lines 336-346): \<open>!size\<close> is true for a
  missing size and for size 0.\<close>

definition backfill_size :: "string \<Rightarrow> nat \<Rightarrow> model_metadata list \<Rightarrow> model_metadata list" where
  "backfill_size file sz prev =
     (case find_index (\<lambda>m. filename m = file) prev of
        Some i \<Rightarrow> (if size (prev ! i) = None \<or> size (prev ! i) = Some 0
                   then prev[i := (prev ! i)\<lparr>size := Some sz\<rparr>] else prev)
      | None \<Rightarrow> prev)"

text \<open>Delete (line 659).\<close>

definition remove_metadata :: "string \<Rightarrow> model_metadata list \<Rightarrow> model_metadata list" where
  "remove_metadata file prev = filter (\<lambda>m. filename m \<noteq> file) prev"

text \<open>The format fix after a successful load (lines 466-475): the handler calls
  \<open>setModelMetadata\<close> only when the record it finds in the list \<open>snapshot\<close> it closed
  over has format \<open>Unknown\<close>; the updater then sets \<open>selectedModelFormat || m.format\<close>.\<close>

definition needs_format_fix :: "string \<Rightarrow> model_metadata list \<Rightarrow> bool" where
  "needs_format_fix name snapshot =
     (case find (\<lambda>m. filename m = name) snapshot of
        Some meta \<Rightarrow> format meta = ''Unknown''
      | None \<Rightarrow> False)"

definition fix_format :: "string \<Rightarrow> string \<Rightarrow> model_metadata list \<Rightarrow> model_metadata list" where
  "fix_format selectedFormat name prev =
     map (\<lambda>m. if filename m = name
               then m\<lparr>format := (if selectedFormat \<noteq> [] then selectedFormat else format m)\<rparr>
               else m) prev"

text \<open>The offline fallback of the catalogue (lines 186-188, 226-228).\<close>

definition local_models_of :: "string \<Rightarrow> model_metadata list \<Rightarrow> string list" where
  "local_models_of fmt meta = map filename (filter (\<lambda>m. format m = fmt) meta)"

subsection \<open>The store and its effects\<close>

record meta_state =
  modelMetadata :: "model_metadata list"
  downloadedModels :: "string list"
  stored :: "model_metadata list option"

text \<open>\<open>setModelMetadata\<close> followed by the save effect (lines 110-128): the effect
  writes the whole list, but only when it is non-empty.\<close>

definition set_metadata :: "model_metadata list \<Rightarrow> meta_state \<Rightarrow> meta_state" where
  "set_metadata m s = s\<lparr>modelMetadata := m, stored := (if m \<noteq> [] then Some m else stored s)\<rparr>"

text \<open>The load effect (lines 92-108): a file that exists and parses replaces the list;
  otherwise nothing changes.\<close>

definition loadModelMetadata :: "meta_state \<Rightarrow> meta_state" where
  "loadModelMetadata s = (case stored s of Some m \<Rightarrow> set_metadata m s | None \<Rightarrow> s)"

text \<open>\<open>checkDownloadedModels\<close> (lines 236-292), run once at mount with the list
  \<open>snapshot\<close> of the first render; \<open>listing\<close> is \<open>None\<close> when \<open>readDir\<close> fails.\<close>

definition checkDownloadedModels :: "model_metadata list \<Rightarrow> (string \<Rightarrow> nat option) \<Rightarrow> string
    \<Rightarrow> string list option \<Rightarrow> meta_state \<Rightarrow> meta_state" where
  "checkDownloadedModels snapshot stat now listing s =
     (case listing of
        None \<Rightarrow> s
      | Some names \<Rightarrow>
          (let ggufs = gguf_files names; s1 = s\<lparr>downloadedModels := ggufs\<rparr>
           in if new_files snapshot ggufs \<noteq> []
              then set_metadata (reconcile stat now snapshot ggufs (modelMetadata s1)) s1
              else s1))"

text \<open>The state of the first render: the list is empty and the file is whatever the
  previous run left.\<close>

definition meta_mount :: "model_metadata list option \<Rightarrow> meta_state" where
  "meta_mount file = \<lparr>modelMetadata = [], downloadedModels = [], stored = file\<rparr>"

text \<open>Both mount effects are asynchronous and finish in either order.\<close>

definition mount_load_first :: "model_metadata list option \<Rightarrow> (string \<Rightarrow> nat option) \<Rightarrow> string
    \<Rightarrow> string list \<Rightarrow> meta_state" where
  "mount_load_first file stat now names =
     checkDownloadedModels [] stat now (Some names) (loadModelMetadata (meta_mount file))"

definition mount_check_first :: "model_metadata list option \<Rightarrow> (string \<Rightarrow> nat option) \<Rightarrow> string
    \<Rightarrow> string list \<Rightarrow> meta_state" where
  "mount_check_first file stat now names =
     loadModelMetadata (checkDownloadedModels [] stat now (Some names) (meta_mount file))"

subsection \<open>Lemmas on the updaters\<close>

lemma upsert_metadata_Nil [simp]: "upsert_metadata r [] = [r]"
  by (simp add: upsert_metadata_def)

lemma upsert_metadata_Cons [simp]:
  "upsert_metadata r (x # xs) =
     (if filename x = filename r then r # xs else x # upsert_metadata r xs)"
  unfolding upsert_metadata_def by (rule find_index_Cons_update)

lemma backfill_size_absent:
  "find (\<lambda>m. filename m = file) prev = None \<Longrightarrow> backfill_size file sz prev = prev"
  by (simp add: backfill_size_def find_None_iff find_index_None_iff [THEN iffD2])

lemma backfill_size_Nil [simp]: "backfill_size f sz [] = []"
  by (simp add: backfill_size_def)

lemma backfill_size_Cons [simp]:
  "backfill_size f sz (x # xs) =
     (if filename x = f
      then (if size x = None \<or> size x = Some 0 then x\<lparr>size := Some sz\<rparr> # xs else x # xs)
      else x # backfill_size f sz xs)"
  by (cases "find_index (\<lambda>m. filename m = f) xs") (auto simp: backfill_size_def)

lemma map_filename_upsert:
  "map filename (upsert_metadata r xs) =
     (if filename r \<in> set (map filename xs) then map filename xs else map filename xs @ [filename r])"
  by (induction xs) auto

lemma map_filename_backfill [simp]: "map filename (backfill_size f sz m) = map filename m"
proof (cases "find_index (\<lambda>x. filename x = f) m")
  case (Some i)
  then have "i < length m" by (simp add: find_index_Some)
  then have "(map filename m)[i := filename (m ! i)] = map filename m"
    by (metis list_update_id nth_map)
  with Some show ?thesis by (simp add: backfill_size_def map_update)
qed (simp add: backfill_size_def)

lemma upsert_metadata_find:
  "find (\<lambda>x. filename x = filename r) (upsert_metadata r m) = Some r"
  by (induction m) auto

lemma map_filename_fix_format [simp]: "map filename (fix_format sel n m) = map filename m"
  by (induction m) (auto simp: fix_format_def)

lemma find_fix_format:
  "find (\<lambda>x. filename x = n) (fix_format sel n m)
     = map_option (\<lambda>x. x\<lparr>format := (if sel \<noteq> [] then sel else format x)\<rparr>) (find (\<lambda>x. filename x = n) m)"
  by (induction m) (auto simp: fix_format_def)

lemma new_files_distinct: "distinct ds \<Longrightarrow> distinct (new_files m ds)"
  by (simp add: new_files_def)

subsection \<open>Properties of the metadata store\<close>

text \<open>The inferred format is always one of the catalogue's labels or
  \<open>Unknown\<close>, so every discovered file falls in one group of the model list.\<close>

theorem infer_format_range: "infer_format f \<in> set modelFormats \<union> {''Unknown''}"
  by (simp add: infer_format_def modelFormats_def)

text \<open>Upsert after a download: the list keeps unique file names, and the record of
  the downloaded file is the new one.\<close>

theorem upsert_metadata_correct:
  assumes "distinct (map filename m)"
  shows "distinct (map filename (upsert_metadata r m))
         \<and> find (\<lambda>x. filename x = filename r) (upsert_metadata r m) = Some r"
proof -
  have "distinct (map filename (upsert_metadata r m))"
    using assms by (simp add: map_filename_upsert)
  then show ?thesis by (simp add: upsert_metadata_find)
qed

lemma set_metadata_fields [simp]:
  "modelMetadata (set_metadata m s) = m"
  "downloadedModels (set_metadata m s) = downloadedModels s"
  "stored (set_metadata m s) = (if m \<noteq> [] then Some m else stored s)"
  by (simp_all add: set_metadata_def)

lemma meta_mount_fields [simp]:
  "modelMetadata (meta_mount file) = []" "stored (meta_mount file) = file"
  by (simp_all add: meta_mount_def)

lemma new_files_Nil [simp]: "new_files [] ds = ds"
  by (simp add: new_files_def)

lemma check_from_empty_snapshot:
  "gguf_files names \<noteq> [] \<Longrightarrow>
   checkDownloadedModels [] stat now (Some names) s
     = set_metadata (modelMetadata s @ map (discovered_record stat now) (gguf_files names))
         (s\<lparr>downloadedModels := gguf_files names\<rparr>)"
  by (simp add: checkDownloadedModels_def reconcile_def Let_def)

text \<open>C16. When the file load finishes before the directory check, the check (which
  compares against the empty list of the first render) appends a second record for every
  file that was already recorded, and the save effect persists the duplicates.\<close>

theorem mount_load_first_duplicates:
  assumes "f \<in> set (gguf_files names)" and "f \<in> set (map filename m)"
  shows "\<not> distinct (map filename (modelMetadata (mount_load_first (Some m) stat now names)))
         \<and> stored (mount_load_first (Some m) stat now names)
             = Some (modelMetadata (mount_load_first (Some m) stat now names))"
proof -
  have ne: "gguf_files names \<noteq> []" and m: "m \<noteq> []"
    using assms by auto
  have eq: "modelMetadata (mount_load_first (Some m) stat now names)
      = m @ map (discovered_record stat now) (gguf_files names)"
    using ne m by (simp add: mount_load_first_def loadModelMetadata_def check_from_empty_snapshot)
  have "f \<in> set (map filename (map (discovered_record stat now) (gguf_files names)))"
    using assms(1) by (simp add: discovered_record_def)
  then have "\<not> distinct (map filename m @ map filename (map (discovered_record stat now) (gguf_files names)))"
    using assms(2) by auto
  then show ?thesis
    using eq ne m by (simp add: mount_load_first_def loadModelMetadata_def check_from_empty_snapshot)
qed

text \<open>C17. When the directory check finishes first, the list becomes one synthesised
  record per file on disk, is saved over the file, and the load then reads that back: the
  recorded download dates and formats of the previous run are discarded.\<close>

theorem mount_check_first_discards:
  assumes "gguf_files names \<noteq> []"
  shows "modelMetadata (mount_check_first file stat now names)
           = map (discovered_record stat now) (gguf_files names)"
  using assms by (simp add: mount_check_first_def check_from_empty_snapshot loadModelMetadata_def)

text \<open>C18. Deleting the only recorded model empties the list, but the save effect skips
  an empty list: the file keeps the deleted record, and the next start loads it back.\<close>

theorem delete_last_not_persisted:
  assumes "modelMetadata s = [r]" and "stored s = Some [r]"
  shows "modelMetadata (set_metadata (remove_metadata (filename r) (modelMetadata s)) s) = []
         \<and> stored (set_metadata (remove_metadata (filename r) (modelMetadata s)) s) = Some [r]
         \<and> modelMetadata (loadModelMetadata (meta_mount
              (stored (set_metadata (remove_metadata (filename r) (modelMetadata s)) s)))) = [r]"
  using assms by (simp add: remove_metadata_def loadModelMetadata_def)

text \<open>The size backfill changes only the first record of the file, and only when its
  size is missing (or zero, which \<open>!size\<close> also treats as missing); the file names and
  their order stay as they were.\<close>

theorem backfill_size_correct:
  "find (\<lambda>x. filename x = f) (backfill_size f sz m)
     = map_option (\<lambda>x. if size x = None \<or> size x = Some 0 then x\<lparr>size := Some sz\<rparr> else x)
         (find (\<lambda>x. filename x = f) m)
   \<and> map filename (backfill_size f sz m) = map filename m"
  by (induction m) auto

text \<open>The inference is not case-insensitive: only the two spellings of each rule
  match.\<close>

text \<open>C34. The upsert of \<open>handleDownloadModel\<close>, written with \<open>findIndex\<close> and an
  indexed write, is the association-list update of the library (\<open>AList.update\<close>) on the
  list keyed by file name: the first record of the file is replaced, or the record is
  appended.\<close>

theorem upsert_metadata_is_alist_update:
  "upsert_metadata r prev = map snd (AList.update (filename r) r (map (\<lambda>m. (filename m, m)) prev))"
  by (induction prev) (auto simp: comp_def)

lemma infer_format_case_sensitive: "infer_format ''QWEN2-0.5B-INSTRUCT-Q4.gguf'' = ''Unknown''"
  by (simp add: infer_format_def str_includes_def sublist_code)

subsection \<open>Witnesses\<close>

abbreviation ex_record :: model_metadata where
  "ex_record \<equiv> \<lparr>filename = ''qwen2-instruct-q4.gguf'', format = ''Qwen2-0.5B-Instruct'',
                 downloadDate = ''2025-02-01T10:00:00.000Z'', size = Some 500\<rparr>"

abbreviation ex_now :: string where
  "ex_now \<equiv> ''2025-03-01T08:00:00.000Z''"

theorem upsert_metadata_correct_witness:
  "distinct (map filename [ex_record\<lparr>filename := ''SmolLM2-q8.gguf''\<rparr>, ex_record])
   \<and> upsert_metadata (ex_record\<lparr>size := Some 501\<rparr>) [ex_record\<lparr>filename := ''SmolLM2-q8.gguf''\<rparr>, ex_record]
       = [ex_record\<lparr>filename := ''SmolLM2-q8.gguf''\<rparr>, ex_record\<lparr>size := Some 501\<rparr>]
   \<and> find (\<lambda>x. filename x = ''qwen2-instruct-q4.gguf'')
       (upsert_metadata (ex_record\<lparr>size := Some 501\<rparr>) [ex_record\<lparr>filename := ''SmolLM2-q8.gguf''\<rparr>, ex_record])
       = Some (ex_record\<lparr>size := Some 501\<rparr>)"
proof -
  have h: "distinct (map filename [ex_record\<lparr>filename := ''SmolLM2-q8.gguf''\<rparr>, ex_record])"
    by simp
  show ?thesis
    using upsert_metadata_correct [OF h, of "ex_record\<lparr>size := Some 501\<rparr>"] h by simp
qed

theorem mount_load_first_duplicates_witness:
  "''qwen2-instruct-q4.gguf'' \<in> set (gguf_files [''qwen2-instruct-q4.gguf'', ''notes.txt''])
   \<and> ''qwen2-instruct-q4.gguf'' \<in> set (map filename [ex_record])
   \<and> \<not> distinct (map filename (modelMetadata
        (mount_load_first (Some [ex_record]) (\<lambda>_. Some 500) ex_now [''qwen2-instruct-q4.gguf'', ''notes.txt''])))"
proof -
  have h: "''qwen2-instruct-q4.gguf'' \<in> set (gguf_files [''qwen2-instruct-q4.gguf'', ''notes.txt''])"
    "''qwen2-instruct-q4.gguf'' \<in> set (map filename [ex_record])"
    by (simp_all add: gguf_files_def ends_with_def suffix_def)
  show ?thesis
    using mount_load_first_duplicates [OF h, of "\<lambda>_. Some 500" ex_now] h by simp
qed

theorem mount_check_first_discards_witness:
  "gguf_files [''qwen2-instruct-q4.gguf''] \<noteq> []
   \<and> modelMetadata (mount_check_first (Some [ex_record]) (\<lambda>_. Some 500) ex_now [''qwen2-instruct-q4.gguf''])
       = [ex_record\<lparr>downloadDate := ex_now\<rparr>]"
proof -
  have h: "gguf_files [''qwen2-instruct-q4.gguf''] = [''qwen2-instruct-q4.gguf'']"
    by (simp add: gguf_files_def ends_with_def suffix_def)
  have d: "discovered_record (\<lambda>_. Some 500) ex_now ''qwen2-instruct-q4.gguf'' = ex_record\<lparr>downloadDate := ex_now\<rparr>"
    by code_simp
  show ?thesis
    using mount_check_first_discards [of "[''qwen2-instruct-q4.gguf'']" "Some [ex_record]" "\<lambda>_. Some 500" ex_now]
      h d by simp
qed

theorem delete_last_not_persisted_witness:
  "modelMetadata \<lparr>modelMetadata = [ex_record], downloadedModels = [''qwen2-instruct-q4.gguf''],
       stored = Some [ex_record]\<rparr> = [ex_record]
   \<and> stored \<lparr>modelMetadata = [ex_record], downloadedModels = [''qwen2-instruct-q4.gguf''],
       stored = Some [ex_record]\<rparr> = Some [ex_record]
   \<and> modelMetadata (loadModelMetadata (meta_mount (stored (set_metadata
        (remove_metadata ''qwen2-instruct-q4.gguf'' [ex_record])
        \<lparr>modelMetadata = [ex_record], downloadedModels = [''qwen2-instruct-q4.gguf''],
         stored = Some [ex_record]\<rparr>)))) = [ex_record]"
proof -
  let ?s = "\<lparr>modelMetadata = [ex_record], downloadedModels = [''qwen2-instruct-q4.gguf''],
            stored = Some [ex_record]\<rparr>"
  have h: "modelMetadata ?s = [ex_record]" "stored ?s = Some [ex_record]" by simp_all
  show ?thesis
    using delete_last_not_persisted [OF h] h by (simp add: remove_metadata_def loadModelMetadata_def)
qed

end
