(* ===== verification/Download.thy ===== *)
theory Download
  imports Session Metadata
begin

text \<open>
  The handlers that span the session and the metadata store: \<open>handleDownloadModel\<close>
  (lines 320-413) with \<open>checkFileExists\<close> (lines 296-304) and the \<open>loadModel\<close> it calls, \<open>handleDownloadAndNavigate\<close> and
  \<open>handleGGUFSelection\<close> (lines 130-150), \<open>deleteModel\<close> (lines 630-679),
  \<open>handleFormatSelection\<close> (lines 204-233) and the uncalled \<open>fetchAvailableGGUFs\<close>
  (lines 170-202). The outcomes of the asynchronous calls
  (\<open>RNFS.exists\<close>, \<open>RNFS.stat\<close>, \<open>initLlama\<close>, the transfer, \<open>RNFS.unlink\<close>, the catalogue
  request) are inputs. The transfer \<open>downloadModel\<close> lives in \<open>src/api/model\<close>,
  which is not among the sources: it is modelled from the spec (4.3, 6).
\<close>

subsection \<open>The transfer, from the spec\<close>

text \<open>The bytes arrive in chunks; after each chunk \<open>onProgress\<close> receives the share
  of the announced length received so far.\<close>

fun progress_reports :: "nat \<Rightarrow> nat \<Rightarrow> nat list \<Rightarrow> rat list" where
  "progress_reports len got [] = []"
| "progress_reports len got (c # cs) =
     (of_nat (got + c) / of_nat len) # progress_reports len (got + c) cs"

definition downloadModel_progress :: "nat \<Rightarrow> nat list \<Rightarrow> rat list" where
  "downloadModel_progress len chunks = progress_reports len 0 chunks"

subsection \<open>Application state\<close>

record app_state =
  sess :: session_state
  meta :: meta_state
  disk :: "string \<Rightarrow> nat option"
  isDownloading :: bool
  progress :: rat
  selectedModelFormat :: string
  availableGGUFs :: "string list"
  alerts :: "alert list"

text \<open>The outcomes of the calls one download makes.\<close>

record download_env =
  exists_rejects :: bool
  stat_existing :: "string + nat"
  init_existing :: "string + unit"
  content_length :: nat
  chunks :: "nat list"
  transfer_error :: "string option"
  stat_downloaded :: "string + nat"
  init_downloaded :: "string + unit"
  download_time :: string
  document_dir :: string

text \<open>\<open>`${RNFS.DocumentDirectoryPath}/${file}`\<close> (lines 328, 447, 634).\<close>

definition dest_path :: "download_env \<Rightarrow> string \<Rightarrow> string" where
  "dest_path env file = document_dir env @ ''/'' @ file"

subsection \<open>Handlers\<close>

text \<open>\<open>loadModel(name)\<close> with the metadata list \<open>snapshot\<close> of the render it belongs
  to (lines 445-494); the boolean is its result.\<close>

definition app_loadModel :: "string \<Rightarrow> string + unit \<Rightarrow> model_metadata list \<Rightarrow> app_state
    \<Rightarrow> app_state \<times> bool" where
  "app_loadModel name r snapshot a =
     (let a1 = a\<lparr>sess := loadModel_done r (loadModel_start (sess a))\<rparr>
      in case r of
           Inr _ \<Rightarrow>
             (if needs_format_fix name snapshot
              then a1\<lparr>meta := set_metadata (fix_format (selectedModelFormat a) name
                                 (modelMetadata (meta a))) (meta a)\<rparr>
              else a1, True)
         | Inl _ \<Rightarrow> (a1, False))"

text \<open>The \<open>try\<close> block of \<open>handleDownloadModel\<close> (lines 362-412): transfer, \<open>stat\<close>,
  upsert of the record, the list of downloaded files, then \<open>loadModel\<close>; a failed
  transfer leaves the bytes received so far on disk.\<close>

definition download_transfer :: "download_env \<Rightarrow> string \<Rightarrow> model_metadata list \<Rightarrow> app_state
    \<Rightarrow> app_state" where
  "download_transfer env file snapshot a =
     (let reports = downloadModel_progress (content_length env) (chunks env);
          a1 = a\<lparr>disk := (if chunks env = [] \<and> transfer_error env \<noteq> None then disk a
                           else (disk a)(file \<mapsto> sum_list (chunks env))),
                 progress := (if reports = [] then progress a else last reports)\<rparr>
      in case transfer_error env of
           Some err \<Rightarrow>
             a1\<lparr>alerts := alerts a1 @ [Alert ''Error'' (''Download failed: '' @ err)],
                isDownloading := False\<rparr>
         | None \<Rightarrow>
             (case stat_downloaded env of
                Inl err \<Rightarrow>
                  a1\<lparr>alerts := alerts a1 @ [Alert ''Error'' (''Download failed: '' @ err)],
                     isDownloading := False\<rparr>
              | Inr sz \<Rightarrow>
                  (let r = \<lparr>filename = file, format = selectedModelFormat a,
                            downloadDate = download_time env, size = Some sz\<rparr>;
                       m1 = set_metadata (upsert_metadata r (modelMetadata (meta a1))) (meta a1);
                       m2 = m1\<lparr>downloadedModels :=
                              (if file \<in> set (downloadedModels m1) then downloadedModels m1
                               else downloadedModels m1 @ [file])\<rparr>;
                       a2 = a1\<lparr>meta := m2,
                               alerts := alerts a1 @ [Alert ''Success'' (''Model downloaded to: '' @ dest_path env file)]\<rparr>
                   in (fst (app_loadModel file (init_downloaded env) snapshot a2))\<lparr>isDownloading := False\<rparr>)))"

text \<open>\<open>checkFileExists(path)\<close> (lines 296-304): the answer of \<open>RNFS.exists\<close>, and
  \<open>false\<close> when that call rejects.\<close>

definition checkFileExists :: "bool \<Rightarrow> (string \<Rightarrow> nat option) \<Rightarrow> string \<Rightarrow> bool" where
  "checkFileExists rejects files file = (if rejects then False else files file \<noteq> None)"

text \<open>\<open>handleDownloadModel(file)\<close> (lines 321-413): a file found on disk gets its size
  backfilled and is loaded; only when that load fails, or the file is not found, does
  the transfer run.\<close>

definition handleDownloadModel :: "download_env \<Rightarrow> string \<Rightarrow> app_state \<Rightarrow> app_state" where
  "handleDownloadModel env file a0 =
     (let snapshot = modelMetadata (meta a0);
          a = a0\<lparr>isDownloading := True, progress := 0\<rparr>
      in if checkFileExists (exists_rejects env) (disk a) file
         then (let a1 = (case stat_existing env of
                           Inr sz \<Rightarrow> a\<lparr>meta := set_metadata (backfill_size file sz (modelMetadata (meta a))) (meta a)\<rparr>
                         | Inl _ \<Rightarrow> a);
                   (a2, ok) = app_loadModel file (init_existing env) snapshot a1
               in if ok
                  then a2\<lparr>alerts := alerts a2 @ [Alert ''Info''
                              (''File '' @ dest_path env file @ '' already exists, we will load it directly.'')],
                          isDownloading := False\<rparr>
                  else download_transfer env file snapshot a2)
         else download_transfer env file snapshot a)"

text \<open>\<open>handleGGUFSelection\<close> with the answer to its confirmation, and
  \<open>handleDownloadAndNavigate\<close> (lines 130-150).\<close>

definition handleGGUFSelection :: "bool \<Rightarrow> download_env \<Rightarrow> string \<Rightarrow> app_state \<Rightarrow> app_state" where
  "handleGGUFSelection yes env file a =
     (let a1 = a\<lparr>sess := (sess a)\<lparr>selectedGGUF := Some file\<rparr>\<rparr>
      in if yes
         then (let a2 = handleDownloadModel env file a1
               in a2\<lparr>sess := (sess a2)\<lparr>currentPage := Conversation\<rparr>\<rparr>)
         else a1\<lparr>sess := (sess a1)\<lparr>selectedGGUF := None\<rparr>\<rparr>)"

text \<open>\<open>deleteModel(file)\<close> (lines 631-679) with the rejection of \<open>RNFS.exists\<close>
  (caught by the outer \<open>catch\<close>), the answer to its confirmation and the outcome of
  \<open>RNFS.unlink\<close>.\<close>

definition deleteModel :: "string option \<Rightarrow> bool \<Rightarrow> string option \<Rightarrow> string \<Rightarrow> app_state \<Rightarrow> app_state" where
  "deleteModel exists_error confirmed unlink_error file a =
     (case exists_error of
        Some msg \<Rightarrow> a\<lparr>alerts := alerts a @ [Alert ''Error'' (''Failed to delete model: '' @ msg)]\<rparr>
      | None \<Rightarrow>
          if disk a file = None
          then a\<lparr>alerts := alerts a @ [Alert ''Error'' (''File '' @ file @ '' does not exist.'')]\<rparr>
          else if \<not> confirmed then a
          else (case unlink_error of
                  Some err \<Rightarrow> a\<lparr>alerts := alerts a @ [Alert ''Error'' (''Failed to delete model: '' @ err)]\<rparr>
                | None \<Rightarrow>
                    a\<lparr>disk := (disk a)(file := None),
                      meta := (set_metadata (remove_metadata file (modelMetadata (meta a))) (meta a))
                                \<lparr>downloadedModels := filter (\<lambda>m. m \<noteq> file) (downloadedModels (meta a))\<rparr>,
                      alerts := alerts a @ [Alert ''Success'' (''Model '' @ file @ '' was deleted successfully.'')]\<rparr>))"

text \<open>The catalogue request: \<open>`https://huggingface.co/api/models/${HF_TO_GGUF[format]}`\<close>
  (lines 174-177, 213), where a label missing from the table is interpolated as
  \<open>undefined\<close>. The catalogue server is an input: its answer to a URL, the sibling
  file names or the failure of the request.\<close>

definition template_text :: "string option \<Rightarrow> string" where
  "template_text x = (case x of Some s \<Rightarrow> s | None \<Rightarrow> ''undefined'')"

definition catalogue_url :: "string \<Rightarrow> string" where
  "catalogue_url fmt = ''https://huggingface.co/api/models/'' @ template_text (map_of HF_TO_GGUF fmt)"

type_synonym catalogue = "string \<Rightarrow> string + string list"

text \<open>\<open>handleFormatSelection(format)\<close> (lines 204-233): the catalogue answers with the
  sibling file names, or fails and the recorded models of the format are offered.\<close>

definition handleFormatSelection :: "catalogue \<Rightarrow> string \<Rightarrow> app_state \<Rightarrow> app_state" where
  "handleFormatSelection hub fmt a =
     (let a1 = a\<lparr>selectedModelFormat := fmt, availableGGUFs := []\<rparr>
      in case hub (catalogue_url fmt) of
           Inr rfilenames \<Rightarrow> a1\<lparr>availableGGUFs := filter (\<lambda>f. ends_with f ''.gguf'') rfilenames\<rparr>
         | Inl _ \<Rightarrow> a1\<lparr>availableGGUFs := local_models_of fmt (modelMetadata (meta a))\<rparr>)"

text \<open>\<open>fetchAvailableGGUFs(modelFormat)\<close> (lines 170-202), which no handler calls: the
  same request and fallback as \<open>handleFormatSelection\<close>, with an alert on the fallback.
  Its \<open>isFetching\<close> flag is raised and lowered around the request, so it is not part
  of the state between events.\<close>

definition fetchAvailableGGUFs :: "catalogue \<Rightarrow> string \<Rightarrow> app_state \<Rightarrow> app_state" where
  "fetchAvailableGGUFs hub modelFormat a =
     (case hub (catalogue_url modelFormat) of
        Inr rfilenames \<Rightarrow> a\<lparr>availableGGUFs := filter (\<lambda>f. ends_with f ''.gguf'') rfilenames\<rparr>
      | Inl _ \<Rightarrow> a\<lparr>availableGGUFs := local_models_of modelFormat (modelMetadata (meta a)),
                   alerts := alerts a @ [Alert ''Network Error''
                     (''Using locally downloaded '' @ modelFormat @ '' models only.'')]\<rparr>)"

subsection \<open>Lemmas\<close>

text \<open>Every label of the format buttons has a repository, so no catalogue request built
  from a button asks for \<open>undefined\<close>.\<close>

lemma catalogue_url_formats:
  "fmt \<in> set modelFormats \<Longrightarrow>
     \<exists>repo. map_of HF_TO_GGUF fmt = Some repo \<and> catalogue_url fmt = ''https://huggingface.co/api/models/'' @ repo"
  by (auto simp: modelFormats_def HF_TO_GGUF_def catalogue_url_def template_text_def)

lemma checkFileExists_absent [simp]: "files file = None \<Longrightarrow> \<not> checkFileExists r files file"
  by (simp add: checkFileExists_def)

lemma app_loadModel_fields [simp]:
  "disk (fst (app_loadModel n r snap a)) = disk a"
  "progress (fst (app_loadModel n r snap a)) = progress a"
  "alerts (fst (app_loadModel n r snap a)) = alerts a"
  "isDownloading (fst (app_loadModel n r snap a)) = isDownloading a"
  "selectedModelFormat (fst (app_loadModel n r snap a)) = selectedModelFormat a"
  "downloadedModels (meta (fst (app_loadModel n r snap a))) = downloadedModels (meta a)"
  "sess (fst (app_loadModel n r snap a)) = loadModel_done r (loadModel_start (sess a))"
  "snd (app_loadModel n r snap a) = (case r of Inr _ \<Rightarrow> True | Inl _ \<Rightarrow> False)"
  by (simp_all add: app_loadModel_def Let_def split: sum.split)

lemma app_loadModel_metadata:
  "modelMetadata (meta (fst (app_loadModel n r snap a))) =
     (case r of
        Inr _ \<Rightarrow> (if needs_format_fix n snap
                  then fix_format (selectedModelFormat a) n (modelMetadata (meta a))
                  else modelMetadata (meta a))
      | Inl _ \<Rightarrow> modelMetadata (meta a))"
  by (simp add: app_loadModel_def Let_def split: sum.split)

lemma app_loadModel_Inl [simp]: "app_loadModel n (Inl e) snap a = (a\<lparr>sess := loadModel_done (Inl e) (loadModel_start (sess a))\<rparr>, False)"
  by (simp add: app_loadModel_def)

subsection \<open>Properties of the download coordinator\<close>

text \<open>C20. A file found on disk whose load succeeds is not transferred: no progress is
  reported, the file is untouched, its record gets the measured size when it had none,
  the download flag is cleared and the model is loaded.\<close>

theorem download_existing_skips_transfer:
  assumes "disk a file \<noteq> None" and "\<not> exists_rejects env" and "stat_existing env = Inr sz" and "init_existing env = Inr u"
  shows "disk (handleDownloadModel env file a) = disk a
    \<and> progress (handleDownloadModel env file a) = 0
    \<and> modelMetadata (meta (handleDownloadModel env file a)) =
        (if needs_format_fix file (modelMetadata (meta a))
         then fix_format (selectedModelFormat a) file (backfill_size file sz (modelMetadata (meta a)))
         else backfill_size file sz (modelMetadata (meta a)))
    \<and> \<not> isDownloading (handleDownloadModel env file a)
    \<and> llamaContext (sess (handleDownloadModel env file a)) = Some (next_context (sess a))"
  using assms
  by (simp add: handleDownloadModel_def checkFileExists_def Let_def case_prod_beta app_loadModel_metadata
      loadModel_done_def loadModel_start_def)

text \<open>C27. A file already on disk with no record gets none, although it is loaded and
  its size is measured: the backfill only updates an existing record, so the spec's
  example of a 500-byte existing file yielding a record of 500 bytes does not hold.\<close>

theorem download_existing_no_record:
  assumes "disk a file \<noteq> None" and "\<not> exists_rejects env" and "init_existing env = Inr u"
    and "find (\<lambda>x. filename x = file) (modelMetadata (meta a)) = None"
  shows "find (\<lambda>x. filename x = file) (modelMetadata (meta (handleDownloadModel env file a))) = None
    \<and> disk (handleDownloadModel env file a) = disk a
    \<and> progress (handleDownloadModel env file a) = 0"
  using assms
  by (simp add: handleDownloadModel_def checkFileExists_def Let_def case_prod_beta app_loadModel_metadata
      backfill_size_absent find_fix_format split: sum.split)

text \<open>C21. When the load of a file already on disk fails, or \<open>RNFS.exists\<close> rejects so
  that \<open>checkFileExists\<close> answers \<open>false\<close>, the handler falls through to the transfer
  and downloads the whole file again over it.\<close>

theorem download_existing_load_failure_retransfers:
  assumes "disk a file \<noteq> None" and "exists_rejects env \<or> init_existing env = Inl e"
    and "chunks env \<noteq> []"
  shows "disk (handleDownloadModel env file a) file = Some (sum_list (chunks env))
    \<and> progress (handleDownloadModel env file a) = last (downloadModel_progress (content_length env) (chunks env))"
proof -
  have "downloadModel_progress (content_length env) (chunks env) \<noteq> []"
    using assms(3) by (cases "chunks env") (simp_all add: downloadModel_progress_def)
  with assms show ?thesis
    by (auto simp: handleDownloadModel_def checkFileExists_def download_transfer_def Let_def case_prod_beta
        split: option.split sum.split)
qed

text \<open>C22. A failed transfer is reported as \<open>Download failed\<close> with its cause and changes
  neither the metadata, the list of downloaded files nor the session; the bytes received
  so far stay on disk.\<close>

theorem download_failure_reported:
  assumes "disk a file = None" and "transfer_error env = Some err"
  shows "meta (handleDownloadModel env file a) = meta a
    \<and> sess (handleDownloadModel env file a) = sess a
    \<and> alerts (handleDownloadModel env file a) = alerts a @ [Alert ''Error'' (''Download failed: '' @ err)]
    \<and> \<not> isDownloading (handleDownloadModel env file a)
    \<and> disk (handleDownloadModel env file a) file
        = (if chunks env = [] then None else Some (sum_list (chunks env)))"
  using assms by (simp add: handleDownloadModel_def download_transfer_def Let_def)

text \<open>C23. A completed download records the file under the selected format with the date
  of the download and its measured size, lists it among the downloaded files, and keeps
  both lists free of duplicates.\<close>

theorem download_success_records:
  assumes "disk a file = None" and "transfer_error env = None" and "stat_downloaded env = Inr sz"
    and "distinct (map filename (modelMetadata (meta a)))" and "distinct (downloadedModels (meta a))"
  shows "find (\<lambda>x. filename x = file) (modelMetadata (meta (handleDownloadModel env file a)))
           = Some \<lparr>filename = file, format = selectedModelFormat a,
                   downloadDate = download_time env, size = Some sz\<rparr>
    \<and> distinct (map filename (modelMetadata (meta (handleDownloadModel env file a))))
    \<and> file \<in> set (downloadedModels (meta (handleDownloadModel env file a)))
    \<and> distinct (downloadedModels (meta (handleDownloadModel env file a)))"
proof -
  let ?M = "modelMetadata (meta a)" and ?D = "downloadedModels (meta a)"
  let ?r = "\<lparr>filename = file, format = selectedModelFormat a,
             downloadDate = download_time env, size = Some sz\<rparr>"
  let ?a' = "handleDownloadModel env file a"
  have m: "modelMetadata (meta ?a') =
      (case init_downloaded env of
         Inr _ \<Rightarrow> (if needs_format_fix file ?M
                   then fix_format (selectedModelFormat a) file (upsert_metadata ?r ?M)
                   else upsert_metadata ?r ?M)
       | Inl _ \<Rightarrow> upsert_metadata ?r ?M)"
    using assms(1-3)
    by (simp add: handleDownloadModel_def download_transfer_def Let_def app_loadModel_metadata
        split: sum.split)
  have d: "downloadedModels (meta ?a') = (if file \<in> set ?D then ?D else ?D @ [file])"
    using assms(1-3) by (simp add: handleDownloadModel_def download_transfer_def Let_def)
  have fr: "find (\<lambda>x. filename x = file) (upsert_metadata ?r ?M) = Some ?r"
    using upsert_metadata_find [of ?r ?M] by simp
  have "find (\<lambda>x. filename x = file) (modelMetadata (meta ?a')) = Some ?r"
    using fr by (simp add: m find_fix_format split: sum.split)
  moreover have "distinct (map filename (modelMetadata (meta ?a')))"
    using assms(4) by (simp add: m map_filename_upsert split: sum.split)
  moreover have "file \<in> set (downloadedModels (meta ?a')) \<and> distinct (downloadedModels (meta ?a'))"
    using assms(5) d by simp
  ultimately show ?thesis by blast
qed

text \<open>C24. A transfer that completes but whose \<open>stat\<close> fails leaves the whole file on
  disk, reports the download as failed, and records it neither in the metadata nor among
  the downloaded files.\<close>

theorem download_stat_failure_unrecorded:
  assumes "disk a file = None" and "transfer_error env = None" and "stat_downloaded env = Inl err"
  shows "disk (handleDownloadModel env file a) file = Some (sum_list (chunks env))
    \<and> meta (handleDownloadModel env file a) = meta a
    \<and> sess (handleDownloadModel env file a) = sess a
    \<and> alerts (handleDownloadModel env file a) = alerts a @ [Alert ''Error'' (''Download failed: '' @ err)]"
  using assms by (simp add: handleDownloadModel_def download_transfer_def Let_def)

text \<open>C25. A confirmed deletion whose \<open>unlink\<close> succeeds removes the file from disk,
  from the metadata and from the list of downloaded files.\<close>

theorem delete_model_removes:
  assumes "disk a file \<noteq> None"
  shows "disk (deleteModel None True None file a) file = None
    \<and> file \<notin> set (map filename (modelMetadata (meta (deleteModel None True None file a))))
    \<and> file \<notin> set (downloadedModels (meta (deleteModel None True None file a)))
    \<and> alerts (deleteModel None True None file a)
        = alerts a @ [Alert ''Success'' (''Model '' @ file @ '' was deleted successfully.'')]"
  using assms by (auto simp: deleteModel_def remove_metadata_def)

text \<open>C26. Confirming a model whose download fails still navigates to the conversation
  page: with no model loaded before, the page shows a conversation with no context.\<close>

theorem failed_download_navigates:
  assumes "llamaContext (sess a) = None" and "disk a file = None" and "transfer_error env = Some err"
  shows "currentPage (sess (handleGGUFSelection True env file a)) = Conversation
    \<and> llamaContext (sess (handleGGUFSelection True env file a)) = None
    \<and> selectedGGUF (sess (handleGGUFSelection True env file a)) = Some file"
  using assms by (simp add: handleGGUFSelection_def handleDownloadModel_def download_transfer_def Let_def)

subsection \<open>Witnesses\<close>

abbreviation ex_app :: app_state where
  "ex_app \<equiv> \<lparr>sess = session_init,
     meta = \<lparr>modelMetadata = [], downloadedModels = [], stored = None\<rparr>,
     disk = Map.empty, isDownloading = False, progress = 0, selectedModelFormat = ''Llama'',
     availableGGUFs = [], alerts = []\<rparr>"

abbreviation ex_env :: download_env where
  "ex_env \<equiv> \<lparr>exists_rejects = False, stat_existing = Inr 100, init_existing = Inr (), content_length = 100,
     chunks = [40, 60], transfer_error = None, stat_downloaded = Inr 100,
     init_downloaded = Inr (), download_time = ''2026-01-01'',
     document_dir = ''/data/files''\<rparr>"

theorem download_existing_skips_transfer_witness:
  "disk (ex_app\<lparr>disk := [''m.gguf'' \<mapsto> 100]\<rparr>) ''m.gguf'' \<noteq> None
   \<and> progress (handleDownloadModel ex_env ''m.gguf'' (ex_app\<lparr>disk := [''m.gguf'' \<mapsto> 100]\<rparr>)) = 0"
  using download_existing_skips_transfer [of "ex_app\<lparr>disk := [''m.gguf'' \<mapsto> 100]\<rparr>" "''m.gguf''" ex_env 100 "()"]
  by simp

theorem download_existing_no_record_witness:
  "find (\<lambda>x. filename x = ''m.gguf'')
     (modelMetadata (meta (handleDownloadModel (ex_env\<lparr>stat_existing := Inr 500\<rparr>) ''m.gguf''
        (ex_app\<lparr>disk := [''m.gguf'' \<mapsto> 500]\<rparr>)))) = None"
  using download_existing_no_record
    [of "ex_app\<lparr>disk := [''m.gguf'' \<mapsto> 500]\<rparr>" "''m.gguf''" "ex_env\<lparr>stat_existing := Inr 500\<rparr>" "()"]
  by simp

theorem download_existing_load_failure_retransfers_witness:
  "disk (handleDownloadModel (ex_env\<lparr>init_existing := Inl ''bad''\<rparr>) ''m.gguf''
           (ex_app\<lparr>disk := [''m.gguf'' \<mapsto> 7]\<rparr>)) ''m.gguf'' = Some 100"
  using download_existing_load_failure_retransfers
    [of "ex_app\<lparr>disk := [''m.gguf'' \<mapsto> 7]\<rparr>" "''m.gguf''" "ex_env\<lparr>init_existing := Inl ''bad''\<rparr>" "''bad''"]
  by simp

theorem download_failure_reported_witness:
  "alerts (handleDownloadModel (ex_env\<lparr>transfer_error := Some ''timeout''\<rparr>) ''m.gguf'' ex_app)
     = [Alert ''Error'' ''Download failed: timeout'']"
  using download_failure_reported [of ex_app "''m.gguf''" "ex_env\<lparr>transfer_error := Some ''timeout''\<rparr>" "''timeout''"]
  by simp

theorem download_success_records_witness:
  "find (\<lambda>x. filename x = ''m.gguf'') (modelMetadata (meta (handleDownloadModel ex_env ''m.gguf'' ex_app)))
     = Some \<lparr>filename = ''m.gguf'', format = ''Llama'', downloadDate = ''2026-01-01'', size = Some 100\<rparr>"
  using download_success_records [of ex_app "''m.gguf''" ex_env 100]
  by simp

theorem download_stat_failure_unrecorded_witness:
  "disk (handleDownloadModel (ex_env\<lparr>stat_downloaded := Inl ''ENOENT''\<rparr>) ''m.gguf'' ex_app) ''m.gguf'' = Some 100
   \<and> modelMetadata (meta (handleDownloadModel (ex_env\<lparr>stat_downloaded := Inl ''ENOENT''\<rparr>) ''m.gguf'' ex_app)) = []"
  using download_stat_failure_unrecorded [of ex_app "''m.gguf''" "ex_env\<lparr>stat_downloaded := Inl ''ENOENT''\<rparr>" "''ENOENT''"]
  by simp

theorem delete_model_removes_witness:
  "disk (deleteModel None True None ''m.gguf'' (ex_app\<lparr>disk := [''m.gguf'' \<mapsto> 100]\<rparr>)) ''m.gguf'' = None"
  using delete_model_removes [of "ex_app\<lparr>disk := [''m.gguf'' \<mapsto> 100]\<rparr>" "''m.gguf''"] by simp

theorem failed_download_navigates_witness:
  "currentPage (sess (handleGGUFSelection True (ex_env\<lparr>transfer_error := Some ''timeout''\<rparr>) ''m.gguf'' ex_app))
     = Conversation
   \<and> llamaContext (sess (handleGGUFSelection True (ex_env\<lparr>transfer_error := Some ''timeout''\<rparr>) ''m.gguf'' ex_app))
     = None"
  using failed_download_navigates [of ex_app "''m.gguf''" "ex_env\<lparr>transfer_error := Some ''timeout''\<rparr>" "''timeout''"]
  by (simp add: session_init_def)

end
