(* ===== verification/Display.thy ===== *)
theory Display
  imports Metadata
begin

text \<open>
  The helpers the model list renders with (lines 305-319, 625-629, 682-695):
  \<open>formatFileSize\<close> with the number formatting it relies on (\<open>Number.prototype.toString\<close>
  on a whole number and \<open>toFixed(1)\<close>), \<open>getModelSize\<close>, \<open>getModelFormatInfo\<close>, and
  the auto-scroll decision of \<open>handleScroll\<close>. Sizes are whole byte counts below
  \<open>2^53\<close>, so \<open>bytes / 1024^k\<close> is an exact double and \<open>toFixed\<close> rounds the exact
  quotient, half up; rationals model it without loss.
\<close>

subsection \<open>Decimal notation\<close>

text \<open>\<open>String(n)\<close> of a whole number.\<close>

function string_of_nat :: "nat \<Rightarrow> string" where
  "string_of_nat n =
     (if n < 10 then [''0123456789'' ! n]
      else string_of_nat (n div 10) @ [''0123456789'' ! (n mod 10)])"
  by auto
termination by (relation "measure id") auto

declare string_of_nat.simps [simp del]

text \<open>The value of a string of decimal digits.\<close>

definition nat_of_digits :: "string \<Rightarrow> nat" where
  "nat_of_digits s = foldl (\<lambda>n c. 10 * n + (of_char c - 48)) 0 s"

text \<open>\<open>x.toFixed(1)\<close> for \<open>x \<ge> 0\<close>: the integer \<open>n\<close> nearest to \<open>10 x\<close>, the larger one on a
  tie, written with one decimal.\<close>

definition to_fixed1 :: "rat \<Rightarrow> string" where
  "to_fixed1 x = (let n = nat \<lfloor>10 * x + 1 / 2\<rfloor>
                  in string_of_nat (n div 10) @ ''.'' @ string_of_nat (n mod 10))"

subsection \<open>The model list helpers\<close>

definition formatFileSize :: "nat option \<Rightarrow> string" where
  "formatFileSize bytes =
     (case bytes of
        None \<Rightarrow> ''Unknown size''
      | Some b \<Rightarrow>
          if b < 1024 then string_of_nat b @ '' B''
          else if b < 1024 * 1024 then to_fixed1 (of_nat b / 1024) @ '' KB''
          else if b < 1024 * 1024 * 1024 then to_fixed1 (of_nat b / (1024 * 1024)) @ '' MB''
          else to_fixed1 (of_nat b / (1024 * 1024 * 1024)) @ '' GB'')"

definition getModelSize :: "model_metadata list \<Rightarrow> string \<Rightarrow> string" where
  "getModelSize models file =
     formatFileSize (case find (\<lambda>m. filename m = file) models of
                       Some m \<Rightarrow> size m
                     | None \<Rightarrow> None)"

definition getModelFormatInfo :: "model_metadata list \<Rightarrow> string \<Rightarrow> string" where
  "getModelFormatInfo models file =
     (case find (\<lambda>m. filename m = file) models of
        Some m \<Rightarrow> format m
      | None \<Rightarrow> ''Unknown'')"

text \<open>\<open>handleScroll\<close>: auto-scroll stays on while the view is less than 100 pixels from
  the bottom of the content.\<close>

definition handleScroll :: "rat \<Rightarrow> rat \<Rightarrow> rat \<Rightarrow> bool" where
  "handleScroll currentPosition contentHeight scrollViewHeight =
     (contentHeight - scrollViewHeight - currentPosition < 100)"

subsection \<open>Lemmas\<close>

lemma string_of_nat_small [simp]: "n < 10 \<Longrightarrow> string_of_nat n = [''0123456789'' ! n]"
  by (simp add: string_of_nat.simps)

lemma string_of_nat_large: "\<not> n < 10 \<Longrightarrow>
    string_of_nat n = string_of_nat (n div 10) @ [''0123456789'' ! (n mod 10)]"
  by (subst string_of_nat.simps) simp

lemma of_char_digit [simp]: "d < 10 \<Longrightarrow> (of_char (''0123456789'' ! d) :: nat) = 48 + d"
  by (auto simp: less_Suc_eq numeral_eq_Suc)

lemma nat_of_digits_snoc [simp]: "nat_of_digits (s @ [c]) = 10 * nat_of_digits s + (of_char c - 48)"
  by (simp add: nat_of_digits_def)

lemma nat_of_digits_string_of_nat: "nat_of_digits (string_of_nat n) = n"
proof (induction n rule: string_of_nat.induct)
  case (1 n)
  show ?case
  proof (cases "n < 10")
    case True
    then show ?thesis by (simp add: nat_of_digits_def)
  next
    case False
    then have "nat_of_digits (string_of_nat (n div 10)) = n div 10" using 1 by simp
    with False show ?thesis by (simp add: string_of_nat_large)
  qed
qed

lemma string_of_nat_inj: "string_of_nat m = string_of_nat n \<Longrightarrow> m = n"
  by (metis nat_of_digits_string_of_nat)

lemma formatFileSize_last:
  "last (formatFileSize (Some b)) = CHR ''B''"
  by (simp add: formatFileSize_def)

lemma to_fixed1_accuracy:
  assumes "0 \<le> x"
  shows "\<exists>n. to_fixed1 x = string_of_nat (n div 10) @ ''.'' @ string_of_nat (n mod 10)
           \<and> \<bar>of_nat n / 10 - x\<bar> \<le> 1 / 20"
proof -
  let ?f = "\<lfloor>10 * x + 1 / 2\<rfloor>"
  have f0: "0 \<le> ?f" using assms by simp
  have lo: "10 * x + 1 / 2 - 1 < of_int ?f" and hi: "of_int ?f \<le> 10 * x + 1 / 2"
    by linarith+
  have n: "(of_nat (nat ?f) :: rat) = of_int ?f" using f0 by simp
  have d: "\<bar>of_int ?f - 10 * x\<bar> \<le> 1 / 2"
    unfolding abs_le_iff using lo hi by linarith
  have "of_nat (nat ?f) / 10 - x = (of_int ?f - 10 * x) / 10"
    unfolding n by (simp add: diff_divide_distrib)
  then have "\<bar>of_nat (nat ?f) / 10 - x\<bar> = \<bar>of_int ?f - 10 * x\<bar> / 10"
    by (simp only: abs_divide abs_numeral)
  with d have "\<bar>of_nat (nat ?f) / 10 - x\<bar> \<le> 1 / 20" by simp
  then show ?thesis by (auto simp: to_fixed1_def Let_def)
qed

lemma to_fixed1_of_floor:
  assumes "of_int m \<le> 10 * x + 1 / 2" and "10 * x + 1 / 2 < of_int m + 1" and "0 \<le> m"
  shows "to_fixed1 x = string_of_nat (nat m div 10) @ ''.'' @ string_of_nat (nat m mod 10)"
proof -
  have "\<lfloor>10 * x + 1 / 2\<rfloor> = m" using assms(1,2) by (simp add: floor_eq_iff)
  then show ?thesis by (simp add: to_fixed1_def Let_def)
qed

subsection \<open>Properties of the model list\<close>

text \<open>C28. For a size of at least one kibibyte, the text shown is a number with one
  decimal followed by the unit KB, MB or GB, and that number is within 0.05 of the size
  in that unit.\<close>

theorem format_file_size_accuracy:
  assumes "1024 \<le> b"
  shows "\<exists>n k. formatFileSize (Some b)
              = string_of_nat (n div 10) @ ''.'' @ string_of_nat (n mod 10)
                @ [CHR '' '', [CHR ''K'', CHR ''M'', CHR ''G''] ! (k - 1), CHR ''B'']
           \<and> 1 \<le> k \<and> k \<le> 3 \<and> \<bar>of_nat n / 10 - of_nat b / 1024 ^ k\<bar> \<le> (1 / 20 :: rat)"
proof -
  have acc: "\<And>k. \<exists>n. to_fixed1 (of_nat b / 1024 ^ k) = string_of_nat (n div 10) @ ''.'' @ string_of_nat (n mod 10)
           \<and> \<bar>of_nat n / 10 - of_nat b / 1024 ^ k\<bar> \<le> (1 / 20 :: rat)"
    by (rule to_fixed1_accuracy) simp
  consider "b < 1024 * 1024" | "\<not> b < 1024 * 1024" "b < 1024 * 1024 * 1024"
    | "\<not> b < 1024 * 1024 * 1024" by linarith
  then show ?thesis
  proof cases
    case 1
    obtain n where n: "to_fixed1 (of_nat b / 1024 ^ 1) = string_of_nat (n div 10) @ ''.'' @ string_of_nat (n mod 10)"
      "\<bar>of_nat n / 10 - of_nat b / 1024 ^ 1\<bar> \<le> (1 / 20 :: rat)" using acc [of 1] by blast
    have "formatFileSize (Some b) = string_of_nat (n div 10) @ ''.'' @ string_of_nat (n mod 10) @ '' KB''"
      using 1 assms n(1) by (simp add: formatFileSize_def)
    with n(2) show ?thesis by (intro exI [of _ n] exI [of _ 1]) simp
  next
    case 2
    obtain n where n: "to_fixed1 (of_nat b / 1024 ^ 2) = string_of_nat (n div 10) @ ''.'' @ string_of_nat (n mod 10)"
      "\<bar>of_nat n / 10 - of_nat b / 1024 ^ 2\<bar> \<le> (1 / 20 :: rat)" using acc [of 2] by blast
    have "formatFileSize (Some b) = string_of_nat (n div 10) @ ''.'' @ string_of_nat (n mod 10) @ '' MB''"
      using 2 assms n(1) by (simp add: formatFileSize_def power2_eq_square)
    with n(2) show ?thesis by (intro exI [of _ n] exI [of _ 2]) simp
  next
    case 3
    obtain n where n: "to_fixed1 (of_nat b / 1024 ^ 3) = string_of_nat (n div 10) @ ''.'' @ string_of_nat (n mod 10)"
      "\<bar>of_nat n / 10 - of_nat b / 1024 ^ 3\<bar> \<le> (1 / 20 :: rat)" using acc [of 3] by blast
    have "formatFileSize (Some b) = string_of_nat (n div 10) @ ''.'' @ string_of_nat (n mod 10) @ '' GB''"
      using 3 assms n(1) by (simp add: formatFileSize_def power3_eq_cube)
    with n(2) show ?thesis by (intro exI [of _ n] exI [of _ 3]) simp
  qed
qed

text \<open>C29. Sizes just below one mebibyte (from 1048525 bytes on) are shown as
  \<open>1024.0 KB\<close>: the unit is chosen before rounding, so the rounded number reaches
  the next unit's base.\<close>

theorem format_file_size_kb_boundary:
  assumes "1048525 \<le> b" and "b < 1048576"
  shows "formatFileSize (Some b) = ''1024.0 KB''"
proof -
  have lo: "(1048525 :: rat) \<le> of_nat b" and hi: "of_nat b < (1048576 :: rat)"
    using assms by simp_all
  have "to_fixed1 (of_nat b / 1024) = string_of_nat (nat 10240 div 10) @ ''.'' @ string_of_nat (nat 10240 mod 10)"
    by (rule to_fixed1_of_floor) (use lo hi in \<open>simp_all add: field_simps\<close>)
  then show ?thesis
    using assms by (simp add: formatFileSize_def string_of_nat_large)
qed

text \<open>The model list shows \<open>Unknown size\<close> for a file exactly when it has no record
  or its record has no size.\<close>

theorem getModelSize_unknown:
  "getModelSize models file = ''Unknown size''
     \<longleftrightarrow> (case find (\<lambda>m. filename m = file) models of None \<Rightarrow> True | Some m \<Rightarrow> size m = None)"
proof -
  have "formatFileSize (Some b) \<noteq> ''Unknown size''" for b
    using formatFileSize_last [of b] by auto
  then show ?thesis
    by (auto simp: getModelSize_def formatFileSize_def split: option.split)
qed

theorem format_file_size_accuracy_witness:
  "\<exists>n k. formatFileSize (Some 1536)
              = string_of_nat (n div 10) @ ''.'' @ string_of_nat (n mod 10)
                @ [CHR '' '', [CHR ''K'', CHR ''M'', CHR ''G''] ! (k - 1), CHR ''B'']
           \<and> 1 \<le> k \<and> k \<le> 3 \<and> \<bar>of_nat n / 10 - of_nat 1536 / 1024 ^ k\<bar> \<le> (1 / 20 :: rat)"
  using format_file_size_accuracy [of 1536] by simp

theorem format_file_size_kb_boundary_witness:
  "formatFileSize (Some 1048575) = ''1024.0 KB''"
  using format_file_size_kb_boundary [of 1048575] by simp

end
