(* ===== verification/AppModel.thy ===== *)
theory AppModel
  imports Download Display
begin

text \<open>
  The application as one step function over \<open>app_state\<close>: the controls of the
  model-selection page (lines 731-931) and the session events of the conversation
  page. A control of the model-selection page runs its handler to the end in one step
  (the page hides its controls while \<open>isDownloading\<close>, and the load overlay takes
  every touch while \<open>isModelLoading\<close>); the interleavings of a load with the token
  events are the business of \<open>Session\<close>. \<open>app_reachable a0\<close> collects the states of
  all runs from \<open>a0\<close>.
\<close>

subsection \<open>The model-selection page\<close>

text \<open>The \<open>All Local Models\<close> button (lines 739-742).\<close>

definition all_local_models :: "app_state \<Rightarrow> app_state" where
  "all_local_models a = a\<lparr>selectedModelFormat := [], availableGGUFs := []\<rparr>"

text \<open>The \<open>Downloaded Models\<close> section shown while no format is selected (lines 877-889):
  per label of \<open>modelFormats\<close>, the records of that format whose file is listed as
  downloaded, in list order; a label without one is not rendered.\<close>

definition downloaded_sections :: "model_metadata list \<Rightarrow> string list \<Rightarrow> (string \<times> string list) list" where
  "downloaded_sections models downloaded =
     filter (\<lambda>(l, fs). fs \<noteq> [])
       (map (\<lambda>l. (l, map filename (filter (\<lambda>m. format m = l \<and> filename m \<in> set downloaded) models)))
          modelFormats)"

text \<open>Pressing a downloaded model, in the catalogue list (lines 850-853) or in the
  downloaded section (lines 893-897): \<open>loadModel\<close>, the page and the selection.\<close>

definition open_model :: "string \<Rightarrow> string + unit \<Rightarrow> app_state \<Rightarrow> app_state" where
  "open_model file r a =
     (let a1 = fst (app_loadModel file r (modelMetadata (meta a)) a)
      in a1\<lparr>sess := (sess a1)\<lparr>currentPage := Conversation, selectedGGUF := Some file\<rparr>\<rparr>)"

datatype app_event =
    AllLocalModels
  | SelectFormat catalogue string
  | PressCatalogueFile string bool download_env "string + unit"
  | PressDownloadedFile string "string + unit"
  | DeleteFile string "string option" bool "string option"
  | SessionEvent event

text \<open>Which controls exist (lines 731-931): the page is the model-selection page and no
  download runs; no load overlay; the catalogue list while a format is selected, the
  downloaded section while none is; a press on a catalogue file that is listed as
  downloaded loads it, any other starts the confirmation of \<open>handleGGUFSelection\<close>; the
  delete buttons sit beside the downloaded files. The loads of the session are started
  by these controls, so the session's own load events are not app events; the other
  session events are gated by \<open>session_step\<close>.\<close>

definition selection_page :: "app_state \<Rightarrow> bool" where
  "selection_page a \<longleftrightarrow>
     currentPage (sess a) = ModelSelection \<and> \<not> isDownloading a \<and> \<not> isModelLoading (sess a)"

definition shown_downloaded :: "app_state \<Rightarrow> string \<Rightarrow> bool" where
  "shown_downloaded a f \<longleftrightarrow>
     (if selectedModelFormat a = []
      then f \<in> set (concat (map snd (downloaded_sections (modelMetadata (meta a)) (downloadedModels (meta a)))))
      else f \<in> set (availableGGUFs a) \<and> f \<in> set (downloadedModels (meta a)))"

fun app_step :: "app_state \<Rightarrow> app_event \<Rightarrow> app_state option" where
  "app_step a AllLocalModels =
     (if selection_page a then Some (all_local_models a) else None)"
| "app_step a (SelectFormat hub fmt) =
     (if selection_page a \<and> fmt \<in> set modelFormats then Some (handleFormatSelection hub fmt a) else None)"
| "app_step a (PressCatalogueFile f yes env r) =
     (if selection_page a \<and> selectedModelFormat a \<noteq> [] \<and> f \<in> set (availableGGUFs a)
      then Some (if f \<in> set (downloadedModels (meta a)) then open_model f r a
                 else handleGGUFSelection yes env f a)
      else None)"
| "app_step a (PressDownloadedFile f r) =
     (if selection_page a \<and> selectedModelFormat a = [] \<and> shown_downloaded a f
      then Some (open_model f r a) else None)"
| "app_step a (DeleteFile f xerr confirmed err) =
     (if selection_page a \<and> shown_downloaded a f then Some (deleteModel xerr confirmed err f a) else None)"
| "app_step a (SessionEvent e) =
     (case e of
        SelectModel _ \<Rightarrow> None
      | ModelLoaded \<Rightarrow> None
      | ModelLoadFailed _ \<Rightarrow> None
      | _ \<Rightarrow> map_option (\<lambda>s. a\<lparr>sess := s\<rparr>) (session_step (sess a) e))"

inductive app_reachable :: "app_state \<Rightarrow> app_state \<Rightarrow> bool" for a0 where
  start: "app_reachable a0 a0"
| step: "app_reachable a0 a \<Longrightarrow> app_step a e = Some a' \<Longrightarrow> app_reachable a0 a'"

subsection \<open>The application invariant\<close>

text \<open>The session invariant; no two records and no two listed files with the same name;
  every listed file on disk; no download running between two events.\<close>

definition app_inv :: "app_state \<Rightarrow> bool" where
  "app_inv a \<longleftrightarrow>
     session_inv (sess a)
     \<and> distinct (map filename (modelMetadata (meta a)))
     \<and> distinct (downloadedModels (meta a))
     \<and> list_all (\<lambda>f. disk a f \<noteq> None) (downloadedModels (meta a))
     \<and> \<not> isDownloading a"

text \<open>The part of \<open>app_inv\<close> about the stores.\<close>

definition store_inv :: "app_state \<Rightarrow> bool" where
  "store_inv a \<longleftrightarrow>
     distinct (map filename (modelMetadata (meta a)))
     \<and> distinct (downloadedModels (meta a))
     \<and> list_all (\<lambda>f. disk a f \<noteq> None) (downloadedModels (meta a))"

lemma app_inv_split: "app_inv a \<longleftrightarrow> session_inv (sess a) \<and> store_inv a \<and> \<not> isDownloading a"
  by (auto simp: app_inv_def store_inv_def)

subsection \<open>Lemmas: the session through the handlers\<close>

text \<open>A load started on the model-selection page breaks the session invariant until the
  page switches; \<open>inv_after_switch\<close> is the invariant of the state the switch leads to.\<close>

definition inv_after_switch :: "session_state \<Rightarrow> bool" where
  "inv_after_switch s \<longleftrightarrow> session_inv (s\<lparr>currentPage := Conversation\<rparr>)"

lemma session_inv_selectedGGUF [simp]: "session_inv (s\<lparr>selectedGGUF := x\<rparr>) = session_inv s"
  by (simp add: session_inv_def)

lemma inv_after_switch_selectedGGUF [simp]:
  "inv_after_switch (s\<lparr>selectedGGUF := x\<rparr>) = inv_after_switch s"
  by (simp add: inv_after_switch_def session_inv_def)

lemma session_inv_switch: "session_inv s \<Longrightarrow> inv_after_switch s"
  by (simp add: inv_after_switch_def session_inv_def)

lemma inv_after_switch_load:
  "inv_after_switch s \<Longrightarrow> inv_after_switch (loadModel_done r (loadModel_start s))"
  by (cases r) (auto simp: inv_after_switch_def session_inv_def loadModel_start_def loadModel_done_def Let_def)

lemma inv_after_switch_app_loadModel:
  "inv_after_switch (sess a) \<Longrightarrow> inv_after_switch (sess (fst (app_loadModel n r snap a)))"
  by (simp add: inv_after_switch_load)

lemma inv_after_switch_transfer:
  "inv_after_switch (sess a) \<Longrightarrow> inv_after_switch (sess (download_transfer env file snap a))"
  by (simp add: download_transfer_def Let_def inv_after_switch_load split: option.split sum.split)

lemma inv_after_switch_download:
  "inv_after_switch (sess a) \<Longrightarrow> inv_after_switch (sess (handleDownloadModel env file a))"
  by (simp add: handleDownloadModel_def Let_def case_prod_beta inv_after_switch_transfer
      inv_after_switch_load split: sum.split)

subsection \<open>Lemmas: the stores through the handlers\<close>

lemma store_inv_app_loadModel: "store_inv a \<Longrightarrow> store_inv (fst (app_loadModel n r snap a))"
  by (simp add: store_inv_def app_loadModel_metadata split: sum.split)

lemma store_inv_transfer:
  assumes "store_inv a"
  shows "store_inv (download_transfer env file snap a)"
proof -
  have grow: "list_all (\<lambda>f. disk a f \<noteq> None) ds \<Longrightarrow>
      list_all (\<lambda>f. ((disk a)(file \<mapsto> x)) f \<noteq> None) ds" for ds x
    by (simp add: list_all_iff)
  show ?thesis
    using assms grow
    by (simp add: download_transfer_def Let_def store_inv_def app_loadModel_metadata
        map_filename_upsert split: option.split sum.split)
qed

lemma store_inv_flags [simp]:
  "store_inv (a\<lparr>isDownloading := d, progress := p\<rparr>) = store_inv a"
  "store_inv (a\<lparr>alerts := al, isDownloading := d\<rparr>) = store_inv a"
  "store_inv (a\<lparr>sess := s\<rparr>) = store_inv a"
  by (simp_all add: store_inv_def)

lemma store_inv_download:
  assumes "store_inv a"
  shows "store_inv (handleDownloadModel env file a)"
proof -
  let ?a = "a\<lparr>isDownloading := True, progress := 0\<rparr>"
  have a: "store_inv ?a" using assms by simp
  let ?a1 = "case stat_existing env of
               Inr sz \<Rightarrow> ?a\<lparr>meta := set_metadata (backfill_size file sz (modelMetadata (meta ?a))) (meta ?a)\<rparr>
             | Inl _ \<Rightarrow> ?a"
  have a1: "store_inv ?a1" using assms by (simp add: store_inv_def split: sum.split)
  then have a2: "store_inv (fst (app_loadModel file (init_existing env) (modelMetadata (meta a)) ?a1))"
    by (rule store_inv_app_loadModel)
  show ?thesis
    using a a2 store_inv_transfer [OF a] store_inv_transfer [OF a2]
    by (simp add: handleDownloadModel_def Let_def case_prod_beta)
qed

lemma download_not_downloading:
  "\<not> isDownloading (handleDownloadModel env file a)"
  by (simp add: handleDownloadModel_def download_transfer_def Let_def case_prod_beta
      split: option.split sum.split)

lemma store_inv_delete: "store_inv a \<Longrightarrow> store_inv (deleteModel x c e f a)"
  by (auto simp: store_inv_def deleteModel_def remove_metadata_def distinct_map_filter list_all_iff
      split: option.split)

lemma deleteModel_fields [simp]:
  "isDownloading (deleteModel x c e f a) = isDownloading a"
  "sess (deleteModel x c e f a) = sess a"
  by (simp_all add: deleteModel_def split: option.split)

lemma open_model_inv: "app_inv a \<Longrightarrow> app_inv (open_model f r a)"
proof -
  assume "app_inv a"
  then have s: "inv_after_switch (sess a)" and st: "store_inv a" and d: "\<not> isDownloading a"
    by (simp_all add: app_inv_split session_inv_switch)
  have "inv_after_switch (sess (fst (app_loadModel f r (modelMetadata (meta a)) a)))"
    using s by (rule inv_after_switch_app_loadModel)
  moreover have "store_inv (fst (app_loadModel f r (modelMetadata (meta a)) a))"
    using st by (rule store_inv_app_loadModel)
  ultimately show ?thesis
    using d by (simp add: app_inv_split open_model_def inv_after_switch_def)
qed

lemma gguf_selection_inv: "app_inv a \<Longrightarrow> app_inv (handleGGUFSelection yes env f a)"
proof -
  assume inv: "app_inv a"
  let ?a1 = "a\<lparr>sess := (sess a)\<lparr>selectedGGUF := Some f\<rparr>\<rparr>"
  have s: "inv_after_switch (sess ?a1)" and st: "store_inv ?a1"
    using inv by (simp_all add: app_inv_split session_inv_switch)
  have "inv_after_switch (sess (handleDownloadModel env f ?a1))"
    using s by (rule inv_after_switch_download)
  moreover have "store_inv (handleDownloadModel env f ?a1)"
    using st by (rule store_inv_download)
  ultimately show ?thesis
    using inv by (auto simp: app_inv_split handleGGUFSelection_def Let_def inv_after_switch_def
        download_not_downloading)
qed

lemma app_step_inv:
  assumes inv: "app_inv a" and st: "app_step a e = Some a'"
  shows "app_inv a'"
proof (cases e)
  case AllLocalModels
  with inv st show ?thesis
    by (auto simp: app_inv_def all_local_models_def split: if_splits)
next
  case (SelectFormat hub fmt)
  with inv st show ?thesis
    by (auto simp: app_inv_def handleFormatSelection_def Let_def split: if_splits sum.splits)
next
  case (PressCatalogueFile f yes env r)
  with inv st show ?thesis
    by (auto split: if_splits intro: open_model_inv gguf_selection_inv)
next
  case (PressDownloadedFile f r)
  with inv st show ?thesis
    by (auto split: if_splits intro: open_model_inv)
next
  case (DeleteFile f x c err)
  with inv st show ?thesis
    by (auto simp: app_inv_split store_inv_delete split: if_splits)
next
  case (SessionEvent ev)
  then obtain s' where "session_step (sess a) ev = Some s'" and "a' = a\<lparr>sess := s'\<rparr>"
    using st by (cases ev) auto
  with inv show ?thesis
    by (auto simp: app_inv_split intro: session_step_inv)
qed

fun app_run :: "app_state \<Rightarrow> app_event list \<Rightarrow> app_state option" where
  "app_run a [] = Some a"
| "app_run a (e # es) = (case app_step a e of None \<Rightarrow> None | Some a' \<Rightarrow> app_run a' es)"

lemma app_reachable_run:
  "app_reachable a0 a \<Longrightarrow> app_run a es = Some a' \<Longrightarrow> app_reachable a0 a'"
proof (induction es arbitrary: a)
  case Nil
  then show ?case by simp
next
  case (Cons e es)
  then obtain a1 where "app_step a e = Some a1" and "app_run a1 es = Some a'"
    by (auto split: option.splits)
  with Cons show ?case by (blast intro: app_reachable.step)
qed

lemma find_distinct_unique:
  assumes "distinct (map filename ms)" and "find (\<lambda>m. filename m = f) ms = Some r"
    and "m \<in> set ms" and "filename m = f"
  shows "m = r"
proof -
  from assms(2) have "r \<in> set ms" and "filename r = f"
    by (auto simp: find_Some_iff)
  with assms(1,3,4) show ?thesis
    by (metis distinct_map inj_on_eq_iff)
qed

lemma downloaded_sections_member:
  "f \<in> set (concat (map snd (downloaded_sections ms ds))) \<Longrightarrow>
     \<exists>m \<in> set ms. filename m = f \<and> format m \<in> set modelFormats \<and> f \<in> set ds"
  by (auto simp: downloaded_sections_def)

subsection \<open>Properties of the application\<close>

text \<open>C31. From a state satisfying the application invariant, every run keeps it: at most
  one live context, the loaded one; the log's shape; no duplicate record or listed file;
  every listed file on disk; no download running between two events.\<close>

theorem app_reachable_inv:
  assumes "app_inv a0" and "app_reachable a0 a"
  shows "app_inv a"
  using assms(2,1) by induction (auto intro: app_step_inv)

text \<open>C32. While no format is selected, a downloaded file whose record has a format
  outside the catalogue's labels (such as \<open>Unknown\<close>, the format reconciliation gives
  an unrecognised name) is in no group of the downloaded section: it can be neither
  opened nor deleted there, although the \<open>All Local Models\<close> badge counts it.\<close>

theorem unknown_format_not_offered:
  assumes "app_inv a" and "selectedModelFormat a = []"
    and "find (\<lambda>m. filename m = f) (modelMetadata (meta a)) = Some r"
    and "format r \<notin> set modelFormats"
  shows "app_step a (PressDownloadedFile f res) = None \<and> app_step a (DeleteFile f x c err) = None"
proof -
  have "\<not> shown_downloaded a f"
  proof
    assume "shown_downloaded a f"
    then have "f \<in> set (concat (map snd (downloaded_sections (modelMetadata (meta a)) (downloadedModels (meta a)))))"
      using assms(2) by (simp add: shown_downloaded_def)
    then obtain m where "m \<in> set (modelMetadata (meta a))" "filename m = f" "format m \<in> set modelFormats"
      using downloaded_sections_member by blast
    moreover have "distinct (map filename (modelMetadata (meta a)))"
      using assms(1) by (simp add: app_inv_def)
    ultimately show False
      using assms(3,4) find_distinct_unique by metis
  qed
  then show ?thesis by simp
qed

subsection \<open>Witnesses\<close>

lemma ex_app_inv: "app_inv ex_app"
  by (simp add: app_inv_def session_inv_init)

abbreviation ex_unknown :: app_state where
  "ex_unknown \<equiv> ex_app\<lparr>meta := \<lparr>modelMetadata = [\<lparr>filename = ''x.gguf'', format = ''Unknown'',
                    downloadDate = ''2026-01-01'', size = Some 10\<rparr>],
                  downloadedModels = [''x.gguf''], stored = None\<rparr>,
                disk := [''x.gguf'' \<mapsto> 10], selectedModelFormat := []\<rparr>"

theorem unknown_format_not_offered_witness:
  "app_step ex_unknown (PressDownloadedFile ''x.gguf'' (Inr ())) = None
   \<and> app_step ex_unknown (DeleteFile ''x.gguf'' None True None) = None"
proof -
  have "app_inv ex_unknown" by (simp add: app_inv_def session_inv_init)
  then show ?thesis
    using unknown_format_not_offered [of ex_unknown "''x.gguf''"] by (simp add: modelFormats_def)
qed

abbreviation ex_events :: "app_event list" where
  "ex_events \<equiv> [SelectFormat (\<lambda>_. Inr [''m.gguf'', ''README.md'']) ''Qwen2-0.5B-Instruct'',
                 PressCatalogueFile ''m.gguf'' True ex_env (Inr ()),
                 SessionEvent (TypeInput ''hi''), SessionEvent SendMessage]"

lemmas ex_run_simps = selection_page_def session_init_def modelFormats_def handleFormatSelection_def
  ends_with_rev handleGGUFSelection_def handleDownloadModel_def download_transfer_def Let_def
  loadModel_start_def loadModel_done_def handleSendMessage_def trim_def is_ws_def

theorem app_reachable_inv_witness:
  "app_inv (the (app_run ex_app ex_events))
   \<and> llamaContext (sess (the (app_run ex_app ex_events))) = Some 0"
proof -
  have "app_run ex_app ex_events \<noteq> None" by (simp add: ex_run_simps)
  then obtain a' where r: "app_run ex_app ex_events = Some a'" by blast
  then have "app_reachable ex_app a'" by (rule app_reachable_run [OF app_reachable.start])
  then have "app_reachable ex_app (the (app_run ex_app ex_events))" by (simp only: r option.sel)
  then have "app_inv (the (app_run ex_app ex_events))"
    using app_reachable_inv [OF ex_app_inv] by blast
  moreover have "llamaContext (sess (the (app_run ex_app ex_events))) = Some 0"
    by (simp add: ex_run_simps)
  ultimately show ?thesis by blast
qed

end
