(* ===== verification/View.thy ===== *)
theory View
  imports AppModel
begin

text \<open>
  The tree \<open>App\<close> returns (lines 699-1049), as a list of widgets in the order they are
  drawn: texts, the Markdown body of a turn, the spinner, the progress bar, the input
  field, and the buttons with the control they trigger and whether they are enabled.
  Styles are the business of \<open>Styles\<close>; the glyphs of the source (stored mis-encoded in \<open>App.tsx\<close>)
  are named, not spelled. \<open>touchable\<close> is what a touch can reach: nothing while the
  full-screen load overlay is up.
\<close>

subsection \<open>JavaScript helpers\<close>

text \<open>\<open>s.split(d)\<close> with a one-character separator: the pieces between the separators,
  at least one.\<close>

fun js_split :: "char \<Rightarrow> string \<Rightarrow> string list" where
  "js_split d [] = [[]]"
| "js_split d (c # cs) =
     (if c = d then [] # js_split d cs
      else (case js_split d cs of w # ws \<Rightarrow> (c # w) # ws | [] \<Rightarrow> [[c]]))"

text \<open>\<open>xs[i]\<close> on an array: the property named by the number, \<open>undefined\<close> (\<open>None\<close>)
  for a negative or too large index; arrays have no negative indices.\<close>

definition js_get :: "'a list \<Rightarrow> int \<Rightarrow> 'a option" where
  "js_get xs i = (if 0 \<le> i \<and> nat i < length xs then Some (xs ! nat i) else None)"

text \<open>\<open>String(x)\<close> of a throughput sample. Samples are \<open>parseFloat(x.toFixed(2))\<close>, whole
  hundredths, and for those the shortest decimal that reads back is the integer part
  followed, when the hundredths are not zero, by a point and one or two digits without
  a trailing zero.\<close>

definition number_text :: "rat \<Rightarrow> string" where
  "number_text x =
     (let n = nat \<lfloor>\<bar>x\<bar> * 100\<rfloor>; f = n mod 100; d = ''0123456789''
      in (if x < 0 then ''-'' else []) @ string_of_nat (n div 100)
         @ (if f = 0 then []
            else if f mod 10 = 0 then [CHR ''.'', d ! (f div 10)]
            else [CHR ''.'', d ! (f div 10), d ! (f mod 10)]))"

subsection \<open>Widgets\<close>

datatype glyph =
    Filled_Triangle | Hollow_Triangle | Right_Arrow | Times_Sign | Hide_Marker | Show_Marker
  | Stop_Square | Back_Arrow | Llama_Emoji | Party_Emoji

datatype control =
    AllLocalModelsButton
  | FormatButton string
  | FileButton string
  | DownloadedButton string
  | DeleteButton string
  | MessageInput
  | SendButton
  | StopButton
  | ThoughtToggle nat
  | BackButton

datatype widget =
    WText string
  | WGlyph glyph
  | WMarkdown string
  | WSpinner
  | WProgress rat
  | WInput string
  | WOverlay "widget list"
  | WButton control bool "widget list"

subsection \<open>The tree\<close>

text \<open>The load overlay and the load error (lines 703-718); an empty message is falsy and
  shows nothing.\<close>

definition render_overlay :: "session_state \<Rightarrow> widget list" where
  "render_overlay s =
     (if isModelLoading s
      then [WOverlay [WSpinner, WText ''Loading Model...'', WText ''This may take a moment'']]
      else [])
     @ (case modelLoadError s of
          Some e \<Rightarrow> if e = [] then [] else [WText (''Error: '' @ e)]
        | None \<Rightarrow> [])"

text \<open>The badge of a format button: the records of that format (lines 754-757).\<close>

definition format_badge :: "model_metadata list \<Rightarrow> string \<Rightarrow> nat" where
  "format_badge models l = length (filter (\<lambda>m. format m = l) models)"

text \<open>\<open>All Local Models\<close> with the number of downloaded files, and the format buttons
  with their badges when positive (lines 733-778).\<close>

definition render_filters :: "app_state \<Rightarrow> widget list" where
  "render_filters a =
     [WButton AllLocalModelsButton True
        [WText ''All Local Models'', WText (string_of_nat (length (downloadedModels (meta a))))],
      WText ''Model Filters'']
     @ map (\<lambda>l. WButton (FormatButton l) True
                  (WText l # (if 0 < format_badge (modelMetadata (meta a)) l
                              then [WText (string_of_nat (format_badge (modelMetadata (meta a)) l))]
                              else [])))
         modelFormats"

text \<open>The label of a catalogue file (lines 823-825): the test \<open>file.split("-")[-1]\<close>
  reads the array's property \<open>"-1"\<close>.\<close>

definition gguf_label :: "string \<Rightarrow> string" where
  "gguf_label file =
     hd (js_split CHR ''.''
           (if js_get (js_split CHR ''-'' file) (-1) = Some ''imat'' then file
            else last (js_split CHR ''-'' file)))"

text \<open>The label of a file in the downloaded section (line 903).\<close>

definition downloaded_label :: "string \<Rightarrow> string" where
  "downloaded_label file = hd (js_split CHR ''.'' (last (js_split CHR ''-'' file)))"

text \<open>One file of the catalogue list (lines 787-861).\<close>

definition render_catalogue_file :: "app_state \<Rightarrow> string \<Rightarrow> widget list" where
  "render_catalogue_file a file =
     (let isDownloaded = file \<in> set (downloadedModels (meta a))
      in [WButton (FileButton file) True
            ([WGlyph (if isDownloaded then Filled_Triangle else Hollow_Triangle), WText (gguf_label file)]
             @ (if isDownloaded then [WText (getModelSize (modelMetadata (meta a)) file)]
                else [WText ''DOWNLOAD '', WGlyph Right_Arrow]))]
         @ (if isDownloaded then [WButton (DeleteButton file) True [WText ''DELETE '', WGlyph Times_Sign]]
            else []))"

text \<open>The catalogue list of the selected format (lines 780-870). Its spinner shows while
  \<open>isFetching\<close>, which only the uncalled \<open>fetchAvailableGGUFs\<close> raises, so never.\<close>

definition render_catalogue :: "app_state \<Rightarrow> widget list" where
  "render_catalogue a =
     (if selectedModelFormat a = [] then []
      else WText ''Select a .gguf file''
           # (if availableGGUFs a \<noteq> []
              then concat (map (render_catalogue_file a) (availableGGUFs a))
              else [WText (if selectedModelFormat a \<noteq> []
                           then ''No models available for '' @ selectedModelFormat a
                                @ ''. Please check your network connection or download a model.''
                           else ''No models available. Please check your network connection.'')]))"

text \<open>One file of the downloaded section (lines 887-925).\<close>

definition render_downloaded_file :: "model_metadata list \<Rightarrow> string \<Rightarrow> widget list" where
  "render_downloaded_file models f =
     [WButton (DownloadedButton f) True
        [WGlyph Filled_Triangle, WText (downloaded_label f), WText (getModelSize models f)],
      WButton (DeleteButton f) True [WText ''DELETE '', WGlyph Times_Sign]]"

text \<open>The downloaded section, grouped by format (lines 873-930).\<close>

definition render_downloaded :: "app_state \<Rightarrow> widget list" where
  "render_downloaded a =
     (if selectedModelFormat a = [] \<and> downloadedModels (meta a) \<noteq> []
      then WText ''Downloaded Models''
           # concat (map (\<lambda>(l, fs). WText l # concat (map (render_downloaded_file (modelMetadata (meta a))) fs))
                       (downloaded_sections (modelMetadata (meta a)) (downloadedModels (meta a))))
      else [])"

text \<open>A turn of \<open>conversation.slice(1)\<close> at \<open>index\<close> (lines 942-992): the thought toggle
  and the reasoning when the thought is a non-empty string, the Markdown body, and the
  throughput label under an assistant turn (\<open>undefined\<close> renders as nothing; the label's
  \<open>onPress\<close> only logs, so it is no control of the model).\<close>

definition tps_text :: "rat option \<Rightarrow> string" where
  "tps_text x = (case x of Some v \<Rightarrow> number_text v | None \<Rightarrow> [])"

definition render_message :: "session_state \<Rightarrow> nat \<times> message \<Rightarrow> widget list" where
  "render_message s im =
     (case im of (index, msg) \<Rightarrow>
       (case thought msg of
          Some t \<Rightarrow>
            if t = [] then []
            else WButton (ThoughtToggle (index + 1)) True
                   (if showThought msg then [WGlyph Hide_Marker, WText '' Hide Thought'']
                    else [WGlyph Show_Marker, WText '' Show Thought''])
                 # (if showThought msg then [WText ''Model's Reasoning:'', WText t] else [])
        | None \<Rightarrow> [])
       @ [WMarkdown (content msg)]
       @ (if role msg = Assistant then [WText (tps_text (tps_label s index) @ '' tokens/s'')] else []))"

text \<open>The conversation page (lines 933-995): the header names the selected file, its
  format and its size.\<close>

definition chat_header :: "model_metadata list \<Rightarrow> string option \<Rightarrow> string" where
  "chat_header models sel =
     (let f = (case sel of Some f \<Rightarrow> f | None \<Rightarrow> [])
      in ''Chatting with '' @ f @ '' ('' @ getModelFormatInfo models f @ '') - '' @ getModelSize models f)"

definition render_chat :: "app_state \<Rightarrow> widget list" where
  "render_chat a =
     (if currentPage (sess a) = Conversation \<and> \<not> isDownloading a
      then [WText (chat_header (modelMetadata (meta a)) (selectedGGUF (sess a))),
            WGlyph Llama_Emoji, WText '' Welcome! The Llama is ready to chat. Ask away! '', WGlyph Party_Emoji]
           @ concat (map (render_message (sess a)) (enumerate 0 (tl (conversation (sess a)))))
      else [])"

text \<open>The download card (lines 996-1002).\<close>

definition render_progress :: "app_state \<Rightarrow> widget list" where
  "render_progress a =
     (if isDownloading a
      then [WText ''Downloading : '', WText (case selectedGGUF (sess a) of Some f \<Rightarrow> f | None \<Rightarrow> []),
            WProgress (progress a)]
      else [])"

text \<open>The input row and the back button of the conversation page (lines 1004-1046): Stop
  while generating, else Send, disabled while \<open>isLoading\<close>.\<close>

definition render_bottom :: "session_state \<Rightarrow> widget list" where
  "render_bottom s =
     (if currentPage s = Conversation
      then [WInput (userInput s),
            if isGenerating s then WButton StopButton True [WGlyph Stop_Square, WText '' Stop'']
            else WButton SendButton (\<not> isLoading s) [WText (if isLoading s then ''Sending...'' else ''Send'')],
            WButton BackButton True [WGlyph Back_Arrow, WText '' Back to Model Selection'']]
      else [])"

definition render :: "app_state \<Rightarrow> widget list" where
  "render a =
     render_overlay (sess a) @ [WText ''My Android LLMs'']
     @ (if currentPage (sess a) = ModelSelection \<and> \<not> isDownloading a
        then render_filters a @ render_catalogue a @ render_downloaded a else [])
     @ render_chat a @ render_progress a @ render_bottom (sess a)"

subsection \<open>Touches\<close>

fun control_of :: "widget \<Rightarrow> control list" where
  "control_of (WButton c enabled _) = (if enabled then [c] else [])"
| "control_of (WInput _) = [MessageInput]"
| "control_of _ = []"

fun is_overlay :: "widget \<Rightarrow> bool" where
  "is_overlay (WOverlay _) = True"
| "is_overlay _ = False"

definition controls :: "widget list \<Rightarrow> control list" where
  "controls ws = concat (map control_of ws)"

definition touchable :: "widget list \<Rightarrow> control list" where
  "touchable ws = (if list_ex is_overlay ws then [] else controls ws)"

subsection \<open>Lemmas: the controls of the tree\<close>

lemma controls_simps [simp]:
  "controls [] = []"
  "controls (w # ws) = control_of w @ controls ws"
  "controls (ws @ vs) = controls ws @ controls vs"
  "controls (map f xs) = concat (map (\<lambda>x. control_of (f x)) xs)"
  by (simp_all add: controls_def comp_def)

lemma controls_concat [simp]: "controls (concat wss) = concat (map controls wss)"
  by (induction wss) (simp_all add: controls_def)

lemma downloaded_sections_Nil [simp]: "downloaded_sections ms [] = []"
  by (simp add: downloaded_sections_def)

lemma no_overlay_render_parts:
  "\<not> list_ex is_overlay (render_filters a)"
  "\<not> list_ex is_overlay (render_catalogue a)"
  "\<not> list_ex is_overlay (render_downloaded a)"
  "\<not> list_ex is_overlay (render_chat a)"
  "\<not> list_ex is_overlay (render_progress a)"
  "\<not> list_ex is_overlay (render_bottom s)"
  "list_ex is_overlay (render_overlay s) = isModelLoading s"
  by (auto simp: render_filters_def render_catalogue_def render_catalogue_file_def Let_def
      render_downloaded_def render_downloaded_file_def render_chat_def render_message_def
      render_progress_def render_bottom_def render_overlay_def list_ex_iff
      split: option.splits if_splits)

lemma controls_render_parts:
  "controls (render_overlay s) = []"
  "controls (render_filters a) = AllLocalModelsButton # map FormatButton modelFormats"
  "controls (render_catalogue_file a f) =
     FileButton f # (if f \<in> set (downloadedModels (meta a)) then [DeleteButton f] else [])"
  "controls (render_downloaded_file ms f) = [DownloadedButton f, DeleteButton f]"
  "controls (render_progress a) = []"
  "controls (render_message s im) =
     (if thought (snd im) \<noteq> None \<and> thought (snd im) \<noteq> Some [] then [ThoughtToggle (fst im + 1)] else [])"
  by (auto simp: render_filters_def render_catalogue_file_def Let_def render_downloaded_file_def
      render_progress_def render_overlay_def render_message_def comp_def
      split: option.splits prod.splits)

lemma in_controls_catalogue:
  "c \<in> set (controls (render_catalogue a)) \<longleftrightarrow>
     selectedModelFormat a \<noteq> []
     \<and> (\<exists>f \<in> set (availableGGUFs a). c = FileButton f \<or> (c = DeleteButton f \<and> f \<in> set (downloadedModels (meta a))))"
  by (auto simp: render_catalogue_def controls_render_parts)

lemma sections_files_downloaded:
  "f \<in> set (concat (map snd (downloaded_sections ms ds))) \<Longrightarrow> f \<in> set ds"
  by (auto simp: downloaded_sections_def)

lemma in_controls_downloaded:
  "c \<in> set (controls (render_downloaded a)) \<longleftrightarrow>
     selectedModelFormat a = []
     \<and> (\<exists>f \<in> set (concat (map snd (downloaded_sections (modelMetadata (meta a)) (downloadedModels (meta a))))).
           c = DownloadedButton f \<or> c = DeleteButton f)"
  by (auto simp: render_downloaded_def controls_render_parts split_def dest: sections_files_downloaded)

lemma in_toggles:
  "c \<in> set (concat (map (\<lambda>im. controls (render_message s im)) (enumerate 0 (tl cv)))) \<longleftrightarrow>
     (\<exists>i. c = ThoughtToggle i \<and> 1 \<le> i \<and> i < length cv \<and> thought (cv ! i) \<noteq> None \<and> thought (cv ! i) \<noteq> Some [])"
    (is "?l \<longleftrightarrow> ?r")
proof
  assume ?l
  then obtain p where p: "p \<in> set (enumerate 0 (tl cv))" "thought (snd p) \<noteq> None" "thought (snd p) \<noteq> Some []"
    "c = ThoughtToggle (fst p + 1)"
    by (auto simp: controls_render_parts split: if_splits)
  then have "fst p < length (tl cv)" "tl cv ! fst p = snd p" by (auto simp: in_set_enumerate_eq)
  then have "fst p + 1 < length cv" "cv ! (fst p + 1) = snd p" by (cases cv; simp)+
  with p show ?r by auto
next
  assume ?r
  then obtain i where i: "c = ThoughtToggle i" "1 \<le> i" "i < length cv" "thought (cv ! i) \<noteq> None"
    "thought (cv ! i) \<noteq> Some []" by blast
  then obtain j where j: "i = j + 1" by (metis add.commute le_Suc_ex)
  with i have "j < length (tl cv)" "tl cv ! j = cv ! i" by (cases cv; simp)+
  then have "(j, cv ! i) \<in> set (enumerate 0 (tl cv))" by (auto simp: in_set_enumerate_eq)
  with i j show ?l by (force simp: controls_render_parts)
qed

lemma controls_render_chat:
  "controls (render_chat a) =
     (if currentPage (sess a) = Conversation \<and> \<not> isDownloading a
      then concat (map (\<lambda>im. controls (render_message (sess a) im)) (enumerate 0 (tl (conversation (sess a)))))
      else [])"
  by (simp add: render_chat_def comp_def)

lemma in_controls_chat:
  "c \<in> set (controls (render_chat a)) \<longleftrightarrow> currentPage (sess a) = Conversation \<and> \<not> isDownloading a \<and>
     (\<exists>i. c = ThoughtToggle i \<and> 1 \<le> i \<and> i < length (conversation (sess a))
        \<and> thought (conversation (sess a) ! i) \<noteq> None \<and> thought (conversation (sess a) ! i) \<noteq> Some [])"
proof (cases "currentPage (sess a) = Conversation \<and> \<not> isDownloading a")
  case True
  then have "controls (render_chat a) =
      concat (map (\<lambda>im. controls (render_message (sess a) im)) (enumerate 0 (tl (conversation (sess a)))))"
    by (simp only: controls_render_chat simp_thms if_True)
  with True show ?thesis by (simp only: in_toggles simp_thms)
next
  case False
  then show ?thesis by (auto simp: controls_render_chat)
qed

lemma in_controls_bottom:
  "c \<in> set (controls (render_bottom s)) \<longleftrightarrow> currentPage s = Conversation \<and>
     (c = MessageInput \<or> c = BackButton \<or> (c = StopButton \<and> isGenerating s)
      \<or> (c = SendButton \<and> \<not> isGenerating s \<and> \<not> isLoading s))"
  by (auto simp: render_bottom_def)

lemma in_touchable_render:
  "c \<in> set (touchable (render a)) \<longleftrightarrow> \<not> isModelLoading (sess a) \<and>
     ((currentPage (sess a) = ModelSelection \<and> \<not> isDownloading a \<and>
        (c = AllLocalModelsButton \<or> (\<exists>l \<in> set modelFormats. c = FormatButton l)
         \<or> c \<in> set (controls (render_catalogue a)) \<or> c \<in> set (controls (render_downloaded a))))
      \<or> c \<in> set (controls (render_chat a))
      \<or> c \<in> set (controls (render_bottom (sess a))))"
  by (auto simp: touchable_def render_def no_overlay_render_parts controls_render_parts)

text \<open>A thought toggle drawn beside the turn at position \<open>index\<close> of
  \<open>conversation.slice(1)\<close> carries \<open>index + 1\<close>.\<close>

lemma render_message_toggle_index:
  "ThoughtToggle i \<in> set (controls (render_message s (j, m))) \<Longrightarrow> i = j + 1"
  by (auto simp: controls_def render_message_def split: option.splits if_splits)

subsection \<open>Lemmas: labels\<close>

lemma js_split_not_Nil [simp]: "js_split d s \<noteq> []"
  by (induction s) (auto split: list.split)

lemma js_split_no_sep: "d \<notin> set s \<Longrightarrow> js_split d s = [s]"
  by (induction s) auto

lemma js_split_append_sep: "js_split d (xs @ d # ys) = js_split d xs @ js_split d ys"
proof (induction xs)
  case (Cons c xs)
  obtain w ws where "js_split d xs = w # ws" by (cases "js_split d xs") auto
  with Cons show ?case by simp
qed simp

lemma js_get_negative [simp]: "i < 0 \<Longrightarrow> js_get xs i = None"
  by (simp add: js_get_def)

text \<open>The \<open>imat\<close> test never holds: the catalogue label is the downloaded section's.\<close>

lemma gguf_label_downloaded_label: "gguf_label file = downloaded_label file"
  by (simp add: gguf_label_def downloaded_label_def)

lemma last_js_split_suffix:
  "d \<notin> set ys \<Longrightarrow> last (js_split d (xs @ d # ys)) = ys"
  by (simp add: js_split_append_sep js_split_no_sep)

subsection \<open>Properties of the tree\<close>

text \<open>C15. Pressing the thought toggle drawn beside a turn of the chat shows or hides
  the reasoning of that very turn and of no other: the list is drawn from
  \<open>conversation.slice(1)\<close>, so the toggle's \<open>index + 1\<close> names the turn it stands
  beside in the full conversation that \<open>toggleThought\<close> maps over.\<close>

theorem thought_toggle_flips_own_turn:
  assumes "(j, m) \<in> set (enumerate 0 (tl (conversation s)))"
    and "ThoughtToggle i \<in> set (controls (render_message s (j, m)))"
  shows "tl (toggleThought i (conversation s)) = (tl (conversation s))[j := m\<lparr>showThought := \<not> showThought m\<rparr>]"
proof -
  have i: "i = j + 1" using assms(2) by (rule render_message_toggle_index)
  have j: "j < length (tl (conversation s))" and m: "tl (conversation s) ! j = m"
    using assms(1) by (simp_all add: in_set_enumerate_eq)
  obtain x c where c: "conversation s = x # c" using j by (cases "conversation s") auto
  show ?thesis using i j m by (simp add: c toggleThought_update)
qed

text \<open>C30. Every \<open>imat\<close> quantisation of a model is labelled \<open>imat\<close> in the catalogue
  list: the test meant to keep their whole name reads \<open>file.split("-")[-1]\<close>, which
  is \<open>undefined\<close> (and the last piece would still carry the extension), so all of
  them show the same label.\<close>

theorem gguf_label_imat: "gguf_label (p @ ''-imat.gguf'') = ''imat''"
proof -
  have "last (js_split CHR ''-'' (p @ CHR ''-'' # ''imat.gguf'')) = ''imat.gguf''"
    by (rule last_js_split_suffix) simp
  then show ?thesis by (simp add: gguf_label_downloaded_label downloaded_label_def)
qed

subsection \<open>Witnesses\<close>

abbreviation ex_thinking_turn :: message where
  "ex_thinking_turn \<equiv> assistant_placeholder\<lparr>content := ''4'', thought := Some ''2 + 2''\<rparr>"

abbreviation ex_chat :: session_state where
  "ex_chat \<equiv> session_init\<lparr>conversation := INITIAL_CONVERSATION @ [user_message ''2 + 2?'', ex_thinking_turn]\<rparr>"

theorem thought_toggle_flips_own_turn_witness:
  "ThoughtToggle 2 \<in> set (controls (render_message ex_chat (1, ex_thinking_turn)))
   \<and> tl (toggleThought 2 (conversation ex_chat))
     = [user_message ''2 + 2?'', ex_thinking_turn\<lparr>showThought := True\<rparr>]"
proof -
  have t: "ThoughtToggle 2 \<in> set (controls (render_message ex_chat (1, ex_thinking_turn)))"
    by (simp add: controls_def render_message_def assistant_placeholder_def)
  have e: "(1, ex_thinking_turn) \<in> set (enumerate 0 (tl (conversation ex_chat)))"
    by (simp add: INITIAL_CONVERSATION_def enumerate_eq_zip)
  show ?thesis
    using thought_toggle_flips_own_turn [OF e t] t
    by (simp add: INITIAL_CONVERSATION_def assistant_placeholder_def)
qed

end
