(* ===== verification/Styles.thy ===== *)
theory Styles
  imports AppModel
begin

text \<open>
  The style sheet \<open>styles = StyleSheet.create({...})\<close> (lines 1052-1547) and the style
  arrays the tree gives its buttons, bubbles and texts. A style is the association list
  of its object literal in source order, a property value a number, a string or a
  nested object (\<open>shadowOffset\<close>); the one value that depends on the platform,
  \<open>paddingBottom\<close> of \<open>bottomContainer\<close>, takes \<open>Platform.OS\<close> as a parameter.
  React Native flattens a style array from left to right, a later entry overriding the
  properties of an earlier one, and skips the falsy entries of \<open>c && styles.x\<close>; an
  entry naming no style of the sheet is \<open>undefined\<close> and skipped too.
\<close>

datatype style_value = Num rat | Str string | Obj "(string \<times> style_value) list"

type_synonym style = "(string \<times> style_value) list"
type_synonym sheet = "(string \<times> style) list"

subsection \<open>The sheet\<close>

text \<open>The styles \<open>container\<close> to \<open>llamaBubble\<close> (lines 1053-1189).\<close>

definition style_sheet_1 :: "sheet" where
  "style_sheet_1 =
     [(''container'',
        [(''flex'', Num 1),
         (''backgroundColor'', Str ''#F8FAFC'')]),
      (''scrollView'',
        [(''paddingBottom'', Num 24)]),
      (''title'',
        [(''fontSize'', Num 32),
         (''fontWeight'', Str ''800''),
         (''color'', Str ''#1E293B''),
         (''marginVertical'', Num 24),
         (''textAlign'', Str ''center''),
         (''letterSpacing'', Num (-0.5))]),
      (''card'',
        [(''backgroundColor'', Str ''#FFFFFF''),
         (''borderRadius'', Num 20),
         (''padding'', Num 24),
         (''margin'', Num 16),
         (''shadowColor'', Str ''#1E293B''),
         (''shadowOffset'', Obj [(''width'', Num 0), (''height'', Num 3)]),
         (''shadowOpacity'', Num (0.12)),
         (''shadowRadius'', Num 8),
         (''elevation'', Num 4)]),
      (''subtitle'',
        [(''fontSize'', Num 20),
         (''fontWeight'', Str ''700''),
         (''color'', Str ''#334155''),
         (''marginBottom'', Num 18),
         (''marginTop'', Num 16)]),
      (''subtitle2'',
        [(''fontSize'', Num 13),
         (''fontWeight'', Str ''600''),
         (''marginBottom'', Num 16),
         (''color'', Str ''#64748B'')]),
      (''button'',
        [(''backgroundColor'', Str ''#BFDBFE''),
         (''paddingVertical'', Num 14),
         (''paddingHorizontal'', Num 24),
         (''borderRadius'', Num 14),
         (''marginVertical'', Num 8),
         (''shadowColor'', Str ''#3B82F6''),
         (''shadowOffset'', Obj [(''width'', Num 0), (''height'', Num 2)]),
         (''shadowOpacity'', Num (0.15)),
         (''shadowRadius'', Num 4),
         (''elevation'', Num 3),
         (''borderWidth'', Num 1),
         (''borderColor'', Str ''#93C5FD'')]),
      (''selectedButton'',
        [(''backgroundColor'', Str ''#2563EB''),
         (''borderColor'', Str ''#1E40AF''),
         (''shadowOpacity'', Num (0.25))]),
      (''buttonText'',
        [(''color'', Str ''#FFFFFF''),
         (''fontSize'', Num 16),
         (''fontWeight'', Str ''700''),
         (''textAlign'', Str ''center'')]),
      (''chatWrapper'',
        [(''flex'', Num 1),
         (''padding'', Num 16)]),
      (''backButton'',
        [(''backgroundColor'', Str ''#3B82F6''),
         (''marginHorizontal'', Num 16),
         (''marginTop'', Num 10),
         (''paddingVertical'', Num 14),
         (''paddingHorizontal'', Num 20),
         (''borderRadius'', Num 14),
         (''alignItems'', Str ''center''),
         (''shadowColor'', Str ''#1E40AF''),
         (''shadowOffset'', Obj [(''width'', Num 0), (''height'', Num 2)]),
         (''shadowOpacity'', Num (0.2)),
         (''shadowRadius'', Num 4),
         (''elevation'', Num 3)]),
      (''backButtonText'',
        [(''color'', Str ''#FFFFFF''),
         (''fontSize'', Num 16),
         (''fontWeight'', Str ''700'')]),
      (''chatContainer'',
        [(''flex'', Num 1),
         (''backgroundColor'', Str ''#F1F5F9''),
         (''borderRadius'', Num 20),
         (''padding'', Num 18),
         (''marginBottom'', Num 16),
         (''shadowColor'', Str ''#64748B''),
         (''shadowOffset'', Obj [(''width'', Num 0), (''height'', Num 2)]),
         (''shadowOpacity'', Num (0.1)),
         (''shadowRadius'', Num 4),
         (''elevation'', Num 2)]),
      (''messageWrapper'',
        [(''marginBottom'', Num 18)]),
      (''messageBubble'',
        [(''padding'', Num 14),
         (''borderRadius'', Num 16),
         (''maxWidth'', Str ''85%''),
         (''shadowColor'', Str ''#64748B''),
         (''shadowOffset'', Obj [(''width'', Num 0), (''height'', Num 1)]),
         (''shadowOpacity'', Num (0.08)),
         (''shadowRadius'', Num 2),
         (''elevation'', Num 1)]),
      (''userBubble'',
        [(''alignSelf'', Str ''flex-end''),
         (''backgroundColor'', Str ''#3B82F6'')]),
      (''llamaBubble'',
        [(''alignSelf'', Str ''flex-start''),
         (''backgroundColor'', Str ''#FFFFFF''),
         (''borderWidth'', Num 1),
         (''borderColor'', Str ''#E2E8F0'')])]"

text \<open>The styles \<open>messageText\<close> to \<open>modelButtonContent\<close> (lines 1190-1325).\<close>

definition style_sheet_2 :: "string \<Rightarrow> sheet" where
  "style_sheet_2 os =
     [(''messageText'',
        [(''fontSize'', Num 16),
         (''color'', Str ''#334155''),
         (''lineHeight'', Num 22)]),
      (''userMessageText'',
        [(''color'', Str ''#FFFFFF'')]),
      (''tokenInfo'',
        [(''fontSize'', Num 12),
         (''color'', Str ''#64748B''),
         (''marginTop'', Num 6),
         (''textAlign'', Str ''right''),
         (''fontWeight'', Str ''500'')]),
      (''inputContainer'',
        [(''padding'', Num 16),
         (''backgroundColor'', Str ''#FFFFFF''),
         (''borderTopWidth'', Num 1),
         (''borderTopColor'', Str ''#E2E8F0'')]),
      (''input'',
        [(''flex'', Num 1),
         (''backgroundColor'', Str ''#F8FAFC''),
         (''borderWidth'', Num 1),
         (''borderColor'', Str ''#CBD5E1''),
         (''borderRadius'', Num 14),
         (''padding'', Num 16),
         (''fontSize'', Num 16),
         (''color'', Str ''#334155''),
         (''minHeight'', Num 50)]),
      (''inputRow'',
        [(''flexDirection'', Str ''row''),
         (''gap'', Num 12)]),
      (''sendButton'',
        [(''backgroundColor'', Str ''#3B82F6''),
         (''paddingVertical'', Num 14),
         (''paddingHorizontal'', Num 24),
         (''borderRadius'', Num 14),
         (''shadowColor'', Str ''#1E40AF''),
         (''shadowOffset'', Obj [(''width'', Num 0), (''height'', Num 2)]),
         (''shadowOpacity'', Num (0.2)),
         (''shadowRadius'', Num 3),
         (''elevation'', Num 3),
         (''alignSelf'', Str ''stretch''),
         (''justifyContent'', Str ''center'')]),
      (''stopButton'',
        [(''backgroundColor'', Str ''#EF4444''),
         (''paddingVertical'', Num 14),
         (''paddingHorizontal'', Num 24),
         (''borderRadius'', Num 14),
         (''alignSelf'', Str ''stretch''),
         (''justifyContent'', Str ''center''),
         (''shadowColor'', Str ''#B91C1C''),
         (''shadowOffset'', Obj [(''width'', Num 0), (''height'', Num 2)]),
         (''shadowOpacity'', Num (0.2)),
         (''shadowRadius'', Num 3),
         (''elevation'', Num 3)]),
      (''greetingText'',
        [(''fontSize'', Num 14),
         (''fontWeight'', Str ''500''),
         (''textAlign'', Str ''center''),
         (''marginVertical'', Num 14),
         (''color'', Str ''#64748B''),
         (''fontStyle'', Str ''italic'')]),
      (''thoughtContainer'',
        [(''marginTop'', Num 10),
         (''padding'', Num 12),
         (''backgroundColor'', Str ''#F1F5F9''),
         (''borderRadius'', Num 12),
         (''borderLeftWidth'', Num 4),
         (''borderLeftColor'', Str ''#64748B'')]),
      (''thoughtTitle'',
        [(''color'', Str ''#475569''),
         (''fontSize'', Num 13),
         (''fontWeight'', Str ''700''),
         (''marginBottom'', Num 4)]),
      (''thoughtText'',
        [(''color'', Str ''#475569''),
         (''fontSize'', Num 13),
         (''fontStyle'', Str ''italic''),
         (''lineHeight'', Num 18)]),
      (''toggleButton'',
        [(''marginTop'', Num 8),
         (''paddingVertical'', Num 5)]),
      (''toggleText'',
        [(''color'', Str ''#3B82F6''),
         (''fontSize'', Num 13),
         (''fontWeight'', Str ''600'')]),
      (''bottomContainer'',
        [(''backgroundColor'', Str ''#FFFFFF''),
         (''borderTopWidth'', Num 1),
         (''borderTopColor'', Str ''#E2E8F0''),
         (''paddingBottom'', Num (if os = ''ios'' then 24 else 12))]),
      (''modelContainer'',
        [(''marginVertical'', Num 8),
         (''borderRadius'', Num 14),
         (''overflow'', Str ''hidden'')]),
      (''modelButton'',
        [(''backgroundColor'', Str ''#EFF6FF''),
         (''padding'', Num 19),
         (''borderRadius'', Num 14),
         (''borderWidth'', Num 1),
         (''borderColor'', Str ''#BFDBFE''),
         (''shadowColor'', Str ''#3B82F6''),
         (''shadowOffset'', Obj [(''width'', Num 0), (''height'', Num 2)]),
         (''shadowOpacity'', Num (0.1)),
         (''shadowRadius'', Num 4),
         (''elevation'', Num 2)]),
      (''modelButtonContent'',
        [(''flexDirection'', Str ''row''),
         (''justifyContent'', Str ''space-between''),
         (''alignItems'', Str ''center'')])]"

text \<open>The styles \<open>modelStatusContainer\<close> to \<open>downloadedModelsSection\<close> (lines 1326-1460).\<close>

definition style_sheet_3 :: "sheet" where
  "style_sheet_3 =
     [(''modelStatusContainer'',
        [(''flexDirection'', Str ''row''),
         (''alignItems'', Str ''center''),
         (''flex'', Num 1)]),
      (''downloadedIndicator'',
        [(''backgroundColor'', Str ''#BFDBFE''),
         (''padding'', Num 5),
         (''borderRadius'', Num 8),
         (''marginRight'', Num 10)]),
      (''notDownloadedIndicator'',
        [(''backgroundColor'', Str ''#E2E8F0''),
         (''padding'', Num 5),
         (''borderRadius'', Num 8),
         (''marginRight'', Num 10)]),
      (''downloadedIcon'',
        [(''color'', Str ''#2563EB''),
         (''fontSize'', Num 14),
         (''fontWeight'', Str ''bold'')]),
      (''notDownloadedIcon'',
        [(''color'', Str ''#64748B''),
         (''fontSize'', Num 14),
         (''fontWeight'', Str ''bold'')]),
      (''downloadedText'',
        [(''color'', Str ''#1E40AF''),
         (''fontWeight'', Str ''600'')]),
      (''loadModelIndicator'',
        [(''backgroundColor'', Str ''#DBEAFE''),
         (''paddingHorizontal'', Num 12),
         (''paddingVertical'', Num 6),
         (''borderRadius'', Num 8),
         (''marginLeft'', Num 8),
         (''borderWidth'', Num 1),
         (''borderColor'', Str ''#93C5FD'')]),
      (''loadModelText'',
        [(''color'', Str ''#2563EB''),
         (''fontSize'', Num 9),
         (''fontWeight'', Str ''700''),
         (''letterSpacing'', Num (0.5))]),
      (''downloadIndicator'',
        [(''backgroundColor'', Str ''#D1FAE5''),
         (''paddingHorizontal'', Num 12),
         (''paddingVertical'', Num 6),
         (''borderRadius'', Num 8),
         (''marginLeft'', Num 8),
         (''borderWidth'', Num 1),
         (''borderColor'', Str ''#A7F3D0'')]),
      (''downloadText'',
        [(''color'', Str ''#059669''),
         (''fontSize'', Num 9),
         (''fontWeight'', Str ''700''),
         (''letterSpacing'', Num (0.5))]),
      (''buttonTextGGUF'',
        [(''color'', Str ''#1E40AF''),
         (''fontSize'', Num 14),
         (''fontWeight'', Str ''600'')]),
      (''selectedButtonText'',
        [(''color'', Str ''#FFFFFF''),
         (''fontWeight'', Str ''700'')]),
      (''modelFormatRow'',
        [(''flexDirection'', Str ''row''),
         (''alignItems'', Str ''center''),
         (''justifyContent'', Str ''center'')]),
      (''modelCountBadge'',
        [(''backgroundColor'', Str ''#2563EB''),
         (''borderRadius'', Num 10),
         (''paddingHorizontal'', Num 6),
         (''paddingVertical'', Num 2),
         (''marginLeft'', Num 8)]),
      (''modelCountText'',
        [(''color'', Str ''#FFFFFF''),
         (''fontSize'', Num 12),
         (''fontWeight'', Str ''600'')]),
      (''formatGroup'',
        [(''marginBottom'', Num 16),
         (''backgroundColor'', Str ''#F1F5F9''),
         (''padding'', Num 12),
         (''borderRadius'', Num 12),
         (''borderLeftWidth'', Num 3),
         (''borderLeftColor'', Str ''#3B82F6'')]),
      (''formatGroupTitle'',
        [(''fontSize'', Num 16),
         (''fontWeight'', Str ''600''),
         (''color'', Str ''#334155''),
         (''marginBottom'', Num 8)]),
      (''actionButtonsContainer'',
        [(''flexDirection'', Str ''row''),
         (''alignItems'', Str ''center''),
         (''justifyContent'', Str ''space-between''),
         (''minWidth'', Num 120)]),
      (''deleteButton'',
        [(''backgroundColor'', Str ''#FEE2E2''),
         (''paddingHorizontal'', Num 10),
         (''paddingVertical'', Num 5),
         (''borderRadius'', Num 8),
         (''marginLeft'', Num 0),
         (''marginRight'', Num 0),
         (''borderWidth'', Num 1),
         (''borderColor'', Str ''#FECACA''),
         (''shadowColor'', Str ''#EF4444''),
         (''shadowOffset'', Obj [(''width'', Num 0), (''height'', Num 1)]),
         (''shadowOpacity'', Num (0.1)),
         (''shadowRadius'', Num 2),
         (''elevation'', Num 1)]),
      (''deleteButtonText'',
        [(''color'', Str ''#EF4444''),
         (''fontSize'', Num 12),
         (''fontWeight'', Str ''700''),
         (''letterSpacing'', Num (0.5))]),
      (''downloadedModelsSection'',
        [(''marginTop'', Num 24),
         (''borderTopWidth'', Num 1),
         (''borderTopColor'', Str ''#E2E8F0''),
         (''paddingTop'', Num 16)])]"

text \<open>The styles \<open>loadingOverlay\<close> to \<open>modelSizeText\<close> (lines 1462-1546).\<close>

definition style_sheet_4 :: "sheet" where
  "style_sheet_4 =
     [(''loadingOverlay'',
        [(''position'', Str ''absolute''),
         (''top'', Num 0),
         (''left'', Num 0),
         (''right'', Num 0),
         (''bottom'', Num 0),
         (''backgroundColor'', Str ''rgba(0, 0, 0, 0.7)''),
         (''justifyContent'', Str ''center''),
         (''alignItems'', Str ''center''),
         (''zIndex'', Num 1000)]),
      (''loadingContainer'',
        [(''backgroundColor'', Str ''#FFFFFF''),
         (''padding'', Num 24),
         (''borderRadius'', Num 16),
         (''alignItems'', Str ''center''),
         (''width'', Str ''80%''),
         (''shadowColor'', Str ''#000''),
         (''shadowOffset'', Obj [(''width'', Num 0), (''height'', Num 4)]),
         (''shadowOpacity'', Num (0.3)),
         (''shadowRadius'', Num 8),
         (''elevation'', Num 5)]),
      (''loadingText'',
        [(''marginTop'', Num 16),
         (''fontSize'', Num 18),
         (''fontWeight'', Str ''600''),
         (''color'', Str ''#1E293B'')]),
      (''loadingSubtext'',
        [(''marginTop'', Num 8),
         (''fontSize'', Num 14),
         (''color'', Str ''#64748B'')]),
      (''successMessageContainer'',
        [(''position'', Str ''absolute''),
         (''top'', Num 60),
         (''alignSelf'', Str ''center''),
         (''backgroundColor'', Str ''#D1FAE5''),
         (''paddingHorizontal'', Num 20),
         (''paddingVertical'', Num 10),
         (''borderRadius'', Num 8),
         (''borderWidth'', Num 1),
         (''borderColor'', Str ''#A7F3D0''),
         (''zIndex'', Num 100)]),
      (''successMessage'',
        [(''color'', Str ''#059669''),
         (''fontWeight'', Str ''600'')]),
      (''errorMessageContainer'',
        [(''position'', Str ''absolute''),
         (''top'', Num 60),
         (''alignSelf'', Str ''center''),
         (''backgroundColor'', Str ''#FEE2E2''),
         (''paddingHorizontal'', Num 20),
         (''paddingVertical'', Num 10),
         (''borderRadius'', Num 8),
         (''borderWidth'', Num 1),
         (''borderColor'', Str ''#FECACA''),
         (''zIndex'', Num 100)]),
      (''errorMessage'',
        [(''color'', Str ''#DC2626''),
         (''fontWeight'', Str ''600'')]),
      (''modelItemContainer'',
        [(''flexDirection'', Str ''row''),
         (''alignItems'', Str ''center''),
         (''justifyContent'', Str ''flex-end''),
         (''marginTop'', Num 10),
         (''marginBottom'', Num 20)]),
      (''modelTextContainer'',
        [(''flexDirection'', Str ''column''),
         (''justifyContent'', Str ''center'')]),
      (''modelSizeText'',
        [(''fontSize'', Num 12),
         (''color'', Str ''#64748B''),
         (''fontWeight'', Str ''500''),
         (''marginTop'', Num 2),
         (''marginLeft'', Num 50)])]"

definition style_sheet :: "string \<Rightarrow> sheet" where
  "style_sheet os = style_sheet_1 @ style_sheet_2 os @ style_sheet_3 @ style_sheet_4"

subsection \<open>Flattening\<close>

text \<open>A key of an object literal: the last definition of the key wins.\<close>

definition js_prop :: "(string \<times> 'a) list \<Rightarrow> string \<Rightarrow> 'a option" where
  "js_prop kvs k = map_of (rev kvs) k"

text \<open>An entry of a style array: a style of the sheet by name, or an inline object.\<close>

datatype style_ref = Sheet string | Inline style

definition resolve :: "sheet \<Rightarrow> style_ref \<Rightarrow> string \<Rightarrow> style_value option" where
  "resolve sh r =
     (case r of
        Sheet n \<Rightarrow> (case js_prop sh n of Some st \<Rightarrow> js_prop st | None \<Rightarrow> Map.empty)
      | Inline st \<Rightarrow> js_prop st)"

text \<open>\<open>StyleSheet.flatten\<close>: the entries from left to right, later ones overriding.\<close>

definition flatten :: "sheet \<Rightarrow> style_ref list \<Rightarrow> string \<Rightarrow> style_value option" where
  "flatten sh rs = foldl (\<lambda>m r. m ++ resolve sh r) Map.empty rs"

subsection \<open>The style arrays of the tree\<close>

text \<open>\<open>All Local Models\<close> (lines 734-738): highlighted while no format is selected.\<close>

definition all_button_style :: "app_state \<Rightarrow> style_ref list" where
  "all_button_style a =
     [Sheet ''button''] @ (if selectedModelFormat a = [] then [Sheet ''selectedButton''] else [])
     @ [Inline [(''marginBottom'', Num 12)]]"

text \<open>A format button (lines 761-765): highlighted while its label is the selection.\<close>

definition format_button_style :: "app_state \<Rightarrow> string \<Rightarrow> style_ref list" where
  "format_button_style a l =
     [Sheet ''button''] @ (if selectedModelFormat a = l then [Sheet ''selectedButton''] else [])"

text \<open>A file of the catalogue list and its label (lines 792-795, 817-821).\<close>

definition file_button_style :: "app_state \<Rightarrow> string \<Rightarrow> style_ref list" where
  "file_button_style a f =
     [Sheet ''modelButton''] @ (if selectedGGUF (sess a) = Some f then [Sheet ''selectedButton''] else [])"

definition file_text_style :: "app_state \<Rightarrow> string \<Rightarrow> style_ref list" where
  "file_text_style a f =
     [Sheet ''buttonTextGGUF'']
     @ (if selectedGGUF (sess a) = Some f then [Sheet ''selectedButtonText''] else [])
     @ (if f \<in> set (downloadedModels (meta a)) then [Sheet ''downloadedText''] else [])"



text \<open>The five filter buttons in drawing order, and whether each has the background of
  \<open>selectedButton\<close>.\<close>

definition highlighted :: "sheet \<Rightarrow> style_ref list \<Rightarrow> bool" where
  "highlighted sh rs \<longleftrightarrow> flatten sh rs ''backgroundColor'' = Some (Str ''#2563EB'')"

definition filter_highlights :: "string \<Rightarrow> app_state \<Rightarrow> bool list" where
  "filter_highlights os a =
     map (highlighted (style_sheet os)) (all_button_style a # map (format_button_style a) modelFormats)"

subsection \<open>Lemmas\<close>

lemma flatten_Nil [simp]: "flatten sh [] = Map.empty"
  by (simp add: flatten_def)

lemma foldl_map_add_at:
  "foldl (\<lambda>m r. m ++ resolve sh r) m0 rs k =
     foldl (\<lambda>v r. case resolve sh r k of Some x \<Rightarrow> Some x | None \<Rightarrow> v) (m0 k) rs"
  by (induction rs arbitrary: m0) (simp_all add: map_add_def split: option.split)

text \<open>The value of one property after flattening: the last entry that sets it.\<close>

lemma flatten_at:
  "flatten sh rs k = foldl (\<lambda>v r. case resolve sh r k of Some x \<Rightarrow> Some x | None \<Rightarrow> v) None rs"
  by (simp add: flatten_def foldl_map_add_at)

lemmas sheet_defs = style_sheet_def style_sheet_1_def style_sheet_2_def style_sheet_3_def style_sheet_4_def

lemma button_backgrounds:
  "resolve (style_sheet os) (Sheet ''button'') ''backgroundColor'' = Some (Str ''#BFDBFE'')"
  "resolve (style_sheet os) (Sheet ''selectedButton'') ''backgroundColor'' = Some (Str ''#2563EB'')"
  "resolve sh (Inline [(''marginBottom'', Num 12)]) ''backgroundColor'' = None"
  by (simp_all add: resolve_def js_prop_def sheet_defs)

lemma highlighted_all_button:
  "highlighted (style_sheet os) (all_button_style a) \<longleftrightarrow> selectedModelFormat a = []"
  by (simp add: highlighted_def all_button_style_def flatten_at button_backgrounds)

lemma highlighted_format_button:
  "highlighted (style_sheet os) (format_button_style a l) \<longleftrightarrow> selectedModelFormat a = l"
  by (simp add: highlighted_def format_button_style_def flatten_at button_backgrounds)

lemma filter_highlights_eq:
  "filter_highlights os a = (selectedModelFormat a = []) # map (\<lambda>l. selectedModelFormat a = l) modelFormats"
  by (simp add: filter_highlights_def highlighted_all_button highlighted_format_button)


lemma download_keeps_format [simp]:
  "selectedModelFormat (handleDownloadModel env file a) = selectedModelFormat a"
  by (simp add: handleDownloadModel_def download_transfer_def Let_def case_prod_beta
      split: option.split sum.split)

lemma app_step_selected_format:
  "app_step a e = Some a' \<Longrightarrow>
     selectedModelFormat a' = selectedModelFormat a \<or> selectedModelFormat a' \<in> set ([] # modelFormats)"
  by (cases e) (auto simp: all_local_models_def handleFormatSelection_def open_model_def
      handleGGUFSelection_def deleteModel_def Let_def split: if_splits option.splits sum.splits event.splits)

lemma reachable_selected_format:
  "app_reachable a0 a \<Longrightarrow> selectedModelFormat a0 \<in> set ([] # modelFormats) \<Longrightarrow>
     selectedModelFormat a \<in> set ([] # modelFormats)"
  by (induction rule: app_reachable.induct) (auto dest: app_step_selected_format)

subsection \<open>Properties of the styles\<close>


text \<open>C19. In every state reached from one whose selected format is empty or a catalogue
  label, exactly one of the five filter buttons (\<open>All Local Models\<close> and the four
  formats) has the background of \<open>selectedButton\<close>.\<close>

theorem one_filter_highlighted:
  assumes "app_reachable a0 a" and "selectedModelFormat a0 \<in> set ([] # modelFormats)"
  shows "length (filter id (filter_highlights os a)) = 1"
proof -
  have "selectedModelFormat a \<in> set ([] # modelFormats)"
    using assms by (rule reachable_selected_format)
  then show ?thesis
    by (auto simp: filter_highlights_eq modelFormats_def)
qed

subsection \<open>Witnesses\<close>

theorem one_filter_highlighted_witness:
  "filter_highlights ''android'' (ex_app\<lparr>selectedModelFormat := ''Qwen2-0.5B-Instruct''\<rparr>)
     = [False, False, True, False, False]
   \<and> length (filter id (filter_highlights ''android''
       (ex_app\<lparr>selectedModelFormat := ''Qwen2-0.5B-Instruct''\<rparr>))) = 1"
  using one_filter_highlighted
    [OF app_reachable.start, of "ex_app\<lparr>selectedModelFormat := ''Qwen2-0.5B-Instruct''\<rparr>" "''android''"]
  by (simp add: filter_highlights_eq modelFormats_def)

end
