(* ===== verification/Json.thy ===== *)
theory Json
  imports Display "HOL-Library.Monad_Syntax"
begin

text \<open>
  The metadata file \<open>model_metadata.json\<close> (lines 88-128): \<open>saveModelMetadata\<close>
  writes \<open>JSON.stringify(modelMetadata)\<close>, \<open>loadModelMetadata\<close> reads it back with
  \<open>JSON.parse\<close> and installs the result, a parse error being caught and logged.
  \<open>JSON.stringify\<close> is modelled on the values the program gives it: a list of records
  whose keys come in the order the program creates them (\<open>filename\<close>, \<open>format\<close>,
  \<open>downloadDate\<close>, \<open>size\<close>, the last omitted when undefined), with strings quoted
  and escaped as ECMAScript's \<open>QuoteJSONString\<close> does. \<open>JSON.parse\<close> is modelled on
  the texts of that shape: an array of objects whose members are strings or whole
  numbers, with white space between tokens; \<open>None\<close> is a \<open>SyntaxError\<close> and also
  stands for a text of another shape, which \<open>JSON.parse\<close> would accept and the
  \<open>as ModelMetadata[]\<close> cast would let through unchecked.
\<close>

abbreviation QUOTE :: char where "QUOTE \<equiv> CHR 0x22"
abbreviation BSL :: char where "BSL \<equiv> CHR 0x5C"

subsection \<open>\<open>JSON.stringify\<close>\<close>

definition hex_digit :: "nat \<Rightarrow> char" where
  "hex_digit d = ''0123456789abcdef'' ! d"

text \<open>One character of a string, as \<open>QuoteJSONString\<close> writes it.\<close>

definition json_escape :: "char \<Rightarrow> string" where
  "json_escape c =
     (if c = QUOTE then [BSL, QUOTE]
      else if c = BSL then [BSL, BSL]
      else if c = CHR 0x08 then [BSL, CHR ''b'']
      else if c = CHR 0x0C then [BSL, CHR ''f'']
      else if c = CHR 0x0A then [BSL, CHR ''n'']
      else if c = CHR 0x0D then [BSL, CHR ''r'']
      else if c = CHR 0x09 then [BSL, CHR ''t'']
      else if (of_char c :: nat) < 32
      then [BSL, CHR ''u'', CHR ''0'', CHR ''0'', hex_digit (of_char c div 16), hex_digit (of_char c mod 16)]
      else [c])"

definition json_quote :: "string \<Rightarrow> string" where
  "json_quote s = QUOTE # concat (map json_escape s) @ [QUOTE]"

definition stringify_record :: "model_metadata \<Rightarrow> string" where
  "stringify_record r =
     ''{'' @ json_quote ''filename'' @ '':'' @ json_quote (filename r)
     @ '','' @ json_quote ''format'' @ '':'' @ json_quote (format r)
     @ '','' @ json_quote ''downloadDate'' @ '':'' @ json_quote (downloadDate r)
     @ (case size r of None \<Rightarrow> [] | Some n \<Rightarrow> '','' @ json_quote ''size'' @ '':'' @ string_of_nat n)
     @ ''}''"

text \<open>The elements of an array, separated by commas.\<close>

fun join_comma :: "string list \<Rightarrow> string" where
  "join_comma [] = []"
| "join_comma [x] = x"
| "join_comma (x # y # xs) = x @ '','' @ join_comma (y # xs)"

text \<open>\<open>JSON.stringify(modelMetadata)\<close> (line 116).\<close>

definition stringify_metadata :: "model_metadata list \<Rightarrow> string" where
  "stringify_metadata ms = ''['' @ join_comma (map stringify_record ms) @ '']''"

subsection \<open>\<open>JSON.parse\<close>\<close>

datatype jval = JStr string | JNum nat

definition json_ws :: "char \<Rightarrow> bool" where
  "json_ws c \<longleftrightarrow> c \<in> set [CHR 0x20, CHR 0x09, CHR 0x0A, CHR 0x0D]"

text \<open>The next token is the character \<open>c\<close>, after white space.\<close>

definition expect :: "char \<Rightarrow> string \<Rightarrow> string option" where
  "expect c s = (case dropWhile json_ws s of x # r \<Rightarrow> if x = c then Some r else None | [] \<Rightarrow> None)"

definition hex_val :: "char \<Rightarrow> nat option" where
  "hex_val c = (case find_index (\<lambda>x. x = c) ''0123456789abcdef'' of
                  Some i \<Rightarrow> Some i
                | None \<Rightarrow> map_option (\<lambda>i. i + 10) (find_index (\<lambda>x. x = c) ''ABCDEF''))"

fun hex4 :: "string \<Rightarrow> nat option" where
  "hex4 (a # b # c # d # _) =
     (case (hex_val a, hex_val b, hex_val c, hex_val d) of
        (Some w, Some x, Some y, Some z) \<Rightarrow> Some (((w * 16 + x) * 16 + y) * 16 + z)
      | _ \<Rightarrow> None)"
| "hex4 _ = None"

definition unescape :: "char \<Rightarrow> char option" where
  "unescape e = map_of [(QUOTE, QUOTE), (BSL, BSL), (CHR ''/'', CHR ''/''), (CHR ''b'', CHR 0x08),
     (CHR ''f'', CHR 0x0C), (CHR ''n'', CHR 0x0A), (CHR ''r'', CHR 0x0D), (CHR ''t'', CHR 0x09)] e"

text \<open>The characters of a string after its opening quote, up to the closing one, and the
  rest of the text. A raw control character is a syntax error; an escape \<open>\u\<close> beyond
  \<open>00FF\<close> names no byte and is outside the model.\<close>

fun parse_chars :: "string \<Rightarrow> (string \<times> string) option" where
  "parse_chars [] = None"
| "parse_chars (c # cs) =
     (if c = QUOTE then Some ([], cs)
      else if c = BSL then
        (case cs of
           [] \<Rightarrow> None
         | e # cs' \<Rightarrow>
             (case unescape e of
                Some x \<Rightarrow> map_option (apfst (Cons x)) (parse_chars cs')
              | None \<Rightarrow>
                  if e = CHR ''u'' then
                    (case hex4 cs' of
                       Some n \<Rightarrow> if n < 256 then map_option (apfst (Cons (char_of n))) (parse_chars (drop 4 cs'))
                                 else None
                     | None \<Rightarrow> None)
                  else None))
      else if (of_char c :: nat) < 32 then None
      else map_option (apfst (Cons c)) (parse_chars cs))"

definition is_digit :: "char \<Rightarrow> bool" where
  "is_digit c \<longleftrightarrow> c \<in> set ''0123456789''"

text \<open>A whole number: no leading zero, no sign, fraction or exponent (those are outside
  the model).\<close>

definition parse_nat :: "string \<Rightarrow> (nat \<times> string) option" where
  "parse_nat s =
     (let ds = takeWhile is_digit s
      in if ds = [] \<or> (hd ds = CHR ''0'' \<and> length ds > 1) then None
         else Some (nat_of_digits ds, dropWhile is_digit s))"

definition parse_value :: "string \<Rightarrow> (jval \<times> string) option" where
  "parse_value s =
     (case dropWhile json_ws s of
        c # r \<Rightarrow> if c = QUOTE then map_option (apfst JStr) (parse_chars r)
                 else map_option (apfst JNum) (parse_nat (c # r))
      | [] \<Rightarrow> None)"

text \<open>The members of an object after its \<open>{\<close>, and the elements of an array after its
  \<open>[\<close>. The loops run on fuel; the round trip below is proved with the length of the
  text as fuel.\<close>

fun parse_members :: "nat \<Rightarrow> string \<Rightarrow> ((string \<times> jval) list \<times> string) option" where
  "parse_members 0 s = None"
| "parse_members (Suc n) s = do {
     r \<leftarrow> expect QUOTE s;
     (k, r1) \<leftarrow> parse_chars r;
     r2 \<leftarrow> expect CHR '':'' r1;
     (v, r3) \<leftarrow> parse_value r2;
     (case dropWhile json_ws r3 of
        c # r4 \<Rightarrow> if c = CHR '','' then map_option (apfst (Cons (k, v))) (parse_members n r4)
                 else if c = CHR ''}'' then Some ([(k, v)], r4) else None
      | [] \<Rightarrow> None)
   }"

definition parse_object :: "nat \<Rightarrow> string \<Rightarrow> ((string \<times> jval) list \<times> string) option" where
  "parse_object n s = do {
     r \<leftarrow> expect CHR ''{'' s;
     (case expect CHR ''}'' r of Some r' \<Rightarrow> Some ([], r') | None \<Rightarrow> parse_members n r)
   }"

fun parse_elems :: "nat \<Rightarrow> string \<Rightarrow> ((string \<times> jval) list list \<times> string) option" where
  "parse_elems 0 s = None"
| "parse_elems (Suc n) s = do {
     (o1, r) \<leftarrow> parse_object n s;
     (case dropWhile json_ws r of
        c # r' \<Rightarrow> if c = CHR '','' then map_option (apfst (Cons o1)) (parse_elems n r')
                 else if c = CHR '']'' then Some ([o1], r') else None
      | [] \<Rightarrow> None)
   }"

definition parse_array :: "string \<Rightarrow> (string \<times> jval) list list option" where
  "parse_array s = do {
     r \<leftarrow> expect CHR ''['' s;
     (objs, rest) \<leftarrow> (case expect CHR '']'' r of Some r' \<Rightarrow> Some ([], r') | None \<Rightarrow> parse_elems (length s) r);
     if dropWhile json_ws rest = [] then Some objs else None
   }"

subsection \<open>Reading the records\<close>

text \<open>A member read by key; on a repeated key \<open>JSON.parse\<close> keeps the last value.\<close>

definition member :: "(string \<times> jval) list \<Rightarrow> string \<Rightarrow> jval option" where
  "member kvs k = map_of (rev kvs) k"

definition str_member :: "(string \<times> jval) list \<Rightarrow> string \<Rightarrow> string option" where
  "str_member kvs k = (case member kvs k of Some (JStr s) \<Rightarrow> Some s | _ \<Rightarrow> None)"

definition record_of :: "(string \<times> jval) list \<Rightarrow> model_metadata option" where
  "record_of kvs = do {
     f \<leftarrow> str_member kvs ''filename'';
     fmt \<leftarrow> str_member kvs ''format'';
     d \<leftarrow> str_member kvs ''downloadDate'';
     sz \<leftarrow> (case member kvs ''size'' of None \<Rightarrow> Some None | Some (JNum n) \<Rightarrow> Some (Some n)
            | Some (JStr _) \<Rightarrow> None);
     Some \<lparr>filename = f, format = fmt, downloadDate = d, size = sz\<rparr>
   }"

text \<open>\<open>JSON.parse(metadataString) as ModelMetadata[]\<close> (line 98).\<close>

definition parse_metadata :: "string \<Rightarrow> model_metadata list option" where
  "parse_metadata s = do { objs \<leftarrow> parse_array s; those (map record_of objs) }"

text \<open>The members \<open>JSON.parse\<close> reads back from one record.\<close>

definition kv_of :: "model_metadata \<Rightarrow> (string \<times> jval) list" where
  "kv_of r = [(''filename'', JStr (filename r)), (''format'', JStr (format r)),
              (''downloadDate'', JStr (downloadDate r))]
             @ (case size r of None \<Rightarrow> [] | Some n \<Rightarrow> [(''size'', JNum n)])"

subsection \<open>The metadata file\<close>

text \<open>The metadata state with the file's text in place of the list it encodes
  (\<open>None\<close>: no file).\<close>

record meta_file_state =
  file_metadata :: "model_metadata list"
  file_downloaded :: "string list"
  metadata_file :: "string option"

text \<open>\<open>setModelMetadata\<close> with the save effect (lines 110-128): the file is rewritten
  with \<open>JSON.stringify\<close> of a non-empty list.\<close>

definition set_metadata_file :: "model_metadata list \<Rightarrow> meta_file_state \<Rightarrow> meta_file_state" where
  "set_metadata_file m c =
     c\<lparr>file_metadata := m,
       metadata_file := (if m \<noteq> [] then Some (stringify_metadata m) else metadata_file c)\<rparr>"

text \<open>The load effect (lines 91-108): a missing file or a parse error leaves the state
  as it is; a parsed list is installed, and its save effect rewrites the file.\<close>

definition loadModelMetadata_file :: "meta_file_state \<Rightarrow> meta_file_state" where
  "loadModelMetadata_file c =
     (case metadata_file c of
        None \<Rightarrow> c
      | Some json_text \<Rightarrow> (case parse_metadata json_text of Some m \<Rightarrow> set_metadata_file m c | None \<Rightarrow> c))"

text \<open>The state of a fresh start over a file.\<close>

definition meta_mount_file :: "string option \<Rightarrow> meta_file_state" where
  "meta_mount_file json_text = \<lparr>file_metadata = [], file_downloaded = [], metadata_file = json_text\<rparr>"



lemma hex_val_digit: "d < 16 \<Longrightarrow> hex_val (hex_digit d) = Some d"
  using find_index_distinct_nth [of "''0123456789abcdef''" d]
  by (simp add: hex_val_def hex_digit_def)


lemma parse_chars_escaped [simp]:
  "parse_chars (concat (map json_escape s) @ QUOTE # rest) = Some (s, rest)"
proof (induction s)
  case Nil
  then show ?case by simp
next
  case (Cons c s)
  let ?n = "of_char c :: nat"
  consider "c = QUOTE" | "c = BSL" | "c = CHR 0x08" | "c = CHR 0x0C" | "c = CHR 0x0A" | "c = CHR 0x0D"
    | "c = CHR 0x09"
    | "c \<notin> {QUOTE, BSL, CHR 0x08, CHR 0x0C, CHR 0x0A, CHR 0x0D, CHR 0x09}" "?n < 32"
    | "c \<notin> {QUOTE, BSL, CHR 0x08, CHR 0x0C, CHR 0x0A, CHR 0x0D, CHR 0x09}" "\<not> ?n < 32"
    by blast
  then show ?case
  proof cases
    case 8
    have h: "hex4 (CHR ''0'' # CHR ''0'' # hex_digit (?n div 16) # hex_digit (?n mod 16) # r) = Some ?n" for r
    proof -
      have "hex_val (CHR ''0'') = Some 0" by (simp add: hex_val_def)
      moreover have "?n div 16 < 16" "?n mod 16 < 16" using 8(2) by simp_all
      ultimately show ?thesis by (simp add: hex_val_digit)
    qed
    from 8 Cons.IH show ?thesis
      by (simp add: json_escape_def unescape_def h del: hex4.simps)
  next
    case 9
    with Cons.IH show ?thesis by (simp add: json_escape_def)
  qed (use Cons.IH in \<open>simp_all add: json_escape_def unescape_def\<close>)
qed


lemma digit_is_digit: "d < 10 \<Longrightarrow> is_digit (''0123456789'' ! d)"
  unfolding is_digit_def by (rule nth_mem) simp

lemma string_of_nat_digits: "list_all is_digit (string_of_nat n)"
proof (induction n rule: string_of_nat.induct)
  case (1 n)
  then show ?case
    by (cases "n < 10") (simp_all add: digit_is_digit string_of_nat_large)
qed

lemma string_of_nat_not_Nil: "string_of_nat n \<noteq> []"
  by (cases "n < 10") (simp_all add: string_of_nat_large)

lemma string_of_nat_hd: "0 < n \<Longrightarrow> hd (string_of_nat n) \<noteq> CHR ''0''"
proof (induction n rule: string_of_nat.induct)
  case (1 n)
  show ?case
  proof (cases "n < 10")
    case True
    have "''0123456789'' ! n \<noteq> ''0123456789'' ! 0"
      by (subst nth_eq_iff_index_eq) (use True 1(2) in simp_all)
    with True show ?thesis by simp
  next
    case False
    then have "0 < n div 10" by simp
    with 1 False show ?thesis
      by (simp add: string_of_nat_large string_of_nat_not_Nil)
  qed
qed

lemma string_of_nat_zero_length: "hd (string_of_nat n) = CHR ''0'' \<Longrightarrow> length (string_of_nat n) = 1"
  using string_of_nat_hd [of n] by (cases "n = 0") simp_all

lemma parse_nat_string_of_nat [simp]:
  "\<not> is_digit c \<Longrightarrow> parse_nat (string_of_nat n @ c # r) = Some (n, c # r)"
proof -
  assume c: "\<not> is_digit c"
  have d: "\<And>x. x \<in> set (string_of_nat n) \<Longrightarrow> is_digit x"
    using string_of_nat_digits [of n] by (simp add: list_all_iff)
  have t: "takeWhile is_digit (string_of_nat n @ c # r) = string_of_nat n"
    using c d by (simp add: takeWhile_append2)
  have w: "dropWhile is_digit (string_of_nat n @ c # r) = c # r"
    using c d by (simp add: dropWhile_append2)
  show ?thesis
    using string_of_nat_not_Nil [of n] string_of_nat_zero_length [of n]
    by (simp add: parse_nat_def Let_def t w nat_of_digits_string_of_nat)
qed


lemma parse_value_str [simp]:
  "parse_value (QUOTE # concat (map json_escape s) @ QUOTE # r) = Some (JStr s, r)"
  by (simp add: parse_value_def json_ws_def)

lemma parse_value_nat [simp]:
  assumes "\<not> is_digit c"
  shows "parse_value (string_of_nat k @ c # r) = Some (JNum k, c # r)"
proof -
  obtain d ds where sd: "string_of_nat k = d # ds"
    using string_of_nat_not_Nil [of k] by (cases "string_of_nat k") auto
  have "is_digit d" using string_of_nat_digits [of k] sd by simp
  then have "\<not> json_ws d" "d \<noteq> QUOTE" by (auto simp: is_digit_def json_ws_def)
  with sd assms show ?thesis
    using parse_nat_string_of_nat [OF assms, of k r] by (simp add: parse_value_def)
qed

lemma json_escape_plain [simp]:
  "c \<noteq> QUOTE \<Longrightarrow> c \<noteq> BSL \<Longrightarrow> 32 \<le> (of_char c :: nat) \<Longrightarrow> json_escape c = [c]"
  by (auto simp: json_escape_def)

lemma parse_object_record:
  assumes "4 \<le> n"
  shows "parse_object n (stringify_record r @ rest) = Some (kv_of r, rest)"
proof -
  obtain m where n: "n = Suc (Suc (Suc (Suc m)))"
    using assms by (cases n; cases "n - 1"; cases "n - 2"; cases "n - 3") auto
  show ?thesis
  proof (cases "size r")
    case None
    then show ?thesis
      by (simp add: n parse_object_def stringify_record_def json_quote_def expect_def json_ws_def
          kv_of_def)
  next
    case (Some k)
    have "\<not> is_digit CHR ''}''" by (simp add: is_digit_def)
    with Some show ?thesis
      by (simp add: n parse_object_def stringify_record_def json_quote_def expect_def json_ws_def
          kv_of_def)
  qed
qed

lemma record_of_kv [simp]: "record_of (kv_of r) = Some r"
  by (cases "size r") (simp_all add: record_of_def kv_of_def str_member_def member_def)


lemma stringify_record_Cons: "\<exists>t. stringify_record r = CHR ''{'' # t"
  by (simp add: stringify_record_def)

lemma stringify_record_length: "5 \<le> length (stringify_record r)"
  by (simp add: stringify_record_def json_quote_def)

lemma join_comma_length: "sum_list (map length xs) \<le> length (join_comma xs)"
  by (induction xs rule: join_comma.induct) simp_all

lemma parse_elems_records:
  "ms \<noteq> [] \<Longrightarrow> length ms + 4 \<le> n \<Longrightarrow>
     parse_elems n (join_comma (map stringify_record ms) @ CHR '']'' # rest) = Some (map kv_of ms, rest)"
proof (induction ms arbitrary: n)
  case Nil
  then show ?case by simp
next
  case (Cons r ms)
  obtain n' where n: "n = Suc n'" using Cons.prems(2) by (cases n) auto
  have n4: "4 \<le> n'" using Cons.prems(2) n by simp
  show ?case
  proof (cases ms)
    case Nil
    then show ?thesis
      using parse_object_record [OF n4, of r "CHR '']'' # rest"] by (simp add: n json_ws_def)
  next
    case (Cons r2 rs)
    have ih: "parse_elems n' (join_comma (map stringify_record ms) @ CHR '']'' # rest) = Some (map kv_of ms, rest)"
      using Cons.IH [of n'] Cons.prems(2) n \<open>ms = r2 # rs\<close> by simp
    have "parse_object n' (stringify_record r @ CHR '','' # join_comma (map stringify_record ms) @ CHR '']'' # rest)
        = Some (kv_of r, CHR '','' # join_comma (map stringify_record ms) @ CHR '']'' # rest)"
      by (rule parse_object_record [OF n4])
    with ih \<open>ms = r2 # rs\<close> show ?thesis by (simp add: n json_ws_def)
  qed
qed

lemma those_map_Some: "those (map Some xs) = Some xs"
  by (induction xs) simp_all

lemma parse_stringify_metadata: "parse_metadata (stringify_metadata ms) = Some ms"
proof (cases "ms = []")
  case True
  then show ?thesis
    by (simp add: parse_metadata_def stringify_metadata_def parse_array_def expect_def json_ws_def)
next
  case False
  let ?j = "join_comma (map stringify_record ms)"
  have len: "length ms + 4 \<le> length (stringify_metadata ms)"
  proof -
    have "5 * length ms \<le> sum_list (map length (map stringify_record ms))"
      using stringify_record_length by (induction ms) (auto simp: add_mono)
    also have "\<dots> \<le> length ?j" by (rule join_comma_length)
    finally have "5 * length ms \<le> length ?j" .
    moreover have "0 < length ms" using False by simp
    ultimately have "length ms + 4 \<le> length ?j + 2" by linarith
    then show ?thesis by (simp add: stringify_metadata_def)
  qed
  obtain r rs where ms: "ms = r # rs" using False by (cases ms) auto
  obtain t where t: "stringify_record r = CHR ''{'' # t" using stringify_record_Cons by blast
  have nb: "expect CHR '']'' (?j @ '']'') = None"
    using ms t by (cases rs) (simp_all add: expect_def json_ws_def)
  have e: "parse_elems (length (stringify_metadata ms)) (?j @ CHR '']'' # []) = Some (map kv_of ms, [])"
    by (rule parse_elems_records [OF False len])
  have "parse_array (stringify_metadata ms) = Some (map kv_of ms)"
    using nb e by (simp add: parse_array_def stringify_metadata_def expect_def json_ws_def)
  then show ?thesis
    by (simp add: parse_metadata_def comp_def those_map_Some)
qed


subsection \<open>Properties of the metadata file\<close>

text \<open>C33. What a save writes is what the next start loads: after the list \<open>m\<close> has
  been set (and, being non-empty, saved), a fresh start over the file installs \<open>m\<close>.\<close>

theorem save_restart_load_roundtrip:
  assumes "m \<noteq> []"
  shows "file_metadata (loadModelMetadata_file (meta_mount_file (metadata_file (set_metadata_file m c)))) = m"
  using assms
  by (simp add: loadModelMetadata_file_def meta_mount_file_def set_metadata_file_def parse_stringify_metadata)

subsection \<open>Witnesses\<close>

theorem save_restart_load_roundtrip_witness:
  "file_metadata (loadModelMetadata_file (meta_mount_file (metadata_file
      (set_metadata_file [ex_record\<lparr>filename := ''a'' @ [QUOTE, BSL, CHR 0x01]\<rparr>] (meta_mount_file None)))))
   = [ex_record\<lparr>filename := ''a'' @ [QUOTE, BSL, CHR 0x01]\<rparr>]"
  using save_restart_load_roundtrip [of "[ex_record\<lparr>filename := ''a'' @ [QUOTE, BSL, CHR 0x01]\<rparr>]"]
  by simp

end
