(* ===== verification/Progress.thy ===== *)
theory Progress
  imports Session
begin

text \<open>
  Progress of the completion session: the flags that disable the Send button are raised
  only while a completion is in flight, so once the engine has resolved every
  completion in flight, Send is enabled again.
\<close>

definition busy_inv :: "session_state \<Rightarrow> bool" where
  "busy_inv s \<longleftrightarrow> (isLoading s \<or> isGenerating s \<longrightarrow> completions s \<noteq> [])"

lemma busy_inv_init: "busy_inv session_init"
  by (simp add: busy_inv_def session_init_def)

lemma busy_inv_step:
  assumes inv: "busy_inv s" and st: "session_step s e = Some s'"
  shows "busy_inv s'"
proof (cases e)
  case (TokenEvent k t)
  with st obtain st0 where "map_of (completions s) k = Some st0" "s' = completion_token k st0 t s"
    by (auto split: option.splits)
  with inv show ?thesis
    by (auto simp: busy_inv_def completion_token_def case_prod_beta)
next
  case SendMessage
  with inv st show ?thesis
    by (auto simp: busy_inv_def handleSendMessage_def split: if_splits)
next
  case (StopGeneration ok)
  with inv st show ?thesis
    by (auto simp: busy_inv_def stopGeneration_def split: if_splits)
next
  case BackToModelSelection
  with inv st show ?thesis
    by (auto simp: busy_inv_def handleBackToModelSelection_def split: if_splits)
next
  case (SelectModel f)
  with inv st show ?thesis
    by (auto simp: busy_inv_def select_model_def loadModel_start_def Let_def split: if_splits)
next
  case ModelLoaded
  with inv st show ?thesis
    by (auto simp: busy_inv_def loadModel_done_def split: if_splits)
next
  case (ModelLoadFailed x)
  with inv st show ?thesis
    by (auto simp: busy_inv_def loadModel_done_def split: if_splits)
qed (use inv st in \<open>auto simp: busy_inv_def completion_done_def completion_failed_def split: if_splits\<close>)

lemma reachable_busy_inv: "reachable s \<Longrightarrow> busy_inv s"
  by (induction rule: reachable.induct) (auto intro: busy_inv_init busy_inv_step)

lemma drain_completions:
  assumes "distinct (map fst (completions s))" and "busy_inv s"
  shows "\<exists>s'. session_run s (map (\<lambda>k. CompletionDone k x) (map fst (completions s))) = Some s'
           \<and> completions s' = [] \<and> \<not> isLoading s' \<and> \<not> isGenerating s'"
  using assms
proof (induction "completions s" arbitrary: s)
  case Nil
  then show ?case by (simp add: busy_inv_def)
next
  case (Cons kv rest)
  obtain k v where kv: "kv = (k, v)" by fastforce
  let ?s1 = "completion_done k x s"
  have cs: "completions s = (k, v) # rest" using Cons.hyps(2) kv by simp
  have "distinct (map fst ((k, v) # rest))" using Cons.prems(1) Cons.hyps(2) kv by metis
  then have k: "k \<notin> set (map fst rest)" by simp
  have c1: "completions ?s1 = rest"
    using cs k by (simp add: completion_done_def delete_id image_iff)
  have step: "session_step s (CompletionDone k x) = Some ?s1"
    using cs by simp
  have "distinct (map fst (completions ?s1))" using Cons.prems(1) cs c1 by simp
  moreover have "busy_inv ?s1" by (simp add: busy_inv_def completion_done_def)
  ultimately obtain s' where
    "session_run ?s1 (map (\<lambda>k. CompletionDone k x) (map fst (completions ?s1))) = Some s'"
    "completions s' = []" "\<not> isLoading s'" "\<not> isGenerating s'"
    using Cons.hyps(1) [OF c1 [symmetric]] by blast
  with step c1 cs show ?case by auto
qed

text \<open>C35. From every reachable state, when the engine resolves each completion still in
  flight (in the order they were started), no completion is left and neither
  \<open>isLoading\<close> nor \<open>isGenerating\<close> holds: the Send button is enabled again.\<close>

theorem completions_drain:
  assumes "reachable s"
  shows "\<exists>s'. session_run s (map (\<lambda>k. CompletionDone k x) (map fst (completions s))) = Some s'
           \<and> completions s' = [] \<and> \<not> isLoading s' \<and> \<not> isGenerating s'"
proof -
  have "distinct (map fst (completions s))"
    using reachable_inv [OF assms] by (simp add: session_inv_def)
  then show ?thesis using reachable_busy_inv [OF assms] by (rule drain_completions)
qed

theorem completions_drain_witness:
  "isLoading (run_from_init ex_streaming)
   \<and> (\<exists>s'. session_run (run_from_init ex_streaming)
            (map (\<lambda>k. CompletionDone k 5) (map fst (completions (run_from_init ex_streaming)))) = Some s'
          \<and> completions s' = [] \<and> \<not> isLoading s' \<and> \<not> isGenerating s')"
proof -
  have "isLoading (run_from_init ex_streaming)" by code_simp
  then show ?thesis using completions_drain [OF ex_reachable(3), of 5] by blast
qed

end
