(* ===== verification/Spec2Isabelle.thy ===== *)
theory Spec2Isabelle
  imports View Styles Json Progress
begin

text \<open>
  \<^bold>\<open>A verification model of MyAndroidLLM (\<open>src/App.tsx\<close>).\<close>

  The program is one React Native component, \<open>App\<close>, whose state hooks hold
  everything: the model metadata list and its JSON file, the list of downloaded
  \<open>.gguf\<close> files, the loaded llama.rn context, the conversation, and the flags
  that gate the buttons. Its handlers are the operations: \<open>handleDownloadModel\<close>
  (download or reuse a file, then \<open>loadModel\<close>), \<open>loadModel\<close> (release the old
  context, \<open>initLlama\<close> a new one), \<open>handleSendMessage\<close> (append the user turn
  and an assistant placeholder, stream the completion into it through a token
  callback that splits out \<open><think>...</think>\<close> reasoning), \<open>stopGeneration\<close>,
  \<open>toggleThought\<close>, \<open>deleteModel\<close>, \<open>handleBackToModelSelection\<close>, and two mount
  effects that load the metadata file and reconcile it with the files on disk.

  \<^bold>\<open>Theories.\<close>
  \<^item> \<open>Prelude\<close>: the JavaScript primitives the code calls, as executable HOL
    (\<open>indexOf\<close> as \<open>index_of\<close>, \<open>includes\<close> as \<open>str_includes\<close>, string
    \<open>replace\<close> as \<open>replace_first\<close>, \<open>trim\<close>, \<open>endsWith\<close>, \<open>findIndex\<close>,
    updating the last array element), with the decomposition lemmas the components
    share (first occurrence after a prefix without the pattern; patterns without a
    border, such as both reasoning markers, cannot straddle a cut).
  \<^item> \<open>Messages\<close>: the conversation log, \<open>Message\<close> as a record, the initial
    system turn, the user turn and assistant placeholder of \<open>handleSendMessage\<close>,
    the updaters of \<open>toggleThought\<close> and \<open>stopGeneration\<close>.
  \<^item> \<open>ThinkParser\<close>: the token callback of \<open>handleSendMessage\<close> (lines 540-607):
    its stream state, the regular expression \<open>/<think>.*?<\/think>/gs\<close> as the
    terminating function \<open>strip_think\<close>, the callback \<open>on_token\<close> with its four
    branches in source order, and \<open>stream_tokens\<close>, the callbacks of one completion
    in arrival order. Proved: the streamed turn's visible content is a function of the
    concatenated text only (C1) and hides a marker pair however it is split (C2); the
    reasoning is extracted when each marker is a token of its own (C3) and never when
    no token holds a whole marker (C4, the spec's own split example is the witness);
    an unclosed block stays visible (C5).

  \<^item> \<open>Session\<close>: the completion session and the model session as one step
    function \<open>session_step\<close> over a record of the state hooks they share (lines
    47-66, 152-167, 415-629): \<open>handleSendMessage\<close> with its button guard, the token
    callback, the end and the failure of a completion, \<open>stopGeneration\<close>,
    \<open>toggleThought\<close>, \<open>handleBackToModelSelection\<close>, the two halves of
    \<open>loadModel\<close> around \<open>initLlama\<close>. The engine's contexts are numbered and the
    live ones listed, so \<open>releaseAllLlama\<close> is observable. Completions are keyed
    by a counter, as the closures of the source are, so a late callback of a stopped
    completion is an event of the model. Proved by rule induction on \<open>reachable\<close>:
    at most one live context, the loaded one (C6); the log keeps its system turn
    followed by user/assistant pairs (C7). Proved of single steps and runs: a stop
    keeps the streamed text and appends the notice (C8), which a late token overwrites
    (C9); the throughput samples label the assistant turns while no completion fails
    (C10) and are shifted by one failure (C11); leaving the page with a completion
    running lets its token overwrite the system prompt (C12); a send without a model
    or with a blank input only raises its alert (C13). The alerts of \<open>Alert.alert\<close>
    are kept as a log of the dialogs shown.
  \<^item> \<open>Progress\<close>: the flags that disable Send (\<open>isLoading\<close>, \<open>isGenerating\<close>)
    are raised only while a completion is in flight, an invariant of the reachable
    states; hence resolving every completion in flight re-enables Send (C35).
  \<^item> \<open>Metadata\<close>: the metadata store (lines 31-37, 64-128, 184-191,
    235-292, 335-392, 466-475, 658-659): \<open>inferModelFormat\<close> as \<open>infer_format\<close>, the upsert, backfill and
    removal of records, the reconciliation of \<open>checkDownloadedModels\<close>, the save
    effect that skips the empty list, and the two orders in which the mount effects'
    promises can settle. Proved: one order of the mount effects duplicates the discovered records (C16), the other
    discards them (C17); deleting the last model leaves the file stale (C18); the
    upsert is the library's \<open>AList.update\<close> (C34).
  \<^item> \<open>Download\<close>: the handlers that touch both stores, over an application
    record holding the session, the metadata store, the files on disk and the
    download flags: \<open>handleDownloadModel\<close> with the \<open>loadModel\<close> it calls,
    \<open>handleGGUFSelection\<close> with \<open>handleDownloadAndNavigate\<close>, \<open>deleteModel\<close>,
    \<open>handleFormatSelection\<close> with its request URL built from the \<open>HF_TO_GGUF\<close> table of
    \<open>Metadata\<close>. The results of \<open>RNFS.exists\<close> (whose rejection
    \<open>checkFileExists\<close> turns into \<open>false\<close>), \<open>RNFS.stat\<close>, \<open>initLlama\<close>, the
    transfer and \<open>unlink\<close> are inputs (the fields of a record for a download), so every branch of the
    \<open>try\<close>/\<open>catch\<close> blocks is reached by some input. The transfer \<open>downloadModel\<close>
    of \<open>src/api/model\<close> is not among the sources and is modelled from the spec as
    the list of its progress reports. Proved: a file on disk that loads is not
    transferred (C20) but gets no record when it had none (C27); one that fails to
    load, or whose existence check rejects, is transferred again (C21); a failed
    transfer is reported and changes no store (C22); a completed one is recorded once
    with its size and format (C23), unless its \<open>stat\<close> fails, which leaves an
    unrecorded file on disk (C24); a confirmed deletion removes the file everywhere (C25); a failed
    download still navigates to the conversation page with no model (C26). The
    uncalled \<open>fetchAvailableGGUFs\<close> is modelled with the same inputs as
    \<open>handleFormatSelection\<close>.
  \<^item> \<open>Display\<close>: the helpers the model list renders with (lines 305-318, 625-628,
    682-695): \<open>formatFileSize\<close> with the number formatting it relies on
    (\<open>String(n)\<close> as \<open>string_of_nat\<close>, \<open>toFixed(1)\<close> as \<open>to_fixed1\<close>, which
    rounds the exact quotient half up; sizes are whole numbers below \<open>2^53\<close>, so the
    quotient by a power of 1024 is an exact double), \<open>getModelSize\<close>,
    \<open>getModelFormatInfo\<close> and the auto-scroll test of \<open>handleScroll\<close>. Proved: the
    number shown is within 0.05 of the size in its unit (C28); sizes just below one
    mebibyte are shown as \<open>1024.0 KB\<close> (C29).
  \<^item> \<open>AppModel\<close>: the application as one step function \<open>app_step\<close> over the
    record of \<open>Download\<close>: the controls of the model-selection page (lines 731-931:
    \<open>All Local Models\<close>, the format buttons, the catalogue list, which loads a
    downloaded file and asks to download any other, the downloaded section grouped
    by format, the delete buttons) and the session events of \<open>Session\<close>. A control
    runs its handler to the end in one step: the page hides its controls while a
    download runs and the load overlay takes every touch. Proved by rule induction on
    \<open>app_reachable\<close>: from a state with the application invariant every run keeps
    it (C31); a downloaded file whose format is not a catalogue label can be neither
    opened nor deleted from the downloaded section (C32).
  \<^item> \<open>View\<close>: the tree \<open>App\<close> returns (lines 699-1049) as \<open>render\<close>, a list of
    widgets in drawing order built from one definition per part of the JSX (the load
    overlay and error, the filter buttons with their badges, the catalogue list with its
    labels and sizes, the downloaded section, the turns of the conversation with their
    thought toggles and throughput labels, the download card, the input row), with the
    JavaScript it evaluates (\<open>split\<close> as \<open>js_split\<close>, an array read with a numeric
    key as \<open>js_get\<close>, \<open>String\<close> of a sample as \<open>number_text\<close>). \<open>touchable\<close> is
    what a touch can reach. Proved: the thought toggle drawn beside a turn shows or
    hides the reasoning of that turn and of no other, its \<open>index + 1\<close> naming in the
    full log the turn drawn from \<open>conversation.slice(1)\<close> (C15); the label test
    \<open>file.split("-")[-1]\<close> is never true, and every \<open>imat\<close> file is labelled
    \<open>imat\<close> (C30).
  \<^item> \<open>Styles\<close>: the style sheet \<open>StyleSheet.create\<close> (lines 1052-1547) as four
    association lists of style names and property lists (split to follow the source),
    \<open>StyleSheet.flatten\<close> of a style array (left to right, later entries overriding, falsy
    and unknown entries skipped), and the conditional style arrays of the filter buttons,
    the catalogue files and their labels, and the message bubbles and texts. Proved: a
    user's turn is drawn on the right in blue with white text and every other turn on
    the left in white with slate text, the text never in the colour of its bubble
    (C14); in every state reached from a proper start exactly one filter button has the
    selected background (C19).
  \<^item> \<open>Json\<close>: the metadata file \<open>model_metadata.json\<close> (lines 88-128): the
    encoder \<open>JSON.stringify\<close> on the program's records (keys in creation order, a
    missing size omitted, strings escaped as \<open>QuoteJSONString\<close> does) and a parser
    for the texts of that shape (\<open>JSON.parse\<close> on an array of flat objects with string
    and whole-number members; its object and array loops take the text's length as
    fuel), and the file-backed store with its save and load effects. Proved: a saved
    list is what the next start loads (C33).

  Fuel appears once, in the JSON parser's object and array loops, which are given the
  text's length; each round consumes at least one character, and the round trip C33
  is proved with exactly that fuel, so every text the program writes is read back in
  full. Everything else recurses structurally or, for the
  regular expression, on the length of the text.

  \<^bold>\<open>Not modelled.\<close> Layout: the tree of \<open>View\<close> keeps what is drawn and what can
  be touched, \<open>Styles\<close> the sheet and the style arrays of the buttons, files and
  bubbles, not the style arrays of the other elements nor how a style is laid out;
  the glyphs are named rather than spelled (the source stores them mis-encoded); scrolling (only the auto-scroll test of \<open>handleScroll\<close>
  is modelled), the alert dialogs beyond their text (a confirmation is an input), the
  remote catalogue beyond its answer to the request URL (the file system is the map \<open>disk\<close>; a rejection of
  \<open>RNFS.exists\<close> is an input of \<open>handleDownloadModel\<close> and \<open>deleteModel\<close>), JSON texts of other shapes than the file's (a
  \<open>None\<close> of the parser), the token generation of llama.rn (its token events and
  timing are inputs of the model), and the README (\<open>src/unnamed/part_000\<close>), which
  is documentation. Each handler of the model-selection page is one step of
  \<open>AppModel\<close>; the interleavings inside a load are those of \<open>Session\<close>.
  Strings are byte lists; the markers and keywords the code searches for are ASCII, so
  byte and UTF-16 matching agree on them, and \<open>trim\<close> is modelled on the ASCII white
  space only.
\<close>

end
